theory Spec2Isabelle
  imports Complex_Main
begin

unbundle bit_operations_syntax

section \<open>JavaScript numbers\<close>

text \<open>
  Every JavaScript number is an IEEE 754 binary64 value. Two kinds of quantity occur in the
  environment server. Integer-valued ones (the seed, counters, clock readings) are
  modelled as \<open>int\<close>; where the source multiplies or adds them, the rounding of an exact
  integer result to the nearest representable double (53 significant bits, ties to even)
  is written out as \<open>round_double\<close>, because the seed recurrence reaches past \<open>2^53\<close>.
  Continuous ones (positions, velocities, rewards) are modelled as \<open>real\<close>.
\<close>

function drop_bits :: "int \<Rightarrow> nat \<Rightarrow> nat" where
  "drop_bits a e = (if a < 2 ^ 53 then e else drop_bits (a div 2) (Suc e))"
  by pat_completeness auto
termination
  by (relation "measure (\<lambda>(a, e). nat a)") auto

declare drop_bits.simps [simp del]

text \<open>
  \<open>round_double n\<close>: the double nearest to the integer \<open>n\<close> (for \<open>\<bar>n\<bar> < 2^1024\<close>).
  \<open>drop_bits \<bar>n\<bar> 0\<close> is the number of low bits that do not fit into the significand.
\<close>

definition round_double :: "int \<Rightarrow> int" where
  "round_double n =
     (let a = \<bar>n\<bar>; e = drop_bits a 0; q = a div 2 ^ e; r = a mod 2 ^ e in
      if e = 0 then n
      else sgn n * ((if 2 * r > 2 ^ e \<or> (2 * r = 2 ^ e \<and> odd q) then q + 1 else q) * 2 ^ e))"

text \<open>The operators \<open>*\<close> and \<open>+\<close> of the source, on integer-valued doubles.\<close>

definition js_mul :: "int \<Rightarrow> int \<Rightarrow> int" where
  "js_mul a b = round_double (a * b)"

definition js_add :: "int \<Rightarrow> int \<Rightarrow> int" where
  "js_add a b = round_double (a + b)"

text \<open>\<open>ToInt32\<close>, applied by the bitwise operators to their operands.\<close>

definition ToInt32 :: "int \<Rightarrow> int" where
  "ToInt32 n = (let m = n mod 2 ^ 32 in if m \<ge> 2 ^ 31 then m - 2 ^ 32 else m)"

definition js_bitand :: "int \<Rightarrow> int \<Rightarrow> int" where
  "js_bitand a b = ToInt32 a AND ToInt32 b"

section \<open>Vectors, bodies and the physics world\<close>

datatype vec3 = Vec3 (vec_x: real) (vec_y: real) (vec_z: real)

definition set_x :: "real \<Rightarrow> vec3 \<Rightarrow> vec3" where
  "set_x r v = Vec3 r (vec_y v) (vec_z v)"

definition set_y :: "real \<Rightarrow> vec3 \<Rightarrow> vec3" where
  "set_y r v = Vec3 (vec_x v) r (vec_z v)"

definition set_z :: "real \<Rightarrow> vec3 \<Rightarrow> vec3" where
  "set_z r v = Vec3 (vec_x v) (vec_y v) r"

text \<open>
  \<open>v ?? d\<close>: the default \<open>d\<close> when \<open>v\<close> is absent (\<open>undefined\<close> or \<open>null\<close>).
\<close>

definition orDefault :: "'a option \<Rightarrow> 'a \<Rightarrow> 'a" where
  "orDefault v d = (case v of Some a \<Rightarrow> a | None \<Rightarrow> d)"

text \<open>
  The class \<open>PhysicsWorld\<close> (\<open>src/physics/PhysicsWorld.js\<close>, imported by \<open>server.js\<close>) wraps
  the cannon-es engine: it keeps the gravity scalar, the timestep, the engine's world and
  the map \<open>bodies\<close> from names to the bodies created through it. The engine is an external
  library; what it does in \<open>this.world.step(this.timeStep)\<close> is a parameter (\<open>backend\<close>) of
  everything that advances time. \<open>PhysicsWorld.step()\<close> consists of that one call: it
  never adds a name to \<open>this.bodies\<close> nor removes one.

  Of an engine body the model keeps what the tasks read or write: position, velocity,
  mass, shape and \<open>linearDamping\<close> (\<open>None\<close> is the engine's default, kept until a task
  assigns the field). The body type follows from the mass (\<open>STATIC\<close> for mass 0), since no
  caller passes \<open>type\<close>; the quaternion and the contact material are read by no task.
\<close>

datatype shape = Box vec3 | Capsule real real

record body =
  position :: vec3
  velocity :: vec3
  mass :: real
  shape :: shape
  linearDamping :: "real option"

record PhysicsWorld =
  world_gravity :: real
  world_timeStep :: real
  bodies :: "string \<rightharpoonup> body"

type_synonym backend = "PhysicsWorld \<Rightarrow> PhysicsWorld"

text \<open>
  \<open>constructor(options = {})\<close>: \<open>this.gravity = options.gravity ?? 9.81\<close>,
  \<open>this.timeStep = options.timeStep ?? 1 / 60\<close>, \<open>this.bodies = new Map()\<close>. The two
  arguments are \<open>options.gravity\<close> and \<open>options.timeStep\<close>.
\<close>

definition new_PhysicsWorld :: "real option \<Rightarrow> real option \<Rightarrow> PhysicsWorld" where
  "new_PhysicsWorld g dt =
     \<lparr>world_gravity = orDefault g 9.81, world_timeStep = orDefault dt (1 / 60),
      bodies = Map.empty\<rparr>"

text \<open>
  \<open>addBody(name, body)\<close>: \<open>this.bodies.set(name, body)\<close>; a body added under a name in use
  replaces the earlier one. (The call also hands the body to the engine's world.)
\<close>

definition addBody :: "string \<Rightarrow> body \<Rightarrow> PhysicsWorld \<Rightarrow> PhysicsWorld" where
  "addBody name b w = w\<lparr>bodies := (bodies w)(name \<mapsto> b)\<rparr>"

text \<open>
  \<open>createBox(name, {position, size, mass})\<close> and
  \<open>createCapsule(name, {position, radius, height, mass})\<close> build an engine body at
  \<open>position\<close>, at rest, and hand it to \<open>addBody\<close>. Every call in the tasks passes all of
  these options, so the defaults of the destructuring are not needed.
\<close>

definition createBox :: "string \<Rightarrow> vec3 \<Rightarrow> vec3 \<Rightarrow> real \<Rightarrow> PhysicsWorld \<Rightarrow> PhysicsWorld" where
  "createBox name pos sz m w =
     addBody name
       \<lparr>position = pos, velocity = Vec3 0 0 0, mass = m, shape = Box sz,
        linearDamping = None\<rparr> w"

definition createCapsule ::
  "string \<Rightarrow> vec3 \<Rightarrow> real \<Rightarrow> real \<Rightarrow> real \<Rightarrow> PhysicsWorld \<Rightarrow> PhysicsWorld" where
  "createCapsule name pos radius height m w =
     addBody name
       \<lparr>position = pos, velocity = Vec3 0 0 0, mass = m, shape = Capsule radius height,
        linearDamping = None\<rparr> w"

text \<open>\<open>getBody(name)\<close>: \<open>this.bodies.get(name)\<close>, \<open>undefined\<close> (here \<open>None\<close>) for a missing name.\<close>

definition getBody :: "PhysicsWorld \<Rightarrow> string \<Rightarrow> body option" where
  "getBody w name = bodies w name"

text \<open>
  The tasks mutate the body object that \<open>getBody\<close> returned (\<open>agent.velocity.x = ...\<close>,
  \<open>block.position.set(...)\<close>); the world holds the same object. In the model the updated
  body is written back under its name.
\<close>

definition setBody :: "string \<Rightarrow> body \<Rightarrow> PhysicsWorld \<Rightarrow> PhysicsWorld" where
  "setBody name b w = w\<lparr>bodies := (bodies w)(name \<mapsto> b)\<rparr>"

text \<open>
  \<open>getBodyState(name)\<close>: \<open>null\<close> (here \<open>None\<close>) for a missing body, otherwise the position
  and the velocity of the body (and its quaternion, which no observation uses).
\<close>

definition getBodyState :: "PhysicsWorld \<Rightarrow> string \<Rightarrow> (vec3 \<times> vec3) option" where
  "getBodyState w name = map_option (\<lambda>b. (position b, velocity b)) (bodies w name)"

section \<open>Errors and configuration\<close>

datatype error = Error string | TypeError string

text \<open>
  The configuration object of \<open>server.js\<close>: the keys of \<open>DEFAULT_CONFIG\<close>, the optional
  \<open>taskVersion\<close>, and the task-specific overrides read by the task constructors with
  \<open>??\<close> (\<open>None\<close> is an absent or null key).
\<close>

record Config =
  task :: string
  taskVersion :: "string option"
  gravity :: real
  seed :: int
  maxSteps :: int
  physicsTicksPerStep :: int
  timeStep :: real
  gapWidth :: "real option"
  gapVariance :: "real option"
  goalPlatformWidth :: "real option"
  landingZoneWidth :: "real option"
  landingZoneStart :: "real option"
  landingZoneEnd :: "real option"
  basketDistance :: "real option"
  basketDistanceVariance :: "real option"
  basketHeight :: "real option"

text \<open>The configuration a reset request supplies: every key may be absent.\<close>

record ConfigRequest =
  req_task :: "string option"
  req_taskVersion :: "string option"
  req_gravity :: "real option"
  req_seed :: "int option"
  req_maxSteps :: "int option"
  req_physicsTicksPerStep :: "int option"
  req_timeStep :: "real option"
  req_gapWidth :: "real option"
  req_gapVariance :: "real option"
  req_goalPlatformWidth :: "real option"
  req_landingZoneWidth :: "real option"
  req_landingZoneStart :: "real option"
  req_landingZoneEnd :: "real option"
  req_basketDistance :: "real option"
  req_basketDistanceVariance :: "real option"
  req_basketHeight :: "real option"

text \<open>\<open>{ ...DEFAULT_CONFIG, ...config }\<close>\<close>

definition mergeConfig :: "ConfigRequest \<Rightarrow> Config" where
  "mergeConfig r =
     \<lparr>task = orDefault (req_task r) ''gap'',
      taskVersion = req_taskVersion r,
      gravity = orDefault (req_gravity r) 9.81,
      seed = orDefault (req_seed r) 42,
      maxSteps = orDefault (req_maxSteps r) 500,
      physicsTicksPerStep = orDefault (req_physicsTicksPerStep r) 10,
      timeStep = orDefault (req_timeStep r) (1 / 60),
      gapWidth = req_gapWidth r,
      gapVariance = req_gapVariance r,
      goalPlatformWidth = req_goalPlatformWidth r,
      landingZoneWidth = req_landingZoneWidth r,
      landingZoneStart = req_landingZoneStart r,
      landingZoneEnd = req_landingZoneEnd r,
      basketDistance = req_basketDistance r,
      basketDistanceVariance = req_basketDistanceVariance r,
      basketHeight = req_basketHeight r\<rparr>"

section \<open>BaseTask\<close>

text \<open>
  \<open>seededRandom\<close> overwrites \<open>config.seed\<close> and returns the new seed divided by
  \<open>0x7fffffff\<close>; the model returns the updated configuration with the drawn number.
\<close>

definition seededRandom :: "Config \<Rightarrow> Config \<times> real" where
  "seededRandom cfg =
     (let s = js_bitand (js_add (js_mul (seed cfg) 1103515245) 12345) 0x7fffffff
      in (cfg\<lparr>seed := s\<rparr>, real_of_int s / 0x7fffffff))"

definition randomInRange :: "real \<Rightarrow> real \<Rightarrow> Config \<Rightarrow> Config \<times> real" where
  "randomInRange lo hi cfg =
     (let (cfg', r) = seededRandom cfg in (cfg', lo + r * (hi - lo)))"

text \<open>The default \<open>getReward\<close>, which every task repeats: sparse reward.\<close>

definition getReward :: "bool \<Rightarrow> bool \<Rightarrow> real" where
  "getReward dn success = (if success then 1 else 0)"

text \<open>The recurrence the generator is meant to follow.\<close>

definition lcg :: "int \<Rightarrow> int" where
  "lcg s = (s * 1103515245 + 12345) mod 2 ^ 31"

section \<open>Actions\<close>

text \<open>
  The step interface carries \<open>action:(string|int)\<close>, but the server hands the JSON value of
  the request to \<open>applyAction\<close> unchanged; its only check, made by the \<open>/step\<close> handler, is
  \<open>action === undefined\<close>. So an action is any JSON value: a string, a number (any JSON
  number), \<open>null\<close>, a boolean, an array or an object.

  Each task normalises with
  \<open>typeof action === 'number' ? this.actions[action] : action.toLowerCase()\<close>. Indexing
  outside the list (or with a non-integer) gives \<open>undefined\<close>, here \<open>None\<close>. A value that is
  neither a number nor a string has no method \<open>toLowerCase\<close>, and the call raises a
  \<open>TypeError\<close>. \<open>toLowerCase\<close> is modelled on ASCII letters.
\<close>

datatype action =
    ActionString string
  | ActionNumber real
  | ActionNull
  | ActionBoolean bool
  | ActionArray
  | ActionObject

definition lowerChar :: "char \<Rightarrow> char" where
  "lowerChar c =
     (case map_of (zip ''ABCDEFGHIJKLMNOPQRSTUVWXYZ'' ''abcdefghijklmnopqrstuvwxyz'') c of
        Some d \<Rightarrow> d
      | None \<Rightarrow> c)"

definition toLowerCase :: "string \<Rightarrow> string" where
  "toLowerCase s = map lowerChar s"

definition indexActions :: "string list \<Rightarrow> real \<Rightarrow> string option" where
  "indexActions as r =
     (if 0 \<le> r \<and> r = of_int \<lfloor>r\<rfloor> \<and> nat \<lfloor>r\<rfloor> < length as
      then Some (as ! nat \<lfloor>r\<rfloor>) else None)"

definition normalizeAction :: "string list \<Rightarrow> action \<Rightarrow> error + string option" where
  "normalizeAction as a =
     (case a of
        ActionNumber r \<Rightarrow> Inr (indexActions as r)
      | ActionString s \<Rightarrow> Inr (Some (toLowerCase s))
      | ActionNull \<Rightarrow> Inl (TypeError ''Cannot read properties of null (reading 'toLowerCase')'')
      | _ \<Rightarrow> Inl (TypeError ''action.toLowerCase is not a function''))"

text \<open>\<open>Math.max(-m, Math.min(m, v))\<close>\<close>

definition clampSpeed :: "real \<Rightarrow> real \<Rightarrow> real" where
  "clampSpeed m v = max (- m) (min m v)"

definition clampHorizontal :: "real \<Rightarrow> body \<Rightarrow> body" where
  "clampHorizontal m b =
     b\<lparr>velocity := Vec3 (clampSpeed m (vec_x (velocity b))) (vec_y (velocity b))
                        (clampSpeed m (vec_z (velocity b)))\<rparr>"

definition setVelX :: "real \<Rightarrow> body \<Rightarrow> body" where
  "setVelX r b = b\<lparr>velocity := set_x r (velocity b)\<rparr>"

definition setVelY :: "real \<Rightarrow> body \<Rightarrow> body" where
  "setVelY r b = b\<lparr>velocity := set_y r (velocity b)\<rparr>"

definition setVelZ :: "real \<Rightarrow> body \<Rightarrow> body" where
  "setVelZ r b = b\<lparr>velocity := set_z r (velocity b)\<rparr>"

text \<open>\<open>agent.velocity.x *= f; agent.velocity.z *= f\<close>\<close>

definition dragHorizontal :: "real \<Rightarrow> body \<Rightarrow> body" where
  "dragHorizontal f b =
     b\<lparr>velocity := Vec3 (vec_x (velocity b) * f) (vec_y (velocity b)) (vec_z (velocity b) * f)\<rparr>"

text \<open>
  \<open>Math.abs(agent.velocity.y) < 0.1 && agent.position.y < this.agentHeight / 2 + 0.3\<close>
\<close>

definition groundedCheck :: "real \<Rightarrow> body \<Rightarrow> bool" where
  "groundedCheck h b \<longleftrightarrow> \<bar>vec_y (velocity b)\<bar> < 0.1 \<and> vec_y (position b) < h / 2 + 0.3"

record Zone =
  minX :: real
  maxX :: real
  minZ :: real
  maxZ :: real
  minY :: real
  maxY :: real

definition inZone :: "vec3 \<Rightarrow> Zone \<Rightarrow> bool" where
  "inZone pos zn \<longleftrightarrow>
     vec_x pos \<ge> minX zn \<and> vec_x pos \<le> maxX zn \<and>
     vec_z pos \<ge> minZ zn \<and> vec_z pos \<le> maxZ zn \<and>
     vec_y pos \<ge> minY zn \<and> vec_y pos \<le> maxY zn"

record TerminationResult =
  term_done :: bool
  success :: bool
  reason :: string

definition terminationResult :: "bool \<Rightarrow> bool \<Rightarrow> string \<Rightarrow> TerminationResult" where
  "terminationResult d s r = \<lparr>term_done = d, success = s, reason = r\<rparr>"

record BaseTask =
  successSteps :: nat
  requiredSuccessSteps :: nat

section \<open>GapCrossingTask\<close>

record GapCrossingTask = BaseTask +
  gapWidth :: real
  gapVariance :: real
  platformWidth :: real
  platformDepth :: real
  platformHeight :: real
  agentRadius :: real
  agentHeight :: real
  agentMass :: real
  moveForce :: real
  jumpImpulse :: real
  isGrounded :: bool
  canJump :: bool
  actions :: "string list"
  goalZone :: Zone
  gapStart :: real
  gapEnd :: real
  actualGapWidth :: real

text \<open>
  The constructor up to the call of \<open>setup()\<close>; the fields that \<open>setup()\<close> assigns are
  still undefined there and hold placeholders.
\<close>

definition GapCrossingTask_constructor :: "Config \<Rightarrow> GapCrossingTask" where
  "GapCrossingTask_constructor cfg =
     \<lparr>successSteps = 0, requiredSuccessSteps = 5,
      gapWidth = orDefault (Config.gapWidth cfg) 3.0,
      gapVariance = orDefault (Config.gapVariance cfg) 0.5,
      platformWidth = 5.0, platformDepth = 5.0, platformHeight = 0.5,
      agentRadius = 0.4, agentHeight = 1.8, agentMass = 70,
      moveForce = 500, jumpImpulse = 350,
      isGrounded = False, canJump = True,
      actions = [''forward'', ''back'', ''left'', ''right'', ''jump'', ''idle''],
      goalZone = \<lparr>minX = 0, maxX = 0, minZ = 0, maxZ = 0, minY = 0, maxY = 0\<rparr>,
      gapStart = 0, gapEnd = 0, actualGapWidth = 0\<rparr>"

definition GapCrossingTask_setup ::
  "GapCrossingTask \<times> PhysicsWorld \<times> Config \<Rightarrow> GapCrossingTask \<times> PhysicsWorld \<times> Config" where
  "GapCrossingTask_setup s =
     (case s of (t, w, cfg) \<Rightarrow>
       (case randomInRange (- gapVariance t) (gapVariance t) cfg of (cfg', jitter) \<Rightarrow>
         let actualGap = gapWidth t + jitter;
             w1 = createBox ''platformA'' (Vec3 0 (- platformHeight t / 2) 0)
                    (Vec3 (platformWidth t) (platformHeight t) (platformDepth t)) 0 w;
             platformBX = platformWidth t / 2 + actualGap + platformWidth t / 2;
             w2 = createBox ''platformB'' (Vec3 platformBX (- platformHeight t / 2) 0)
                    (Vec3 (platformWidth t) (platformHeight t) (platformDepth t)) 0 w1;
             t' = t\<lparr>goalZone :=
                       \<lparr>minX = platformBX - platformWidth t / 2 + 0.5,
                        maxX = platformBX + platformWidth t / 2 - 0.5,
                        minZ = - platformDepth t / 2 + 0.5,
                        maxZ = platformDepth t / 2 - 0.5,
                        minY = 0, maxY = 2.0\<rparr>,
                    gapStart := platformWidth t / 2,
                    gapEnd := platformWidth t / 2 + actualGap,
                    actualGapWidth := actualGap\<rparr>;
             agentStartX = - platformWidth t / 4;
             w3 = createCapsule ''agent'' (Vec3 agentStartX (agentHeight t / 2 + 0.1) 0)
                    (agentRadius t) (agentHeight t) (agentMass t) w2
         in (t', w3, cfg')))"

definition new_GapCrossingTask ::
  "PhysicsWorld \<Rightarrow> Config \<Rightarrow> GapCrossingTask \<times> PhysicsWorld \<times> Config" where
  "new_GapCrossingTask w cfg = GapCrossingTask_setup (GapCrossingTask_constructor cfg, w, cfg)"

record GapObservation =
  agentPosition :: vec3
  agentVelocity :: vec3
  obs_gapStart :: real
  obs_gapEnd :: real
  obs_gapWidth :: real
  obs_goalZone :: Zone
  obs_gravity :: real
  obs_isGrounded :: bool
  obs_actions :: "string list"

text \<open>
  \<open>agentState.position\<close> on the absent sentinel is a \<open>TypeError\<close>.
\<close>

definition GapCrossingTask_getObservation ::
  "GapCrossingTask \<Rightarrow> PhysicsWorld \<Rightarrow> Config \<Rightarrow> error + GapObservation" where
  "GapCrossingTask_getObservation t w cfg =
     (case getBodyState w ''agent'' of
        None \<Rightarrow> Inl (TypeError ''Cannot read properties of null (reading 'position')'')
      | Some (pos, vel) \<Rightarrow>
          Inr \<lparr>agentPosition = pos, agentVelocity = vel,
               obs_gapStart = gapStart t, obs_gapEnd = gapEnd t,
               obs_gapWidth = actualGapWidth t, obs_goalZone = goalZone t,
               obs_gravity = gravity cfg, obs_isGrounded = isGrounded t,
               obs_actions = actions t\<rparr>)"

text \<open>
  \<open>applyAction\<close> returns the task object and the world as the call leaves them, and the
  exception if it raised one. The grounded flag is assigned before the action is
  normalised, so it has its new value when \<open>action.toLowerCase()\<close> raises.
\<close>

definition GapCrossingTask_applyAction ::
  "Config \<Rightarrow> action \<Rightarrow> GapCrossingTask \<times> PhysicsWorld \<Rightarrow>
   (GapCrossingTask \<times> PhysicsWorld) \<times> error option" where
  "GapCrossingTask_applyAction cfg act s =
     (case s of (t, w) \<Rightarrow>
       (case getBody w ''agent'' of
          None \<Rightarrow> ((t, w), None)
        | Some agent \<Rightarrow>
            let t1 = t\<lparr>isGrounded := groundedCheck (agentHeight t) agent\<rparr> in
            (case normalizeAction (actions t1) act of
               Inl e \<Rightarrow> ((t1, w), Some e)
             | Inr actionStr \<Rightarrow>
                 let (t2, agent2) =
                       (if actionStr = Some ''forward'' then (t1, setVelX 4.0 agent)
                        else if actionStr = Some ''back'' then (t1, setVelX (- 4.0) agent)
                        else if actionStr = Some ''left'' then (t1, setVelZ (- 3.0) agent)
                        else if actionStr = Some ''right'' then (t1, setVelZ 3.0 agent)
                        else if actionStr = Some ''jump'' then
                          (if isGrounded t1 \<and> canJump t1
                           then (let desiredHeight = 2.0;
                                     jumpVelocity = sqrt (2 * gravity cfg * desiredHeight)
                                 in (t1\<lparr>canJump := False\<rparr>, setVelY jumpVelocity agent))
                           else (t1, agent))
                        else (t1, dragHorizontal 0.9 agent));
                     t3 = (if isGrounded t2 then t2\<lparr>canJump := True\<rparr> else t2);
                     maxSpeed = 5.0
                 in ((t3, setBody ''agent'' (clampHorizontal maxSpeed agent2) w), None))))"

definition GapCrossingTask_checkTermination ::
  "GapCrossingTask \<Rightarrow> PhysicsWorld \<Rightarrow> GapCrossingTask \<times> TerminationResult" where
  "GapCrossingTask_checkTermination t w =
     (case getBody w ''agent'' of
        None \<Rightarrow> (t, terminationResult True False ''agent_missing'')
      | Some agent \<Rightarrow>
          let pos = position agent in
          if vec_y pos < - 5 then (t, terminationResult True False ''fell'')
          else if inZone pos (goalZone t) then
            (let t' = t\<lparr>successSteps := successSteps t + 1\<rparr> in
             if successSteps t' \<ge> requiredSuccessSteps t'
             then (t', terminationResult True True ''reached_goal'')
             else (t', terminationResult False False ''ongoing''))
          else (t\<lparr>successSteps := 0\<rparr>, terminationResult False False ''ongoing''))"

section \<open>GapCrossingTaskV2\<close>

record GapCrossingTaskV2 = BaseTask +
  gapWidth :: real
  gapVariance :: real
  platformWidth :: real
  platformDepth :: real
  platformHeight :: real
  goalPlatformWidth :: real
  landingZoneWidth :: "real option"
  landingZoneStart :: "real option"
  landingZoneEnd :: "real option"
  agentRadius :: real
  agentHeight :: real
  agentMass :: real
  moveSpeed :: real
  maxSpeed :: real
  jumpHeight :: real
  jumpCooldownMs :: int
  airControl :: real
  runUpBonus :: real
  isGrounded :: bool
  canJump :: bool
  lastJumpTime :: int
  currentAction :: string
  actions :: "string list"
  goalZone :: Zone
  gapStart :: real
  gapEnd :: real
  actualGapWidth :: real

definition GapCrossingTaskV2_constructor :: "Config \<Rightarrow> GapCrossingTaskV2" where
  "GapCrossingTaskV2_constructor cfg =
     \<lparr>successSteps = 0, requiredSuccessSteps = 5,
      gapWidth = orDefault (Config.gapWidth cfg) 4.6,
      gapVariance = orDefault (Config.gapVariance cfg) 0.1,
      platformWidth = 4.0, platformDepth = 3.0, platformHeight = 0.5,
      goalPlatformWidth = orDefault (Config.goalPlatformWidth cfg) 4.0,
      landingZoneWidth = Config.landingZoneWidth cfg,
      landingZoneStart = Config.landingZoneStart cfg,
      landingZoneEnd = Config.landingZoneEnd cfg,
      agentRadius = 0.4, agentHeight = 1.8, agentMass = 80,
      moveSpeed = 3.0, maxSpeed = 4.0,
      jumpHeight = 1.2, jumpCooldownMs = 500, airControl = 0.3, runUpBonus = 1.3,
      isGrounded = False, canJump = True, lastJumpTime = 0, currentAction = ''idle'',
      actions = [''forward'', ''back'', ''left'', ''right'', ''jump'', ''idle''],
      goalZone = \<lparr>minX = 0, maxX = 0, minZ = 0, maxZ = 0, minY = 0, maxY = 0\<rparr>,
      gapStart = 0, gapEnd = 0, actualGapWidth = 0\<rparr>"

definition GapCrossingTaskV2_setup ::
  "GapCrossingTaskV2 \<times> PhysicsWorld \<times> Config \<Rightarrow> GapCrossingTaskV2 \<times> PhysicsWorld \<times> Config"
  where
  "GapCrossingTaskV2_setup s =
     (case s of (t, w, cfg) \<Rightarrow>
       (case randomInRange (- gapVariance t) (gapVariance t) cfg of (cfg', jitter) \<Rightarrow>
         let actualGap = gapWidth t + jitter;
             w1 = createBox ''platformA'' (Vec3 0 (- platformHeight t / 2) 0)
                    (Vec3 (platformWidth t) (platformHeight t) (platformDepth t)) 0 w;
             platformBX = platformWidth t / 2 + actualGap + goalPlatformWidth t / 2;
             w2 = createBox ''platformB'' (Vec3 platformBX (- platformHeight t / 2) 0)
                    (Vec3 (goalPlatformWidth t) (platformHeight t) (platformDepth t)) 0 w1;
             (goalMinX, goalMaxX) =
               (case (landingZoneStart t, landingZoneEnd t) of
                  (Some zs, Some ze) \<Rightarrow> (zs, ze)
                | _ \<Rightarrow>
                   (case landingZoneWidth t of
                      Some lw \<Rightarrow> (let halfWidth = lw / 2
                                  in (platformBX - halfWidth, platformBX + halfWidth))
                    | None \<Rightarrow> (platformBX - platformWidth t / 2 + 0.8,
                               platformBX + platformWidth t / 2 - 0.8)));
             t' = t\<lparr>goalZone :=
                       \<lparr>minX = goalMinX, maxX = goalMaxX,
                        minZ = - platformDepth t / 2 + 0.8,
                        maxZ = platformDepth t / 2 - 0.8,
                        minY = 0, maxY = 2.0\<rparr>,
                    gapStart := platformWidth t / 2,
                    gapEnd := platformWidth t / 2 + actualGap,
                    actualGapWidth := actualGap\<rparr>;
             agentStartX = - platformWidth t / 3;
             w3 = createCapsule ''agent'' (Vec3 agentStartX (agentHeight t / 2 + 0.1) 0)
                    (agentRadius t) (agentHeight t) (agentMass t) w2;
             w4 = (case getBody w3 ''agent'' of
                     Some agentBody \<Rightarrow> setBody ''agent'' (agentBody\<lparr>linearDamping := Some 0\<rparr>) w3
                   | None \<Rightarrow> w3)
         in (t', w4, cfg')))"

definition new_GapCrossingTaskV2 ::
  "PhysicsWorld \<Rightarrow> Config \<Rightarrow> GapCrossingTaskV2 \<times> PhysicsWorld \<times> Config" where
  "new_GapCrossingTaskV2 w cfg =
     GapCrossingTaskV2_setup (GapCrossingTaskV2_constructor cfg, w, cfg)"

record GapObservationV2 = GapObservation +
  obs_jumpHeight :: real
  obs_moveSpeed :: real
  obs_airControl :: real
  obs_runUpBonus :: real

definition GapCrossingTaskV2_getObservation ::
  "GapCrossingTaskV2 \<Rightarrow> PhysicsWorld \<Rightarrow> Config \<Rightarrow> error + GapObservationV2" where
  "GapCrossingTaskV2_getObservation t w cfg =
     (case getBodyState w ''agent'' of
        None \<Rightarrow> Inl (TypeError ''Cannot read properties of null (reading 'position')'')
      | Some (pos, vel) \<Rightarrow>
          Inr \<lparr>agentPosition = pos, agentVelocity = vel,
               obs_gapStart = gapStart t, obs_gapEnd = gapEnd t,
               obs_gapWidth = actualGapWidth t, obs_goalZone = goalZone t,
               obs_gravity = gravity cfg, obs_isGrounded = isGrounded t,
               obs_actions = actions t,
               obs_jumpHeight = jumpHeight t, obs_moveSpeed = moveSpeed t,
               obs_airControl = airControl t, obs_runUpBonus = runUpBonus t\<rparr>)"

text \<open>
  \<open>now\<close> is the reading of \<open>Date.now()\<close> taken by this call: wall-clock milliseconds.
\<close>

definition GapCrossingTaskV2_applyAction ::
  "Config \<Rightarrow> int \<Rightarrow> action \<Rightarrow> GapCrossingTaskV2 \<times> PhysicsWorld \<Rightarrow>
   (GapCrossingTaskV2 \<times> PhysicsWorld) \<times> error option" where
  "GapCrossingTaskV2_applyAction cfg now act s =
     (case s of (t, w) \<Rightarrow>
       (case getBody w ''agent'' of
          None \<Rightarrow> ((t, w), None)
        | Some agent \<Rightarrow>
            let wasGrounded = isGrounded t;
                t1 = t\<lparr>isGrounded := groundedCheck (agentHeight t) agent\<rparr>;
                t2 = (if \<not> wasGrounded \<and> isGrounded t1 then t1\<lparr>canJump := True\<rparr> else t1)
            in
            (case normalizeAction (actions t2) act of
               Inl e \<Rightarrow> ((t2, w), Some e)
             | Inr actionStr \<Rightarrow>
                 let v = velocity agent;
                     (t3, agent3) =
                       (if actionStr = Some ''forward'' then
                          (if isGrounded t2 then (t2, setVelX (moveSpeed t2) agent)
                           else (t2, setVelX (min (vec_x v + moveSpeed t2 * airControl t2 * 0.1)
                                                  (maxSpeed t2)) agent))
                        else if actionStr = Some ''back'' then
                          (if isGrounded t2 then (t2, setVelX (- moveSpeed t2) agent)
                           else (t2, setVelX (max (vec_x v - moveSpeed t2 * airControl t2 * 0.1)
                                                  (- maxSpeed t2)) agent))
                        else if actionStr = Some ''left'' then
                          (if isGrounded t2 then (t2, setVelZ (- moveSpeed t2 * 0.8) agent)
                           else (t2, setVelZ (vec_z v - moveSpeed t2 * airControl t2 * 0.05) agent))
                        else if actionStr = Some ''right'' then
                          (if isGrounded t2 then (t2, setVelZ (moveSpeed t2 * 0.8) agent)
                           else (t2, setVelZ (vec_z v + moveSpeed t2 * airControl t2 * 0.05) agent))
                        else if actionStr = Some ''jump'' then
                          (if isGrounded t2 \<and> canJump t2
                              \<and> now - lastJumpTime t2 > jumpCooldownMs t2
                           then (let jumpVelocity0 = sqrt (2 * gravity cfg * jumpHeight t2);
                                     forwardSpeed = vec_x v;
                                     jumpVelocity =
                                       (if forwardSpeed > moveSpeed t2 * 0.5
                                        then jumpVelocity0 * runUpBonus t2 else jumpVelocity0)
                                 in (t2\<lparr>canJump := False, lastJumpTime := now\<rparr>,
                                     setVelY jumpVelocity agent))
                           else (t2, agent))
                        else
                          (if isGrounded t2 then (t2, dragHorizontal 0.85 agent)
                           else (t2, dragHorizontal 0.98 agent)))
                 in ((t3, setBody ''agent'' (clampHorizontal (maxSpeed t3) agent3) w), None))))"

definition GapCrossingTaskV2_checkTermination ::
  "GapCrossingTaskV2 \<Rightarrow> PhysicsWorld \<Rightarrow> GapCrossingTaskV2 \<times> TerminationResult" where
  "GapCrossingTaskV2_checkTermination t w =
     (case getBody w ''agent'' of
        None \<Rightarrow> (t, terminationResult True False ''agent_missing'')
      | Some agent \<Rightarrow>
          let pos = position agent in
          if vec_y pos < - 5 then (t, terminationResult True False ''fell'')
          else if \<bar>vec_z pos\<bar> > platformDepth t / 2 + 0.5
          then (t, terminationResult True False ''fell_side'')
          else if inZone pos (goalZone t) then
            (let t' = t\<lparr>successSteps := successSteps t + 1\<rparr> in
             if successSteps t' \<ge> requiredSuccessSteps t'
             then (t', terminationResult True True ''reached_goal'')
             else (t', terminationResult False False ''ongoing''))
          else (t\<lparr>successSteps := 0\<rparr>, terminationResult False False ''ongoing''))"

section \<open>ThrowBlockTask\<close>
text \<open>
  The strength table is an object with the three keys \<open>weak\<close>, \<open>medium\<close>, \<open>strong\<close>. The
  throw branch of the switch is entered only for \<open>throw_weak\<close>, \<open>throw_medium\<close> and
  \<open>throw_strong\<close>, so the key obtained by \<open>actionStr.replace('throw_', '')\<close> is one of
  the three.
\<close>

record ThrowStrengths =
  weak :: real
  medium :: real
  strong :: real

definition strengthKey :: "string \<Rightarrow> string" where
  "strengthKey actionStr = drop (length ''throw_'') actionStr"

definition lookupStrength :: "ThrowStrengths \<Rightarrow> string \<Rightarrow> real" where
  "lookupStrength ts key =
     (if key = ''weak'' then weak ts else if key = ''medium'' then medium ts else strong ts)"

definition isThrow :: "string option \<Rightarrow> bool" where
  "isThrow a \<longleftrightarrow>
     a = Some ''throw_weak'' \<or> a = Some ''throw_medium'' \<or> a = Some ''throw_strong''"

definition offsetFrom :: "vec3 \<Rightarrow> real \<Rightarrow> real \<Rightarrow> vec3" where
  "offsetFrom p dx dy = Vec3 (vec_x p + dx) (vec_y p + dy) (vec_z p)"

text \<open>\<open>block.position.set(...); block.velocity.set(...)\<close>\<close>

definition placeBlock :: "vec3 \<Rightarrow> vec3 \<Rightarrow> body \<Rightarrow> body" where
  "placeBlock p v b = b\<lparr>position := p, velocity := v\<rparr>"

definition planarDistance :: "vec3 \<Rightarrow> vec3 \<Rightarrow> real" where
  "planarDistance a b =
     (let dx = vec_x a - vec_x b; dz = vec_z a - vec_z b in sqrt (dx * dx + dz * dz))"

text \<open>
  The optional \<open>params\<close> of a step: the request body, of which the tasks read
  \<open>durationScale\<close>.
\<close>

record params =
  durationScale :: "real option"

record ThrowBlockTask = BaseTask +
  basketDistance :: real
  basketDistanceVariance :: real
  basketHeight :: real
  platformSize :: real
  platformHeight :: real
  blockSize :: real
  blockMass :: real
  basketWidth :: real
  basketDepth :: real
  basketWallHeight :: real
  basketWallThickness :: real
  agentRadius :: real
  agentHeight :: real
  agentMass :: real
  holdingBlock :: bool
  isGrounded :: bool
  throwStrengths :: ThrowStrengths
  actions :: "string list"
  basketBounds :: Zone
  actualBasketDistance :: real

definition ThrowBlockTask_constructor :: "Config \<Rightarrow> ThrowBlockTask" where
  "ThrowBlockTask_constructor cfg =
     \<lparr>successSteps = 0, requiredSuccessSteps = 5,
      basketDistance = orDefault (Config.basketDistance cfg) 6.0,
      basketDistanceVariance = orDefault (Config.basketDistanceVariance cfg) 1.0,
      basketHeight = orDefault (Config.basketHeight cfg) 1.5,
      platformSize = 8.0, platformHeight = 0.5,
      blockSize = 0.4, blockMass = 2.0,
      basketWidth = 1.2, basketDepth = 1.2,
      basketWallHeight = 0.8, basketWallThickness = 0.1,
      agentRadius = 0.4, agentHeight = 1.8, agentMass = 70,
      holdingBlock = False, isGrounded = False,
      throwStrengths = \<lparr>weak = 5, medium = 10, strong = 15\<rparr>,
      actions = [''forward'', ''back'', ''left'', ''right'', ''pick'', ''drop'',
                 ''throw_weak'', ''throw_medium'', ''throw_strong'', ''idle''],
      basketBounds = \<lparr>minX = 0, maxX = 0, minZ = 0, maxZ = 0, minY = 0, maxY = 0\<rparr>,
      actualBasketDistance = 0\<rparr>"

definition ThrowBlockTask_setup ::
  "ThrowBlockTask \<times> PhysicsWorld \<times> Config \<Rightarrow> ThrowBlockTask \<times> PhysicsWorld \<times> Config" where
  "ThrowBlockTask_setup s =
     (case s of (t, w, cfg) \<Rightarrow>
       (case randomInRange (- basketDistanceVariance t) (basketDistanceVariance t) cfg of
          (cfg', jitter) \<Rightarrow>
         let actualDistance = basketDistance t + jitter;
             w1 = createBox ''platform'' (Vec3 0 (- platformHeight t / 2) 0)
                    (Vec3 (platformSize t) (platformHeight t) (platformSize t)) 0 w;
             w2 = createCapsule ''agent'' (Vec3 (- 2) (agentHeight t / 2 + 0.1) 0)
                    (agentRadius t) (agentHeight t) (agentMass t) w1;
             w3 = createBox ''block'' (Vec3 (- 1.5) (blockSize t / 2 + 0.1) 0)
                    (Vec3 (blockSize t) (blockSize t) (blockSize t)) (blockMass t) w2;
             basketX = actualDistance;
             basketY = basketHeight t;
             w4 = createBox ''basketFloor'' (Vec3 basketX basketY 0)
                    (Vec3 (basketWidth t) (basketWallThickness t) (basketDepth t)) 0 w3;
             wallOffset = (basketWidth t - basketWallThickness t) / 2;
             wallHeight = basketWallHeight t;
             w5 = createBox ''basketWallLeft''
                    (Vec3 (basketX - wallOffset) (basketY + wallHeight / 2) 0)
                    (Vec3 (basketWallThickness t) wallHeight (basketDepth t)) 0 w4;
             w6 = createBox ''basketWallRight''
                    (Vec3 (basketX + wallOffset) (basketY + wallHeight / 2) 0)
                    (Vec3 (basketWallThickness t) wallHeight (basketDepth t)) 0 w5;
             w7 = createBox ''basketWallFront''
                    (Vec3 basketX (basketY + wallHeight / 2) (- wallOffset))
                    (Vec3 (basketWidth t) wallHeight (basketWallThickness t)) 0 w6;
             w8 = createBox ''basketWallBack''
                    (Vec3 basketX (basketY + wallHeight / 2) wallOffset)
                    (Vec3 (basketWidth t) wallHeight (basketWallThickness t)) 0 w7;
             t' = t\<lparr>basketBounds :=
                       \<lparr>minX = basketX - basketWidth t / 2 + basketWallThickness t,
                        maxX = basketX + basketWidth t / 2 - basketWallThickness t,
                        minZ = - basketDepth t / 2 + basketWallThickness t,
                        maxZ = basketDepth t / 2 - basketWallThickness t,
                        minY = basketY,
                        maxY = basketY + basketWallHeight t\<rparr>,
                    actualBasketDistance := actualDistance\<rparr>
         in (t', w8, cfg')))"

definition new_ThrowBlockTask :: "PhysicsWorld \<Rightarrow> Config \<Rightarrow> ThrowBlockTask \<times> PhysicsWorld \<times> Config" where
  "new_ThrowBlockTask w cfg = ThrowBlockTask_setup (ThrowBlockTask_constructor cfg, w, cfg)"

record ThrowObservation =
  agentPosition :: vec3
  agentVelocity :: vec3
  blockPosition :: vec3
  blockVelocity :: vec3
  obs_holdingBlock :: bool
  basketPosition :: vec3
  obs_basketBounds :: Zone
  obs_gravity :: real
  obs_isGrounded :: bool
  obs_actions :: "string list"

definition ThrowBlockTask_getObservation ::
  "ThrowBlockTask \<Rightarrow> PhysicsWorld \<Rightarrow> Config \<Rightarrow> error + ThrowObservation" where
  "ThrowBlockTask_getObservation t w cfg =
     (case getBodyState w ''agent'' of
        None \<Rightarrow> Inl (TypeError ''Cannot read properties of null (reading 'position')'')
      | Some (apos, avel) \<Rightarrow>
         (case getBodyState w ''block'' of
            None \<Rightarrow> Inl (TypeError ''Cannot read properties of null (reading 'position')'')
          | Some (bpos, bvel) \<Rightarrow>
              Inr \<lparr>agentPosition = apos, agentVelocity = avel,
                   blockPosition = bpos, blockVelocity = bvel,
                   obs_holdingBlock = holdingBlock t,
                   basketPosition = Vec3 (actualBasketDistance t) (basketHeight t) 0,
                   obs_basketBounds = basketBounds t,
                   obs_gravity = gravity cfg, obs_isGrounded = isGrounded t,
                   obs_actions = actions t\<rparr>))"

definition ThrowBlockTask_applyAction ::
  "Config \<Rightarrow> action \<Rightarrow> ThrowBlockTask \<times> PhysicsWorld \<Rightarrow>
   (ThrowBlockTask \<times> PhysicsWorld) \<times> error option" where
  "ThrowBlockTask_applyAction cfg act s =
     (case s of (t, w) \<Rightarrow>
       (case (getBody w ''agent'', getBody w ''block'') of
          (Some agent, Some block) \<Rightarrow>
            let t1 = t\<lparr>isGrounded := groundedCheck (agentHeight t) agent\<rparr> in
            (case normalizeAction (actions t1) act of
               Inl e \<Rightarrow> ((t1, w), Some e)
             | Inr actionStr \<Rightarrow>
                 let (t2, agent2, block2) =
                       (if actionStr = Some ''forward'' then (t1, setVelX 3.0 agent, block)
                        else if actionStr = Some ''back'' then (t1, setVelX (- 3.0) agent, block)
                        else if actionStr = Some ''left'' then (t1, setVelZ (- 3.0) agent, block)
                        else if actionStr = Some ''right'' then (t1, setVelZ 3.0 agent, block)
                        else if actionStr = Some ''pick'' then
                          (if \<not> holdingBlock t1
                           then (let dist = planarDistance (position agent) (position block)
                                 in if dist < 1.5 then (t1\<lparr>holdingBlock := True\<rparr>, agent, block)
                                    else (t1, agent, block))
                           else (t1, agent, block))
                        else if actionStr = Some ''drop'' then
                          (if holdingBlock t1
                           then (t1\<lparr>holdingBlock := False\<rparr>, agent,
                                 placeBlock (offsetFrom (position agent) 0.5 (- 0.5)) (Vec3 0 0 0)
                                   block)
                           else (t1, agent, block))
                        else if isThrow actionStr then
                          (if holdingBlock t1
                           then (let strength =
                                       lookupStrength (throwStrengths t1)
                                         (strengthKey (the actionStr));
                                     gravityFactor = gravity cfg / 9.81
                                 in (t1\<lparr>holdingBlock := False\<rparr>, agent,
                                     placeBlock (offsetFrom (position agent) 0.8 0.3)
                                       (Vec3 strength (strength * 0.5 * sqrt gravityFactor) 0)
                                       block))
                           else (t1, agent, block))
                        else (t1, dragHorizontal 0.9 agent, block));
                     block3 =
                       (if holdingBlock t2
                        then placeBlock (offsetFrom (position agent2) 0.5 0.2) (Vec3 0 0 0) block2
                        else block2);
                     maxSpeed = 4.0
                 in ((t2, setBody ''agent'' (clampHorizontal maxSpeed agent2)
                            (setBody ''block'' block3 w)), None))
        | _ \<Rightarrow> ((t, w), None)))"

definition ThrowBlockTask_checkTermination ::
  "ThrowBlockTask \<Rightarrow> PhysicsWorld \<Rightarrow> ThrowBlockTask \<times> TerminationResult" where
  "ThrowBlockTask_checkTermination t w =
     (case (getBody w ''block'', getBody w ''agent'') of
        (Some block, Some agent) \<Rightarrow>
          if vec_y (position block) < - 2 then (t, terminationResult True False ''block_fell'')
          else if vec_y (position agent) < - 2
          then (t, terminationResult True False ''agent_fell'')
          else
            let pos = position block;
                vel = velocity block;
                speed = sqrt (vec_x vel * vec_x vel + vec_y vel * vec_y vel + vec_z vel * vec_z vel);
                inBasket = inZone pos (basketBounds t);
                atRest = speed < 0.5
            in if inBasket \<and> atRest then
                 (let t' = t\<lparr>successSteps := successSteps t + 1\<rparr> in
                  if successSteps t' \<ge> requiredSuccessSteps t'
                  then (t', terminationResult True True ''block_in_basket'')
                  else (t', terminationResult False False ''ongoing''))
               else (t\<lparr>successSteps := 0\<rparr>, terminationResult False False ''ongoing'')
      | _ \<Rightarrow> (t, terminationResult True False ''missing_objects''))"

section \<open>ThrowBlockTaskV2\<close>
record ThrowBlockTaskV2 = BaseTask +
  basketDistance :: real
  basketDistanceVariance :: real
  basketHeight :: real
  platformSize :: real
  platformHeight :: real
  blockSize :: real
  blockMass :: real
  basketWidth :: real
  basketDepth :: real
  basketWallHeight :: real
  basketWallThickness :: real
  agentRadius :: real
  agentHeight :: real
  agentMass :: real
  holdingBlock :: bool
  isGrounded :: bool
  throwStrengths :: ThrowStrengths
  throwAngle :: real
  pickupRange :: real
  actions :: "string list"
  basketBounds :: Zone
  actualBasketDistance :: real

definition ThrowBlockTaskV2_constructor :: "Config \<Rightarrow> ThrowBlockTaskV2" where
  "ThrowBlockTaskV2_constructor cfg =
     \<lparr>successSteps = 0, requiredSuccessSteps = 5,
      basketDistance = orDefault (Config.basketDistance cfg) 4.0,
      basketDistanceVariance = orDefault (Config.basketDistanceVariance cfg) 0.5,
      basketHeight = orDefault (Config.basketHeight cfg) 1.0,
      platformSize = 6.0, platformHeight = 0.5,
      blockSize = 0.35, blockMass = 0.8,
      basketWidth = 1.5, basketDepth = 1.5,
      basketWallHeight = 0.6, basketWallThickness = 0.1,
      agentRadius = 0.4, agentHeight = 1.8, agentMass = 70,
      holdingBlock = False, isGrounded = False,
      throwStrengths = \<lparr>weak = 4.0, medium = 6.0, strong = 8.5\<rparr>,
      throwAngle = 45 * pi / 180, pickupRange = 1.8,
      actions = [''forward'', ''back'', ''left'', ''right'', ''pick'', ''drop'',
                 ''throw_weak'', ''throw_medium'', ''throw_strong'', ''idle''],
      basketBounds = \<lparr>minX = 0, maxX = 0, minZ = 0, maxZ = 0, minY = 0, maxY = 0\<rparr>,
      actualBasketDistance = 0\<rparr>"

definition ThrowBlockTaskV2_setup ::
  "ThrowBlockTaskV2 \<times> PhysicsWorld \<times> Config \<Rightarrow> ThrowBlockTaskV2 \<times> PhysicsWorld \<times> Config" where
  "ThrowBlockTaskV2_setup s =
     (case s of (t, w, cfg) \<Rightarrow>
       (case randomInRange (- basketDistanceVariance t) (basketDistanceVariance t) cfg of
          (cfg', jitter) \<Rightarrow>
         let actualDistance = basketDistance t + jitter;
             w1 = createBox ''platform'' (Vec3 0 (- platformHeight t / 2) 0)
                    (Vec3 (platformSize t) (platformHeight t) (platformSize t)) 0 w;
             w2 = createCapsule ''agent'' (Vec3 (- 1.5) (agentHeight t / 2 + 0.1) 0)
                    (agentRadius t) (agentHeight t) (agentMass t) w1;
             w3 = createBox ''block'' (Vec3 (- 0.8) (blockSize t / 2 + 0.1) 0)
                    (Vec3 (blockSize t) (blockSize t) (blockSize t)) (blockMass t) w2;
             basketX = actualDistance;
             basketY = basketHeight t;
             w4 = createBox ''basketFloor'' (Vec3 basketX basketY 0)
                    (Vec3 (basketWidth t) (basketWallThickness t) (basketDepth t)) 0 w3;
             wallOffset = (basketWidth t - basketWallThickness t) / 2;
             wallHeight = basketWallHeight t;
             w5 = createBox ''basketWallLeft''
                    (Vec3 (basketX - wallOffset) (basketY + wallHeight / 2) 0)
                    (Vec3 (basketWallThickness t) wallHeight (basketDepth t)) 0 w4;
             w6 = createBox ''basketWallRight''
                    (Vec3 (basketX + wallOffset) (basketY + wallHeight / 2) 0)
                    (Vec3 (basketWallThickness t) wallHeight (basketDepth t)) 0 w5;
             w7 = createBox ''basketWallFront''
                    (Vec3 basketX (basketY + wallHeight / 2) (- wallOffset))
                    (Vec3 (basketWidth t) wallHeight (basketWallThickness t)) 0 w6;
             w8 = createBox ''basketWallBack''
                    (Vec3 basketX (basketY + wallHeight / 2) wallOffset)
                    (Vec3 (basketWidth t) wallHeight (basketWallThickness t)) 0 w7;
             t' = t\<lparr>basketBounds :=
                       \<lparr>minX = basketX - basketWidth t / 2 + basketWallThickness t,
                        maxX = basketX + basketWidth t / 2 - basketWallThickness t,
                        minZ = - basketDepth t / 2 + basketWallThickness t,
                        maxZ = basketDepth t / 2 - basketWallThickness t,
                        minY = basketY,
                        maxY = basketY + basketWallHeight t\<rparr>,
                    actualBasketDistance := actualDistance\<rparr>
         in (t', w8, cfg')))"

definition new_ThrowBlockTaskV2 :: "PhysicsWorld \<Rightarrow> Config \<Rightarrow> ThrowBlockTaskV2 \<times> PhysicsWorld \<times> Config" where
  "new_ThrowBlockTaskV2 w cfg = ThrowBlockTaskV2_setup (ThrowBlockTaskV2_constructor cfg, w, cfg)"

text \<open>
  \<open>_getOptimalThrowStrength\<close>: the loop over \<open>Object.entries(this.throwStrengths)\<close> visits
  \<open>weak\<close>, \<open>medium\<close>, \<open>strong\<close> in this order; \<open>minError\<close> starts at \<open>Infinity\<close>, here
  \<open>None\<close>. With \<open>g = 0\<close> every range is infinite or \<open>NaN\<close>, no error is below
  \<open>Infinity\<close>, and the initial \<open>'medium'\<close> is returned.
\<close>

definition optimalStep ::
  "real \<Rightarrow> real \<Rightarrow> real \<Rightarrow> string \<times> real \<Rightarrow> string \<times> real option \<Rightarrow> string \<times> real option"
  where
  "optimalStep g theta distance entry best =
     (case entry of (name, v) \<Rightarrow>
        let range = (v * v * sin (2 * theta)) / g;
            err = \<bar>range - distance\<bar>
        in (case snd best of
              None \<Rightarrow> (name, Some err)
            | Some minError \<Rightarrow> if err < minError then (name, Some err) else best))"

definition getOptimalThrowStrength :: "ThrowBlockTaskV2 \<Rightarrow> Config \<Rightarrow> real \<Rightarrow> string" where
  "getOptimalThrowStrength t cfg distance =
     (let g = gravity cfg; theta = throwAngle t; ts = throwStrengths t in
      if g = 0 then ''medium''
      else fst (fold (optimalStep g theta distance)
                  [(''weak'', weak ts), (''medium'', medium ts), (''strong'', strong ts)]
                  (''medium'', None)))"

record ThrowObservationV2 = ThrowObservation +
  distanceToBasket :: real
  obs_throwStrengths :: ThrowStrengths
  optimalThrowStrength :: string

definition ThrowBlockTaskV2_getObservation ::
  "ThrowBlockTaskV2 \<Rightarrow> PhysicsWorld \<Rightarrow> Config \<Rightarrow> error + ThrowObservationV2" where
  "ThrowBlockTaskV2_getObservation t w cfg =
     (case getBodyState w ''agent'' of
        None \<Rightarrow> Inl (TypeError ''Cannot read properties of null (reading 'position')'')
      | Some (apos, avel) \<Rightarrow>
         (case getBodyState w ''block'' of
            None \<Rightarrow> Inl (TypeError ''Cannot read properties of null (reading 'position')'')
          | Some (bpos, bvel) \<Rightarrow>
              let distToBasket = actualBasketDistance t - vec_x apos in
              Inr \<lparr>agentPosition = apos, agentVelocity = avel,
                   blockPosition = bpos, blockVelocity = bvel,
                   obs_holdingBlock = holdingBlock t,
                   basketPosition = Vec3 (actualBasketDistance t) (basketHeight t) 0,
                   obs_basketBounds = basketBounds t,
                   obs_gravity = gravity cfg, obs_isGrounded = isGrounded t,
                   obs_actions = actions t,
                   distanceToBasket = distToBasket,
                   obs_throwStrengths = throwStrengths t,
                   optimalThrowStrength = getOptimalThrowStrength t cfg distToBasket\<rparr>))"

text \<open>
  \<open>const scale = params.durationScale || 1.0\<close>: an absent or zero scale counts as 1.
  In the throw branch the source divides by \<open>horizontalDist\<close>; when the release point lies
  exactly on the basket centre this is \<open>0 / 0 = NaN\<close> in JavaScript, which \<open>real\<close> cannot
  hold, so statements about a throw require \<open>horizontalDist \<noteq> 0\<close>.
\<close>

definition durationScaleOf :: "params \<Rightarrow> real" where
  "durationScaleOf p = (case durationScale p of Some d \<Rightarrow> (if d = 0 then 1.0 else d) | None \<Rightarrow> 1.0)"

definition ThrowBlockTaskV2_applyAction ::
  "Config \<Rightarrow> action \<Rightarrow> params \<Rightarrow> ThrowBlockTaskV2 \<times> PhysicsWorld \<Rightarrow>
   (ThrowBlockTaskV2 \<times> PhysicsWorld) \<times> error option" where
  "ThrowBlockTaskV2_applyAction cfg act p s =
     (case s of (t, w) \<Rightarrow>
       (case (getBody w ''agent'', getBody w ''block'') of
          (Some agent, Some block) \<Rightarrow>
            let t1 = t\<lparr>isGrounded := groundedCheck (agentHeight t) agent\<rparr> in
            (case normalizeAction (actions t1) act of
               Inl e \<Rightarrow> ((t1, w), Some e)
             | Inr actionStr \<Rightarrow>
                 let scale = durationScaleOf p;
                     (t2, agent2, block2) =
                       (if actionStr = Some ''forward''
                        then (t1, setVelX (3.0 * scale) agent, block)
                        else if actionStr = Some ''back''
                        then (t1, setVelX (- 3.0 * scale) agent, block)
                        else if actionStr = Some ''left''
                        then (t1, setVelZ (- 3.0 * scale) agent, block)
                        else if actionStr = Some ''right''
                        then (t1, setVelZ (3.0 * scale) agent, block)
                        else if actionStr = Some ''pick'' then
                          (if \<not> holdingBlock t1
                           then (let dist = planarDistance (position agent) (position block)
                                 in if dist < pickupRange t1
                                    then (t1\<lparr>holdingBlock := True\<rparr>, agent, block)
                                    else (t1, agent, block))
                           else (t1, agent, block))
                        else if actionStr = Some ''drop'' then
                          (if holdingBlock t1
                           then (t1\<lparr>holdingBlock := False\<rparr>, agent,
                                 placeBlock (offsetFrom (position agent) 0.5 (- 0.5)) (Vec3 0 0 0)
                                   block)
                           else (t1, agent, block))
                        else if isThrow actionStr then
                          (if holdingBlock t1
                           then (let strength =
                                       lookupStrength (throwStrengths t1)
                                         (strengthKey (the actionStr));
                                     release = offsetFrom (position agent) 0.6 0.4;
                                     toBasketX = actualBasketDistance t1 - vec_x release;
                                     toBasketZ = 0 - vec_z release;
                                     horizontalDist =
                                       sqrt (toBasketX * toBasketX + toBasketZ * toBasketZ);
                                     dirX = toBasketX / horizontalDist;
                                     dirZ = toBasketZ / horizontalDist;
                                     vHorizontal = strength * cos (throwAngle t1);
                                     vVertical = strength * sin (throwAngle t1)
                                 in (t1\<lparr>holdingBlock := False\<rparr>, agent,
                                     placeBlock release
                                       (Vec3 (vHorizontal * dirX) vVertical (vHorizontal * dirZ))
                                       block))
                           else (t1, agent, block))
                        else (t1, dragHorizontal 0.9 agent, block));
                     block3 =
                       (if holdingBlock t2
                        then placeBlock (offsetFrom (position agent2) 0.5 0.2) (Vec3 0 0 0) block2
                        else block2);
                     maxSpeed = 4.0
                 in ((t2, setBody ''agent'' (clampHorizontal maxSpeed agent2)
                            (setBody ''block'' block3 w)), None))
        | _ \<Rightarrow> ((t, w), None)))"

definition ThrowBlockTaskV2_checkTermination ::
  "ThrowBlockTaskV2 \<Rightarrow> PhysicsWorld \<Rightarrow> ThrowBlockTaskV2 \<times> TerminationResult" where
  "ThrowBlockTaskV2_checkTermination t w =
     (case (getBody w ''block'', getBody w ''agent'') of
        (Some block, Some agent) \<Rightarrow>
          if vec_y (position block) < - 2 then (t, terminationResult True False ''block_fell'')
          else if vec_y (position agent) < - 2
          then (t, terminationResult True False ''agent_fell'')
          else
            let pos = position block;
                vel = velocity block;
                speed = sqrt (vec_x vel * vec_x vel + vec_y vel * vec_y vel + vec_z vel * vec_z vel);
                inBasket = inZone pos (basketBounds t);
                atRest = speed < 0.5
            in if inBasket \<and> atRest then
                 (let t' = t\<lparr>successSteps := successSteps t + 1\<rparr> in
                  if successSteps t' \<ge> requiredSuccessSteps t'
                  then (t', terminationResult True True ''block_in_basket'')
                  else (t', terminationResult False False ''ongoing''))
               else (t\<lparr>successSteps := 0\<rparr>, terminationResult False False ''ongoing'')
      | _ \<Rightarrow> (t, terminationResult True False ''missing_objects''))"

section \<open>The environment server\<close>

text \<open>
  A task object is an instance of one of the four task classes. \<open>WorldObject\<close> stands for
  the value of \<open>new Object(world, mergedConfig)\<close>, which is the world object itself (see
  \<open>TASKS\<close> below). The methods of \<open>PhysicsWorld\<close> are \<open>setGravity\<close>, \<open>step\<close>, \<open>addBody\<close>,
  \<open>removeBody\<close>, \<open>getBody\<close>, \<open>createBox\<close>, \<open>createCapsule\<close>, \<open>createSphere\<close>, \<open>reset\<close> and
  \<open>getBodyState\<close>: it has none of the task methods \<open>getObservation\<close>, \<open>applyAction\<close>,
  \<open>checkTermination\<close> and \<open>getReward\<close>, and calling one of them raises a \<open>TypeError\<close>.
\<close>

datatype task =
    GapTask GapCrossingTask
  | ThrowTask ThrowBlockTask
  | GapTaskV2 GapCrossingTaskV2
  | ThrowTaskV2 ThrowBlockTaskV2
  | WorldObject

datatype observation =
    ObsGap GapObservation
  | ObsThrow ThrowObservation
  | ObsGapV2 GapObservationV2
  | ObsThrowV2 ThrowObservationV2

datatype task_class =
  GapCrossingTaskClass | ThrowBlockTaskClass | GapCrossingTaskV2Class | ThrowBlockTaskV2Class

text \<open>
  \<open>TASKS\<close> is an object literal with the own keys \<open>gap\<close>, \<open>throw\<close>, \<open>gap_v2\<close> and
  \<open>throw_v2\<close>. The read \<open>TASKS[taskName]\<close> follows the prototype chain, so it also finds
  the properties of \<open>Object.prototype\<close>: \<open>constructor\<close> is the function \<open>Object\<close>, which
  \<open>new\<close> accepts; \<open>__proto__\<close> is the prototype object and the remaining ones are
  built-in methods, all truthy and none a constructor. Any other name reads \<open>undefined\<close>.
\<close>

datatype property =
  TaskClass task_class | ObjectConstructor | NotAConstructor | Undefined

definition objectPrototypeMembers :: "string list" where
  "objectPrototypeMembers =
     [''__proto__'', ''hasOwnProperty'', ''isPrototypeOf'', ''propertyIsEnumerable'',
      ''toLocaleString'', ''toString'', ''valueOf'', ''__defineGetter__'',
      ''__defineSetter__'', ''__lookupGetter__'', ''__lookupSetter__'']"

definition TASKS :: "string \<Rightarrow> property" where
  "TASKS name =
     (if name = ''gap'' then TaskClass GapCrossingTaskClass
      else if name = ''throw'' then TaskClass ThrowBlockTaskClass
      else if name = ''gap_v2'' then TaskClass GapCrossingTaskV2Class
      else if name = ''throw_v2'' then TaskClass ThrowBlockTaskV2Class
      else if name = ''constructor'' then ObjectConstructor
      else if name \<in> set objectPrototypeMembers then NotAConstructor
      else Undefined)"

text \<open>The task registry proper: the own keys of \<open>TASKS\<close>.\<close>

definition registered :: "string \<Rightarrow> bool" where
  "registered name \<longleftrightarrow> name \<in> set [''gap'', ''throw'', ''gap_v2'', ''throw_v2'']"

record Environment =
  world :: PhysicsWorld
  task :: task
  config :: Config
  stepCount :: int
  env_done :: bool
  totalReward :: real

definition new_task :: "task_class \<Rightarrow> PhysicsWorld \<Rightarrow> Config \<Rightarrow> task \<times> PhysicsWorld \<times> Config" where
  "new_task c w cfg =
     (case c of
        GapCrossingTaskClass \<Rightarrow>
          (case new_GapCrossingTask w cfg of (t, w', cfg') \<Rightarrow> (GapTask t, w', cfg'))
      | ThrowBlockTaskClass \<Rightarrow>
          (case new_ThrowBlockTask w cfg of (t, w', cfg') \<Rightarrow> (ThrowTask t, w', cfg'))
      | GapCrossingTaskV2Class \<Rightarrow>
          (case new_GapCrossingTaskV2 w cfg of (t, w', cfg') \<Rightarrow> (GapTaskV2 t, w', cfg'))
      | ThrowBlockTaskV2Class \<Rightarrow>
          (case new_ThrowBlockTaskV2 w cfg of (t, w', cfg') \<Rightarrow> (ThrowTaskV2 t, w', cfg')))"

text \<open>Method calls on the task object of a session, dispatched on its class.\<close>

definition task_getObservation :: "task \<Rightarrow> PhysicsWorld \<Rightarrow> Config \<Rightarrow> error + observation" where
  "task_getObservation tk w cfg =
     (case tk of
        GapTask t \<Rightarrow> map_sum id ObsGap (GapCrossingTask_getObservation t w cfg)
      | ThrowTask t \<Rightarrow> map_sum id ObsThrow (ThrowBlockTask_getObservation t w cfg)
      | GapTaskV2 t \<Rightarrow> map_sum id ObsGapV2 (GapCrossingTaskV2_getObservation t w cfg)
      | ThrowTaskV2 t \<Rightarrow> map_sum id ObsThrowV2 (ThrowBlockTaskV2_getObservation t w cfg)
      | WorldObject \<Rightarrow> Inl (TypeError ''task.getObservation is not a function''))"

definition task_applyAction ::
  "Config \<Rightarrow> int \<Rightarrow> action \<Rightarrow> params \<Rightarrow> task \<times> PhysicsWorld \<Rightarrow>
   (task \<times> PhysicsWorld) \<times> error option" where
  "task_applyAction cfg now act p s =
     (case s of (tk, w) \<Rightarrow>
       (case tk of
          GapTask t \<Rightarrow>
            (case GapCrossingTask_applyAction cfg act (t, w) of
               ((t', w'), e) \<Rightarrow> ((GapTask t', w'), e))
        | ThrowTask t \<Rightarrow>
            (case ThrowBlockTask_applyAction cfg act (t, w) of
               ((t', w'), e) \<Rightarrow> ((ThrowTask t', w'), e))
        | GapTaskV2 t \<Rightarrow>
            (case GapCrossingTaskV2_applyAction cfg now act (t, w) of
               ((t', w'), e) \<Rightarrow> ((GapTaskV2 t', w'), e))
        | ThrowTaskV2 t \<Rightarrow>
            (case ThrowBlockTaskV2_applyAction cfg act p (t, w) of
               ((t', w'), e) \<Rightarrow> ((ThrowTaskV2 t', w'), e))
        | WorldObject \<Rightarrow>
            ((WorldObject, w), Some (TypeError ''env.task.applyAction is not a function''))))"

definition task_checkTermination ::
  "task \<Rightarrow> PhysicsWorld \<Rightarrow> error + task \<times> TerminationResult" where
  "task_checkTermination tk w =
     (case tk of
        GapTask t \<Rightarrow>
          (case GapCrossingTask_checkTermination t w of (t', r) \<Rightarrow> Inr (GapTask t', r))
      | ThrowTask t \<Rightarrow>
          (case ThrowBlockTask_checkTermination t w of (t', r) \<Rightarrow> Inr (ThrowTask t', r))
      | GapTaskV2 t \<Rightarrow>
          (case GapCrossingTaskV2_checkTermination t w of (t', r) \<Rightarrow> Inr (GapTaskV2 t', r))
      | ThrowTaskV2 t \<Rightarrow>
          (case ThrowBlockTaskV2_checkTermination t w of (t', r) \<Rightarrow> Inr (ThrowTaskV2 t', r))
      | WorldObject \<Rightarrow> Inl (TypeError ''env.task.checkTermination is not a function''))"

definition createEnvironment ::
  "string \<Rightarrow> ConfigRequest \<Rightarrow> (string \<rightharpoonup> Environment) \<Rightarrow>
   (string \<rightharpoonup> Environment) \<times> (error + observation)" where
  "createEnvironment sessionId req environments =
     (let mergedConfig = mergeConfig req;
          w = new_PhysicsWorld (Some (gravity mergedConfig)) (Some (timeStep mergedConfig));
          taskName = (if taskVersion mergedConfig = Some ''v2''
                      then Config.task mergedConfig @ ''_v2''
                      else Config.task mergedConfig)
      in case TASKS taskName of
           Undefined \<Rightarrow>
             (environments,
              Inl (Error (''Unknown task: '' @ taskName @
                          '' (available: gap, throw, gap_v2, throw_v2)'')))
         | NotAConstructor \<Rightarrow>
             (environments, Inl (TypeError ''TaskClass is not a constructor''))
         | ObjectConstructor \<Rightarrow>
             (environments(sessionId \<mapsto>
                \<lparr>world = w, task = WorldObject, config = mergedConfig,
                 stepCount = 0, env_done = False, totalReward = 0\<rparr>),
              task_getObservation WorldObject w mergedConfig)
         | TaskClass c \<Rightarrow>
             (case new_task c w mergedConfig of
                (tk, w', cfg') \<Rightarrow>
                  (environments(sessionId \<mapsto>
                     \<lparr>world = w', task = tk, config = cfg',
                      stepCount = 0, env_done = False, totalReward = 0\<rparr>),
                   task_getObservation tk w' cfg')))"

record StepInfo =
  info_step :: "int option"
  info_success :: "bool option"
  info_reason :: string
  info_totalReward :: "real option"

record StepResult =
  observation :: observation
  reward :: real
  res_done :: bool
  info :: StepInfo

text \<open>
  The loop \<open>for (let i = 0; i < env.config.physicsTicksPerStep; i++)\<close>: \<open>i\<close> counts the
  ticks done, \<open>n\<close> the ticks left; \<open>clock i\<close> is what \<open>Date.now()\<close> returns during tick
  \<open>i\<close>, and \<open>B\<close> is \<open>world.step()\<close> of the backend. A call of \<open>applyAction\<close> that raises
  ends the loop with the state as that call left it.
\<close>

fun tickLoop ::
  "backend \<Rightarrow> Config \<Rightarrow> (nat \<Rightarrow> int) \<Rightarrow> action \<Rightarrow> params \<Rightarrow> nat \<Rightarrow> nat \<Rightarrow>
   task \<times> PhysicsWorld \<Rightarrow> (task \<times> PhysicsWorld) \<times> error option" where
  "tickLoop B cfg clock act p i 0 s = (s, None)"
| "tickLoop B cfg clock act p i (Suc n) s =
     (case task_applyAction cfg (clock i) act p s of
        (s', Some e) \<Rightarrow> (s', Some e)
      | ((tk, w), None) \<Rightarrow> tickLoop B cfg clock act p (Suc i) n (tk, B w))"

definition stepEnvironment ::
  "backend \<Rightarrow> (nat \<Rightarrow> int) \<Rightarrow> string \<Rightarrow> action \<Rightarrow> params \<Rightarrow> (string \<rightharpoonup> Environment) \<Rightarrow>
   (string \<rightharpoonup> Environment) \<times> (error + StepResult)" where
  "stepEnvironment B clock sessionId act p environments =
     (case environments sessionId of
        None \<Rightarrow> (environments, Inl (Error (''No environment for session: '' @ sessionId)))
      | Some env \<Rightarrow>
          if env_done env then
            (environments,
             map_sum id
               (\<lambda>obs. \<lparr>observation = obs, reward = 0, res_done = True,
                       info = \<lparr>info_step = None, info_success = None,
                               info_reason = ''already_done'', info_totalReward = None\<rparr>\<rparr>)
               (task_getObservation (task env) (world env) (config env)))
          else
            (case tickLoop B (config env) clock act p 0
                    (nat (physicsTicksPerStep (config env))) (task env, world env) of
               ((tk, w), Some e) \<Rightarrow>
                 (environments(sessionId \<mapsto> env\<lparr>world := w, task := tk\<rparr>), Inl e)
             | ((tk, w), None) \<Rightarrow>
                 let env1 = env\<lparr>world := w, task := tk, stepCount := stepCount env + 1\<rparr> in
                 (case task_checkTermination tk w of
                    Inl e \<Rightarrow> (environments(sessionId \<mapsto> env1), Inl e)
                  | Inr (tk', tr) \<Rightarrow>
                      let rew = getReward (term_done tr) (success tr);
                          env2 = env1\<lparr>task := tk',
                                      env_done := (term_done tr \<or>
                                                   stepCount env1 \<ge> maxSteps (config env1)),
                                      totalReward := totalReward env1 + rew\<rparr>
                      in (environments(sessionId \<mapsto> env2),
                          map_sum id
                            (\<lambda>obs. \<lparr>observation = obs, reward = rew, res_done = env_done env2,
                                    info = \<lparr>info_step = Some (stepCount env2),
                                            info_success = Some (success tr),
                                            info_reason =
                                              (if env_done env2 \<and> \<not> term_done tr
                                               then ''timeout'' else reason tr),
                                            info_totalReward = Some (totalReward env2)\<rparr>\<rparr>)
                            (task_getObservation tk' w (config env2))))))"

section \<open>Sessions, backends and runs\<close>

text \<open>A reset request that supplies no key: every default applies.\<close>

definition emptyRequest :: ConfigRequest where
  "emptyRequest =
     \<lparr>req_task = None, req_taskVersion = None, req_gravity = None, req_seed = None,
      req_maxSteps = None, req_physicsTicksPerStep = None, req_timeStep = None,
      req_gapWidth = None, req_gapVariance = None, req_goalPlatformWidth = None,
      req_landingZoneWidth = None, req_landingZoneStart = None, req_landingZoneEnd = None,
      req_basketDistance = None, req_basketDistanceVariance = None,
      req_basketHeight = None\<rparr>"

definition noParams :: params where
  "noParams = \<lparr>durationScale = None\<rparr>"

text \<open>
  An action of the type that the step interface declares: a string or a number. These are
  the values for which \<open>typeof action === 'number'\<close> holds or \<open>action.toLowerCase\<close> exists.
\<close>

fun protocolAction :: "action \<Rightarrow> bool" where
  "protocolAction (ActionString s) = True"
| "protocolAction (ActionNumber r) = True"
| "protocolAction a = False"

text \<open>
  A session is intact when its task object is an instance of a task class and the bodies
  that the class reads (the agent, and the block of the manipulation task) are in the
  world. \<open>setup()\<close> creates them and no task method removes a body.
\<close>

definition taskIntact :: "task \<Rightarrow> PhysicsWorld \<Rightarrow> bool" where
  "taskIntact tk w =
     (case tk of
        GapTask t \<Rightarrow> ''agent'' \<in> dom (bodies w)
      | GapTaskV2 t \<Rightarrow> ''agent'' \<in> dom (bodies w)
      | ThrowTask t \<Rightarrow> ''agent'' \<in> dom (bodies w) \<and> ''block'' \<in> dom (bodies w)
      | ThrowTaskV2 t \<Rightarrow> ''agent'' \<in> dom (bodies w) \<and> ''block'' \<in> dom (bodies w)
      | WorldObject \<Rightarrow> False)"

definition sessionIntact :: "Environment \<Rightarrow> bool" where
  "sessionIntact env = taskIntact (task env) (world env)"

text \<open>A backend that neither adds nor removes bodies when it advances time.\<close>

definition preservesBodies :: "backend \<Rightarrow> bool" where
  "preservesBodies B = (\<forall>w. dom (bodies (B w)) = dom (bodies w))"

text \<open>Sessions used as concrete inputs.\<close>

definition demoSessions :: "string \<rightharpoonup> Environment" where
  "demoSessions = fst (createEnvironment ''s'' emptyRequest Map.empty)"

definition budgetOneSessions :: "string \<rightharpoonup> Environment" where
  "budgetOneSessions =
     fst (createEnvironment ''s'' (emptyRequest\<lparr>req_maxSteps := Some 1\<rparr>) Map.empty)"

definition noClock :: "nat \<Rightarrow> int" where
  "noClock i = 0"

text \<open>
  Concrete inputs for the traversal task: the default configuration and a world whose
  agent stands on the start platform moving sideways, as after the action \<open>right\<close> of
  the second revision (\<open>velocity.z = moveSpeed * 0.8\<close>).
\<close>

definition defaultConfig :: Config where
  "defaultConfig = mergeConfig emptyRequest"

definition agentOf :: "PhysicsWorld \<Rightarrow> body" where
  "agentOf w = the (getBody w ''agent'')"

definition movingRightAgent :: body where
  "movingRightAgent =
     \<lparr>position = Vec3 (- 4 / 3) 1.0 0, velocity = Vec3 0 0 2.4, mass = 80,
      shape = Capsule 0.4 1.8, linearDamping = Some 0\<rparr>"

definition movingRightWorld :: PhysicsWorld where
  "movingRightWorld = setBody ''agent'' movingRightAgent (new_PhysicsWorld (Some 9.81) (Some (1 / 60)))"

text \<open>
  The horizontal speed of a body: the magnitude of its velocity in the x-z plane. The
  jump velocity of the second revision as the claim words it: the bonus applies when the
  horizontal speed exceeds half the move speed.
\<close>

definition horizontalSpeed :: "vec3 \<Rightarrow> real" where
  "horizontalSpeed v = sqrt (vec_x v * vec_x v + vec_z v * vec_z v)"

definition claimedJumpVelocityV2 :: "Config \<Rightarrow> GapCrossingTaskV2 \<Rightarrow> body \<Rightarrow> real" where
  "claimedJumpVelocityV2 cfg t agent =
     (if horizontalSpeed (velocity agent) > moveSpeed t * 0.5
      then sqrt (2 * gravity cfg * jumpHeight t) * runUpBonus t
      else sqrt (2 * gravity cfg * jumpHeight t))"

text \<open>
  The launch-angle decomposition as the claim words it: speed \<open>v\<close> at angle \<open>theta\<close>,
  \<open>v * cos theta\<close> along the planar unit vector from the release point towards the
  basket centre and \<open>v * sin theta\<close> vertically.
\<close>

definition aimDirection :: "vec3 \<Rightarrow> vec3 \<Rightarrow> real \<times> real" where
  "aimDirection release centre =
     (let toX = vec_x centre - vec_x release;
          toZ = vec_z centre - vec_z release;
          d = sqrt (toX * toX + toZ * toZ)
      in (toX / d, toZ / d))"

definition aimedVelocity :: "real \<Rightarrow> real \<Rightarrow> vec3 \<Rightarrow> vec3 \<Rightarrow> vec3" where
  "aimedVelocity v theta release centre =
     (case aimDirection release centre of
        (dirX, dirZ) \<Rightarrow> Vec3 (v * cos theta * dirX) (v * sin theta) (v * cos theta * dirZ))"

definition blockOf :: "PhysicsWorld \<Rightarrow> body" where
  "blockOf w = the (getBody w ''block'')"

text \<open>
  Concrete inputs for the manipulation task: the agent at its start position of the first
  revision with the block in hand, and the task objects of both revisions holding the
  block, the basket at its base distance.
\<close>

definition throwAgent :: body where
  "throwAgent =
     \<lparr>position = Vec3 (- 2) 1.0 0, velocity = Vec3 0 0 0, mass = 70,
      shape = Capsule 0.4 1.8, linearDamping = None\<rparr>"

definition heldBlock :: body where
  "heldBlock =
     \<lparr>position = Vec3 (- 1.5) 1.2 0, velocity = Vec3 0 0 0, mass = 2.0,
      shape = Box (Vec3 0.4 0.4 0.4), linearDamping = None\<rparr>"

definition holdingWorld :: PhysicsWorld where
  "holdingWorld =
     setBody ''block'' heldBlock (setBody ''agent'' throwAgent (new_PhysicsWorld (Some 9.81) (Some (1 / 60))))"

definition holdingTask :: ThrowBlockTask where
  "holdingTask =
     (ThrowBlockTask_constructor defaultConfig)
       \<lparr>ThrowBlockTask.holdingBlock := True, ThrowBlockTask.actualBasketDistance := 6.0\<rparr>"

definition holdingTaskV2 :: ThrowBlockTaskV2 where
  "holdingTaskV2 =
     (ThrowBlockTaskV2_constructor defaultConfig)
       \<lparr>ThrowBlockTaskV2.holdingBlock := True, ThrowBlockTaskV2.actualBasketDistance := 4.0\<rparr>"

text \<open>
  The case labels of the \<open>switch\<close> in the traversal and in the manipulation tasks. An
  action is unrecognised when its normalised form is none of them: an unknown string, or
  \<open>undefined\<close> from a numeric index outside the action list.
\<close>

definition gapCases :: "string list" where
  "gapCases = [''forward'', ''back'', ''left'', ''right'', ''jump'', ''idle'']"

definition throwCases :: "string list" where
  "throwCases = [''forward'', ''back'', ''left'', ''right'', ''pick'', ''drop'',
                 ''throw_weak'', ''throw_medium'', ''throw_strong'', ''idle'']"

definition unrecognised :: "string list \<Rightarrow> string option \<Rightarrow> bool" where
  "unrecognised cases a = (\<forall>s \<in> set cases. a \<noteq> Some s)"

text \<open>
  The success predicate of each task, as \<open>checkTermination\<close> evaluates it: the agent inside
  the goal zone (traversal), the block inside the basket bounds and slower than 0.5
  (manipulation). The streak counter and its threshold are fields of \<open>BaseTask\<close>.
\<close>

definition speedOf :: "vec3 \<Rightarrow> real" where
  "speedOf v = sqrt (vec_x v * vec_x v + vec_y v * vec_y v + vec_z v * vec_z v)"

definition task_compliant :: "task \<Rightarrow> PhysicsWorld \<Rightarrow> bool" where
  "task_compliant tk w =
     (case tk of
        GapTask t \<Rightarrow>
          (case getBody w ''agent'' of
             Some agent \<Rightarrow> inZone (position agent) (GapCrossingTask.goalZone t)
           | None \<Rightarrow> False)
      | GapTaskV2 t \<Rightarrow>
          (case getBody w ''agent'' of
             Some agent \<Rightarrow> inZone (position agent) (GapCrossingTaskV2.goalZone t)
           | None \<Rightarrow> False)
      | ThrowTask t \<Rightarrow>
          (case getBody w ''block'' of
             Some block \<Rightarrow> inZone (position block) (ThrowBlockTask.basketBounds t)
                           \<and> speedOf (velocity block) < 0.5
           | None \<Rightarrow> False)
      | ThrowTaskV2 t \<Rightarrow>
          (case getBody w ''block'' of
             Some block \<Rightarrow> inZone (position block) (ThrowBlockTaskV2.basketBounds t)
                           \<and> speedOf (velocity block) < 0.5
           | None \<Rightarrow> False)
      | WorldObject \<Rightarrow> False)"

definition task_successSteps :: "task \<Rightarrow> nat" where
  "task_successSteps tk =
     (case tk of
        GapTask t \<Rightarrow> successSteps t
      | GapTaskV2 t \<Rightarrow> successSteps t
      | ThrowTask t \<Rightarrow> successSteps t
      | ThrowTaskV2 t \<Rightarrow> successSteps t
      | WorldObject \<Rightarrow> 0)"

definition task_requiredSuccessSteps :: "task \<Rightarrow> nat" where
  "task_requiredSuccessSteps tk =
     (case tk of
        GapTask t \<Rightarrow> requiredSuccessSteps t
      | GapTaskV2 t \<Rightarrow> requiredSuccessSteps t
      | ThrowTask t \<Rightarrow> requiredSuccessSteps t
      | ThrowTaskV2 t \<Rightarrow> requiredSuccessSteps t
      | WorldObject \<Rightarrow> 0)"

text \<open>
  The checks of one episode: \<open>stepEnvironment\<close> calls \<open>checkTermination\<close> once per step, on
  the world as it is after the ticks of that step, and never again once a check has
  reported done. \<open>checkRun tk ws\<close> lists the task object and the result after each check,
  for the successive worlds \<open>ws\<close>.
\<close>

fun checkRun :: "task \<Rightarrow> PhysicsWorld list \<Rightarrow> (task \<times> TerminationResult) list" where
  "checkRun tk [] = []"
| "checkRun tk (w # ws) =
     (case task_checkTermination tk w of
        Inl e \<Rightarrow> []
      | Inr (tk', tr) \<Rightarrow> (tk', tr) # (if term_done tr then [] else checkRun tk' ws))"

text \<open>
  Concrete inputs for the success streak: the task object of a default traversal session,
  a world with the agent standing in the goal zone and one with the agent fallen below
  the floor threshold.
\<close>

definition sessionGapTask :: GapCrossingTask where
  "sessionGapTask = fst (new_GapCrossingTask (new_PhysicsWorld (Some 9.81) (Some (1 / 60))) defaultConfig)"

definition agentAt :: "vec3 \<Rightarrow> PhysicsWorld" where
  "agentAt pos =
     setBody ''agent''
       \<lparr>position = pos, velocity = Vec3 0 0 0, mass = 70, shape = Capsule 0.4 1.8,
        linearDamping = None\<rparr>
       (new_PhysicsWorld (Some 9.81) (Some (1 / 60)))"

definition goalWorld :: PhysicsWorld where
  "goalWorld = agentAt (Vec3 8 1.0 0)"

definition fallenWorld :: PhysicsWorld where
  "fallenWorld = agentAt (Vec3 4 (- 6) 0)"

text \<open>
  A run of one session: the reset, then one \<open>stepEnvironment\<close> call per action. The clock
  \<open>clock k i\<close> is the reading of \<open>Date.now()\<close> during tick \<open>i\<close> of step \<open>k\<close>. The
  trajectory is everything the caller sees: the initial observation and the result of
  every step (observation, reward, done flag and info).
\<close>

fun runSteps ::
  "backend \<Rightarrow> (nat \<Rightarrow> nat \<Rightarrow> int) \<Rightarrow> string \<Rightarrow> nat \<Rightarrow> (action \<times> params) list \<Rightarrow>
   (string \<rightharpoonup> Environment) \<Rightarrow> (error + StepResult) list" where
  "runSteps B clock sessionId k [] environments = []"
| "runSteps B clock sessionId k (ap # rest) environments =
     (case stepEnvironment B (clock k) sessionId (fst ap) (snd ap) environments of
        (environments', r) \<Rightarrow> r # runSteps B clock sessionId (Suc k) rest environments')"

definition trajectory ::
  "backend \<Rightarrow> (nat \<Rightarrow> nat \<Rightarrow> int) \<Rightarrow> ConfigRequest \<Rightarrow> (action \<times> params) list \<Rightarrow>
   (error + observation) \<times> (error + StepResult) list" where
  "trajectory B clock req steps =
     (case createEnvironment ''session'' req Map.empty of
        (environments, obs) \<Rightarrow> (obs, runSteps B clock ''session'' 0 steps environments))"

text \<open>
  A small deterministic backend for concrete runs: the agent moves with its velocity,
  falls under the gravity of the world (semi-implicit Euler) and rests on a flat floor,
  its centre 0.9 above it.
\<close>

definition freeFall :: "real \<Rightarrow> real \<Rightarrow> body \<Rightarrow> body" where
  "freeFall g dt b =
     (let v = velocity b; q = position b;
          fallVel = vec_y v - g * dt;
          height = vec_y q + fallVel * dt;
          px = vec_x q + vec_x v * dt;
          pz = vec_z q + vec_z v * dt
      in if height \<le> 0.9
         then b\<lparr>position := Vec3 px 0.9 pz, velocity := Vec3 (vec_x v) 0 (vec_z v)\<rparr>
         else b\<lparr>position := Vec3 px height pz, velocity := Vec3 (vec_x v) fallVel (vec_z v)\<rparr>)"

definition freeFallBackend :: backend where
  "freeFallBackend w =
     (case getBody w ''agent'' of
        None \<Rightarrow> w
      | Some b \<Rightarrow> setBody ''agent'' (freeFall (world_gravity w) (world_timeStep w) b) w)"

text \<open>
  Two sessions of the second revision of the traversal task with the same configuration
  (gravity 15, one tick of 0.3 s per step, default seed) and the same actions
  \<open>jump, idle, jump\<close>; one caller sends a step every second, the other every 100 ms.
\<close>

definition cooldownRequest :: ConfigRequest where
  "cooldownRequest =
     emptyRequest\<lparr>req_taskVersion := Some ''v2'', req_gravity := Some 15,
                  req_timeStep := Some 0.3, req_physicsTicksPerStep := Some 1\<rparr>"

definition jumpIdleJump :: "(action \<times> params) list" where
  "jumpIdleJump =
     [(ActionString ''jump'', noParams), (ActionString ''idle'', noParams),
      (ActionString ''jump'', noParams)]"

definition slowClock :: "nat \<Rightarrow> nat \<Rightarrow> int" where
  "slowClock k i = 1700000000000 + 1000 * int k"

definition fastClock :: "nat \<Rightarrow> nat \<Rightarrow> int" where
  "fastClock k i = 1700000000000 + 100 * int k"

definition cooldownTask :: GapCrossingTaskV2 where
  "cooldownTask =
     fst (new_GapCrossingTaskV2 (new_PhysicsWorld (Some 15) (Some 0.3)) (mergeConfig cooldownRequest))"

definition cooldownWorld :: PhysicsWorld where
  "cooldownWorld =
     fst (snd (new_GapCrossingTaskV2 (new_PhysicsWorld (Some 15) (Some 0.3)) (mergeConfig cooldownRequest)))"

definition cooldownConfig :: Config where
  "cooldownConfig =
     snd (snd (new_GapCrossingTaskV2 (new_PhysicsWorld (Some 15) (Some 0.3)) (mergeConfig cooldownRequest)))"

definition agentWith :: "vec3 \<Rightarrow> vec3 \<Rightarrow> body" where
  "agentWith q v =
     \<lparr>position = q, velocity = v, mass = 80, shape = Capsule 0.4 1.8, linearDamping = Some 0\<rparr>"

text \<open>
  The states these sessions pass through differ from the state after the reset only in
  the movement flags of the task object, in the position and velocity of the agent and
  in the step counter. What the caller sees of the agent's velocity in a step result.
\<close>

definition cooldownTaskState :: "bool \<Rightarrow> bool \<Rightarrow> int \<Rightarrow> GapCrossingTaskV2" where
  "cooldownTaskState g c l =
     cooldownTask\<lparr>successSteps := 0, GapCrossingTaskV2.isGrounded := g,
                  GapCrossingTaskV2.canJump := c, lastJumpTime := l\<rparr>"

definition cooldownWorldState :: "vec3 \<Rightarrow> vec3 \<Rightarrow> PhysicsWorld" where
  "cooldownWorldState q v = setBody ''agent'' (agentWith q v) cooldownWorld"

definition cooldownSession ::
  "int \<Rightarrow> bool \<Rightarrow> bool \<Rightarrow> int \<Rightarrow> vec3 \<Rightarrow> vec3 \<Rightarrow> string \<rightharpoonup> Environment" where
  "cooldownSession n g c l q v =
     [''session'' \<mapsto>
        \<lparr>world = cooldownWorldState q v, task = GapTaskV2 (cooldownTaskState g c l),
         config = cooldownConfig, stepCount = n, env_done = False, totalReward = 0\<rparr>]"

definition observedAgentVelocity :: "error + StepResult \<Rightarrow> vec3 option" where
  "observedAgentVelocity r =
     (case r of
        Inl e \<Rightarrow> None
      | Inr res \<Rightarrow>
          (case observation res of
             ObsGap ob \<Rightarrow> Some (GapObservation.agentVelocity ob)
           | ObsGapV2 ob \<Rightarrow> Some (GapObservation.agentVelocity ob)
           | ObsThrow ob \<Rightarrow> Some (ThrowObservation.agentVelocity ob)
           | ObsThrowV2 ob \<Rightarrow> Some (ThrowObservation.agentVelocity ob)))"

text \<open>
  Of the four task classes only \<open>GapCrossingTaskV2\<close> calls \<open>Date.now()\<close>. A session is
  clock free when its task object is of another class (or when there is no session).
\<close>

fun readsClock :: "task \<Rightarrow> bool" where
  "readsClock (GapTaskV2 t) = True"
| "readsClock tk = False"

definition clockFree :: "(string \<rightharpoonup> Environment) \<Rightarrow> string \<Rightarrow> bool" where
  "clockFree environments sessionId =
     (case environments sessionId of None \<Rightarrow> True | Some env \<Rightarrow> \<not> readsClock (task env))"

section \<open>Properties of the environment server\<close>

subsection \<open>Bodies are never lost: intact sessions\<close>

lemma dom_setBody: "name \<in> dom (bodies w) \<Longrightarrow> dom (bodies (setBody name b w)) = dom (bodies w)"
  by (auto simp: setBody_def)

lemma getBody_dom: "getBody w name = Some b \<Longrightarrow> name \<in> dom (bodies w)"
  by (auto simp: getBody_def)

lemma normalizeAction_protocol:
  "protocolAction act \<Longrightarrow> \<exists>a. normalizeAction as act = Inr a"
  by (cases act) (simp_all add: normalizeAction_def)

lemma normalizeAction_malformed:
  "\<not> protocolAction act \<Longrightarrow> \<exists>msg. normalizeAction as act = Inl (TypeError msg)"
  by (cases act) (simp_all add: normalizeAction_def)

lemma GapCrossingTask_applyAction_dom:
  "dom (bodies (snd (fst (GapCrossingTask_applyAction cfg act (t, w))))) = dom (bodies w)"
  by (simp add: GapCrossingTask_applyAction_def Let_def split_beta dom_setBody getBody_dom
        split: option.split sum.split)

lemma GapCrossingTaskV2_applyAction_dom:
  "dom (bodies (snd (fst (GapCrossingTaskV2_applyAction cfg now act (t, w))))) = dom (bodies w)"
  by (simp add: GapCrossingTaskV2_applyAction_def Let_def split_beta dom_setBody getBody_dom
        split: option.split sum.split)

lemma ThrowBlockTask_applyAction_dom:
  "dom (bodies (snd (fst (ThrowBlockTask_applyAction cfg act (t, w))))) = dom (bodies w)"
  by (simp add: ThrowBlockTask_applyAction_def Let_def split_beta dom_setBody getBody_dom
        split: option.split sum.split)

lemma ThrowBlockTaskV2_applyAction_dom:
  "dom (bodies (snd (fst (ThrowBlockTaskV2_applyAction cfg act p (t, w))))) = dom (bodies w)"
  by (simp add: ThrowBlockTaskV2_applyAction_def Let_def split_beta dom_setBody getBody_dom
        split: option.split sum.split)

lemma GapCrossingTask_applyAction_returns:
  assumes "protocolAction act"
  shows "snd (GapCrossingTask_applyAction cfg act (t, w)) = None"
proof -
  from normalizeAction_protocol [OF assms] obtain a where
    n: "normalizeAction (GapCrossingTask.actions t) act = Inr a" by blast
  show ?thesis
    by (simp add: GapCrossingTask_applyAction_def Let_def split_beta n split: option.split)
qed

lemma GapCrossingTaskV2_applyAction_returns:
  assumes "protocolAction act"
  shows "snd (GapCrossingTaskV2_applyAction cfg now act (t, w)) = None"
proof -
  from normalizeAction_protocol [OF assms] obtain a where
    n: "normalizeAction (GapCrossingTaskV2.actions t) act = Inr a" by blast
  show ?thesis
    by (simp add: GapCrossingTaskV2_applyAction_def Let_def split_beta n split: option.split)
qed

lemma ThrowBlockTask_applyAction_returns:
  assumes "protocolAction act"
  shows "snd (ThrowBlockTask_applyAction cfg act (t, w)) = None"
proof -
  from normalizeAction_protocol [OF assms] obtain a where
    n: "normalizeAction (ThrowBlockTask.actions t) act = Inr a" by blast
  show ?thesis
    by (simp add: ThrowBlockTask_applyAction_def Let_def split_beta n split: option.split)
qed

lemma ThrowBlockTaskV2_applyAction_returns:
  assumes "protocolAction act"
  shows "snd (ThrowBlockTaskV2_applyAction cfg act p (t, w)) = None"
proof -
  from normalizeAction_protocol [OF assms] obtain a where
    n: "normalizeAction (ThrowBlockTaskV2.actions t) act = Inr a" by blast
  show ?thesis
    by (simp add: ThrowBlockTaskV2_applyAction_def Let_def split_beta n split: option.split)
qed

lemma task_applyAction_intact:
  assumes "taskIntact tk w" and "protocolAction act"
  shows "\<exists>tk' w'. task_applyAction cfg now act p (tk, w) = ((tk', w'), None) \<and> taskIntact tk' w'
           \<and> dom (bodies w') = dom (bodies w)"
proof (cases tk)
  case (GapTask t)
  obtain t' w' e where r: "GapCrossingTask_applyAction cfg act (t, w) = ((t', w'), e)"
    by (metis surj_pair)
  have "dom (bodies w') = dom (bodies w)"
    using GapCrossingTask_applyAction_dom [of cfg act t w] r by simp
  moreover have "e = None"
    using GapCrossingTask_applyAction_returns [OF assms(2), of cfg t w] r by simp
  ultimately show ?thesis using assms(1) GapTask r
    by (simp add: task_applyAction_def taskIntact_def)
next
  case (ThrowTask t)
  obtain t' w' e where r: "ThrowBlockTask_applyAction cfg act (t, w) = ((t', w'), e)"
    by (metis surj_pair)
  have "dom (bodies w') = dom (bodies w)"
    using ThrowBlockTask_applyAction_dom [of cfg act t w] r by simp
  moreover have "e = None"
    using ThrowBlockTask_applyAction_returns [OF assms(2), of cfg t w] r by simp
  ultimately show ?thesis using assms(1) ThrowTask r
    by (simp add: task_applyAction_def taskIntact_def)
next
  case (GapTaskV2 t)
  obtain t' w' e where r: "GapCrossingTaskV2_applyAction cfg now act (t, w) = ((t', w'), e)"
    by (metis surj_pair)
  have "dom (bodies w') = dom (bodies w)"
    using GapCrossingTaskV2_applyAction_dom [of cfg now act t w] r by simp
  moreover have "e = None"
    using GapCrossingTaskV2_applyAction_returns [OF assms(2), of cfg now t w] r by simp
  ultimately show ?thesis using assms(1) GapTaskV2 r
    by (simp add: task_applyAction_def taskIntact_def)
next
  case (ThrowTaskV2 t)
  obtain t' w' e where r: "ThrowBlockTaskV2_applyAction cfg act p (t, w) = ((t', w'), e)"
    by (metis surj_pair)
  have "dom (bodies w') = dom (bodies w)"
    using ThrowBlockTaskV2_applyAction_dom [of cfg act p t w] r by simp
  moreover have "e = None"
    using ThrowBlockTaskV2_applyAction_returns [OF assms(2), of cfg p t w] r by simp
  ultimately show ?thesis using assms(1) ThrowTaskV2 r
    by (simp add: task_applyAction_def taskIntact_def)
next
  case WorldObject
  with assms show ?thesis by (simp add: taskIntact_def)
qed

lemma taskIntact_dom:
  "taskIntact tk w \<Longrightarrow> dom (bodies w') = dom (bodies w) \<Longrightarrow> taskIntact tk w'"
  by (cases tk) (simp_all add: taskIntact_def)

lemma tickLoop_intact:
  assumes "preservesBodies B" and "protocolAction act"
  shows "taskIntact tk w \<Longrightarrow>
     \<exists>tk' w'. tickLoop B cfg clock act p i n (tk, w) = ((tk', w'), None) \<and> taskIntact tk' w'"
proof (induction n arbitrary: i tk w)
  case 0
  then show ?case by simp
next
  case (Suc n)
  from task_applyAction_intact [OF Suc.prems assms(2), of cfg "clock i" p]
  obtain tk1 w1 where a: "task_applyAction cfg (clock i) act p (tk, w) = ((tk1, w1), None)"
    and i1: "taskIntact tk1 w1" by blast
  have "dom (bodies (B w1)) = dom (bodies w1)"
    using assms(1) by (simp add: preservesBodies_def)
  then have "taskIntact tk1 (B w1)" using i1 taskIntact_dom by blast
  from Suc.IH [OF this, of "Suc i"] a show ?case by simp
qed

lemma task_checkTermination_intact:
  assumes "taskIntact tk w"
  shows "\<exists>tk' tr. task_checkTermination tk w = Inr (tk', tr) \<and> taskIntact tk' w"
  using assms
  by (cases tk)
     (auto simp: task_checkTermination_def taskIntact_def split: prod.splits)

lemma task_getObservation_intact:
  assumes "taskIntact tk w"
  shows "\<exists>obs. task_getObservation tk w cfg = Inr obs"
  using assms
  by (cases tk)
     (auto simp: task_getObservation_def taskIntact_def getBodyState_def
        GapCrossingTask_getObservation_def GapCrossingTaskV2_getObservation_def
        ThrowBlockTask_getObservation_def ThrowBlockTaskV2_getObservation_def Let_def
        split: prod.splits option.splits)

lemma new_task_intact:
  "new_task c w cfg = (tk, w', cfg') \<Longrightarrow> taskIntact tk w'"
  by (cases c)
     (auto simp: new_task_def taskIntact_def
        new_GapCrossingTask_def GapCrossingTask_setup_def
        new_GapCrossingTaskV2_def GapCrossingTaskV2_setup_def
        new_ThrowBlockTask_def ThrowBlockTask_setup_def
        new_ThrowBlockTaskV2_def ThrowBlockTaskV2_setup_def
        createBox_def createCapsule_def addBody_def setBody_def getBody_def Let_def
        split: prod.splits option.splits)

lemma createEnvironment_registered:
  assumes "TASKS (if taskVersion (mergeConfig req) = Some ''v2''
                  then Config.task (mergeConfig req) @ ''_v2''
                  else Config.task (mergeConfig req)) = TaskClass c"
  shows "\<exists>env obs. createEnvironment sessionId req environments =
                     (environments(sessionId \<mapsto> env), Inr obs) \<and>
           sessionIntact env \<and> \<not> env_done env \<and> stepCount env = 0 \<and> totalReward env = 0 \<and>
           maxSteps (config env) = maxSteps (mergeConfig req) \<and>
           physicsTicksPerStep (config env) = physicsTicksPerStep (mergeConfig req)"
proof -
  obtain tk w' cfg' where n: "new_task c (new_PhysicsWorld (Some (gravity (mergeConfig req)))
      (Some (timeStep (mergeConfig req)))) (mergeConfig req) = (tk, w', cfg')"
    by (cases "new_task c (new_PhysicsWorld (Some (gravity (mergeConfig req)))
      (Some (timeStep (mergeConfig req)))) (mergeConfig req)")
  from new_task_intact [OF n] have i: "taskIntact tk w'" .
  from task_getObservation_intact [OF i, of cfg'] obtain obs where
    o: "task_getObservation tk w' cfg' = Inr obs" by blast
  have c: "maxSteps cfg' = maxSteps (mergeConfig req) \<and>
     physicsTicksPerStep cfg' = physicsTicksPerStep (mergeConfig req)"
    using n
    by (cases c)
     (auto simp: new_task_def
        new_GapCrossingTask_def GapCrossingTask_setup_def
        new_GapCrossingTaskV2_def GapCrossingTaskV2_setup_def
        new_ThrowBlockTask_def ThrowBlockTask_setup_def
        new_ThrowBlockTaskV2_def ThrowBlockTaskV2_setup_def
        randomInRange_def seededRandom_def Let_def
        split: prod.splits)
  let ?env = "\<lparr>world = w', task = tk, config = cfg', stepCount = 0, env_done = False,
               totalReward = 0\<rparr>"
  have "createEnvironment sessionId req environments =
          (environments(sessionId \<mapsto> ?env), Inr obs)"
    using assms n o by (simp add: createEnvironment_def Let_def)
  moreover have "sessionIntact ?env" using i by (simp add: sessionIntact_def)
  ultimately show ?thesis using c
    by (intro exI [of _ ?env] exI [of _ obs]) simp
qed

lemma createEnvironment_unknown_task:
  assumes "TASKS (if taskVersion (mergeConfig req) = Some ''v2''
                  then Config.task (mergeConfig req) @ ''_v2''
                  else Config.task (mergeConfig req)) = Undefined"
  shows "\<exists>msg. createEnvironment sessionId req environments = (environments, Inl (Error msg))"
  using assms by (simp add: createEnvironment_def Let_def)

lemma TASKS_constructor: "TASKS ''constructor'' = ObjectConstructor"
  by (simp add: TASKS_def)

lemma demoSessions_session:
  "\<exists>env. demoSessions = [''s'' \<mapsto> env] \<and> sessionIntact env \<and> \<not> env_done env \<and>
         stepCount env = 0 \<and> maxSteps (config env) = 500 \<and>
         physicsTicksPerStep (config env) = 10"
proof -
  have "TASKS (if taskVersion (mergeConfig emptyRequest) = Some ''v2''
               then Config.task (mergeConfig emptyRequest) @ ''_v2''
               else Config.task (mergeConfig emptyRequest)) = TaskClass GapCrossingTaskClass"
    by (simp add: mergeConfig_def emptyRequest_def orDefault_def TASKS_def)
  from createEnvironment_registered [OF this, of "''s''" Map.empty]
  show ?thesis
    by (auto simp: demoSessions_def mergeConfig_def emptyRequest_def orDefault_def)
qed

lemma budgetOneSessions_session:
  "\<exists>env. budgetOneSessions = [''s'' \<mapsto> env] \<and> sessionIntact env \<and> \<not> env_done env \<and>
         stepCount env = 0 \<and> maxSteps (config env) = 1"
proof -
  let ?r = "emptyRequest\<lparr>req_maxSteps := Some 1\<rparr>"
  have "TASKS (if taskVersion (mergeConfig ?r) = Some ''v2''
               then Config.task (mergeConfig ?r) @ ''_v2''
               else Config.task (mergeConfig ?r)) = TaskClass GapCrossingTaskClass"
    by (simp add: mergeConfig_def emptyRequest_def orDefault_def TASKS_def)
  from createEnvironment_registered [OF this, of "''s''" Map.empty]
  show ?thesis
    by (auto simp: budgetOneSessions_def mergeConfig_def emptyRequest_def orDefault_def)
qed

lemma preservesBodies_id: "preservesBodies (\<lambda>w. w)"
  by (simp add: preservesBodies_def)

lemma stepEnvironment_live_next:
  assumes "environments sessionId = Some env" and "\<not> env_done env"
    and "sessionIntact env" and "preservesBodies B" and "protocolAction act"
  shows "\<exists>env' res.
           stepEnvironment B clock sessionId act p environments =
             (environments(sessionId \<mapsto> env'), Inr res) \<and>
           sessionIntact env' \<and> res_done res = env_done env' \<and>
           (stepCount env + 1 \<ge> maxSteps (config env) \<longrightarrow> env_done env') \<and>
           config env' = config env \<and> stepCount env' = stepCount env + 1"
proof -
  from tickLoop_intact [OF assms(4,5), of "task env" "world env" "config env" clock p 0
      "nat (physicsTicksPerStep (config env))"] assms(3)
  obtain tk w where t: "tickLoop B (config env) clock act p 0
      (nat (physicsTicksPerStep (config env))) (task env, world env) = ((tk, w), None)"
    and i: "taskIntact tk w" unfolding sessionIntact_def by blast
  from task_checkTermination_intact [OF i] obtain tk' tr where
    c: "task_checkTermination tk w = Inr (tk', tr)" and i': "taskIntact tk' w" by blast
  from task_getObservation_intact [OF i', of "config env"] obtain obs where
    o: "task_getObservation tk' w (config env) = Inr obs" by blast
  show ?thesis
    using assms(1,2) t c o i'
    by (auto simp: stepEnvironment_def Let_def sessionIntact_def)
qed

subsection \<open>Stepping a finished session\<close>

text \<open>
  Claim C2. A step on a session whose done flag is set is a no-op: it returns the
  observation of the terminal state with reward 0, done = true and the marker
  \<open>already_done\<close> in the info field, it is a normal return and not an error, and the
  session registry (hence the world, the step counter and the cumulative reward of the
  session) is left as it was. The session is one the server can hold: its task object is
  a task and the bodies set up for it are in the world.
\<close>

theorem step_after_done_is_noop:
  assumes "environments sessionId = Some env" and "env_done env" and "sessionIntact env"
  shows "\<exists>obs. task_getObservation (task env) (world env) (config env) = Inr obs \<and>
           stepEnvironment B clock sessionId act p environments =
             (environments,
              Inr \<lparr>observation = obs, reward = 0, res_done = True,
                   info = \<lparr>info_step = None, info_success = None,
                           info_reason = ''already_done'', info_totalReward = None\<rparr>\<rparr>)"
proof -
  from assms(3) obtain obs where
    o: "task_getObservation (task env) (world env) (config env) = Inr obs"
    using task_getObservation_intact unfolding sessionIntact_def by blast
  with assms(1,2) show ?thesis
    by (simp add: stepEnvironment_def)
qed

text \<open>
  Witness for C2: a session reset with a step budget of 1 is finished by its first step;
  the second step is the no-op.
\<close>

theorem step_after_done_is_noop_witness:
  "\<exists>envs res obs.
     stepEnvironment (\<lambda>w. w) noClock ''s'' (ActionString ''forward'') noParams budgetOneSessions =
       (envs, Inr res) \<and> res_done res \<and>
     stepEnvironment (\<lambda>w. w) noClock ''s'' (ActionString ''jump'') noParams envs =
       (envs,
        Inr \<lparr>observation = obs, reward = 0, res_done = True,
             info = \<lparr>info_step = None, info_success = None,
                     info_reason = ''already_done'', info_totalReward = None\<rparr>\<rparr>)"
proof -
  from budgetOneSessions_session obtain env where
    d: "budgetOneSessions = [''s'' \<mapsto> env]" and i: "sessionIntact env" and n: "\<not> env_done env"
    and c: "stepCount env = 0" and m: "maxSteps (config env) = 1"
    by blast
  have s: "budgetOneSessions ''s'' = Some env" by (simp add: d)
  have k: "protocolAction (ActionString ''forward'')" by simp
  from stepEnvironment_live_next [where environments = budgetOneSessions and sessionId = "''s''"
      and clock = noClock and act = "ActionString ''forward''" and p = noParams,
      OF s n i preservesBodies_id k]
  obtain env' res where
    st: "stepEnvironment (\<lambda>w. w) noClock ''s'' (ActionString ''forward'') noParams
           budgetOneSessions = (budgetOneSessions(''s'' \<mapsto> env'), Inr res)"
    and i': "sessionIntact env'" and rd: "res_done res = env_done env'"
    and b: "stepCount env + 1 \<ge> maxSteps (config env) \<longrightarrow> env_done env'"
    by blast
  from b c m have dn: "env_done env'" by simp
  let ?envs = "budgetOneSessions(''s'' \<mapsto> env')"
  have s': "?envs ''s'' = Some env'" by simp
  from step_after_done_is_noop [where environments = ?envs and sessionId = "''s''"
      and B = "\<lambda>w. w" and clock = noClock and act = "ActionString ''jump''" and p = noParams,
      OF s' dn i'] st rd dn
  show ?thesis by (elim exE conjE) (simp only: dn, blast)
qed

subsection \<open>Stepping a live session\<close>

text \<open>
  Claim C5. A step on a live session that is not done, with an action of the type the
  step interface declares (a string or a number), marks the session done exactly when the
  task reports termination or the advanced step counter has reached \<open>maxSteps\<close>; the info
  reason is \<open>timeout\<close> exactly when the budget is exhausted and the task did not report
  termination, and the task's reason otherwise; the returned reward is added to the
  cumulative reward of the session. (With any other JSON value as action the call raises
  before the counter is advanced, see \<open>stepEnvironment_malformed\<close> below.)
\<close>

theorem stepEnvironment_live:
  assumes "environments sessionId = Some env" and "\<not> env_done env"
    and "sessionIntact env" and "preservesBodies B" and "protocolAction act"
  shows "\<exists>tk w tk' tr env' res.
           tickLoop B (config env) clock act p 0 (nat (physicsTicksPerStep (config env)))
             (task env, world env) = ((tk, w), None) \<and>
           task_checkTermination tk w = Inr (tk', tr) \<and>
           stepEnvironment B clock sessionId act p environments =
             (environments(sessionId \<mapsto> env'), Inr res) \<and>
           env_done env' = (term_done tr \<or> stepCount env + 1 \<ge> maxSteps (config env)) \<and>
           res_done res = env_done env' \<and>
           stepCount env' = stepCount env + 1 \<and>
           info_step (info res) = Some (stepCount env + 1) \<and>
           info_reason (info res) =
             (if \<not> term_done tr \<and> stepCount env + 1 \<ge> maxSteps (config env)
              then ''timeout'' else reason tr) \<and>
           reward res = getReward (term_done tr) (success tr) \<and>
           totalReward env' = totalReward env + reward res \<and>
           info_totalReward (info res) = Some (totalReward env')"
proof -
  from tickLoop_intact [OF assms(4,5), of "task env" "world env" "config env" clock p 0
      "nat (physicsTicksPerStep (config env))"] assms(3)
  obtain tk w where t: "tickLoop B (config env) clock act p 0
      (nat (physicsTicksPerStep (config env))) (task env, world env) = ((tk, w), None)"
    and i: "taskIntact tk w" unfolding sessionIntact_def by blast
  from task_checkTermination_intact [OF i] obtain tk' tr where
    c: "task_checkTermination tk w = Inr (tk', tr)" and i': "taskIntact tk' w" by blast
  from task_getObservation_intact [OF i', of "config env"] obtain obs where
    o: "task_getObservation tk' w (config env) = Inr obs" by blast
  show ?thesis
    using assms(1,2) t c o
    by (auto simp: stepEnvironment_def Let_def)
qed

text \<open>Witness for C5: the first step of a freshly reset default session.\<close>

theorem stepEnvironment_live_witness:
  "\<exists>env tk w tk' tr env' res.
     demoSessions ''s'' = Some env \<and>
     tickLoop (\<lambda>w. w) (config env) noClock (ActionString ''forward'') noParams 0
       (nat (physicsTicksPerStep (config env))) (task env, world env) = ((tk, w), None) \<and>
     task_checkTermination tk w = Inr (tk', tr) \<and>
     stepEnvironment (\<lambda>w. w) noClock ''s'' (ActionString ''forward'') noParams demoSessions =
       (demoSessions(''s'' \<mapsto> env'), Inr res) \<and>
     env_done env' = (term_done tr \<or> stepCount env + 1 \<ge> maxSteps (config env)) \<and>
     res_done res = env_done env' \<and>
     stepCount env' = stepCount env + 1 \<and>
     info_step (info res) = Some (stepCount env + 1) \<and>
     info_reason (info res) =
       (if \<not> term_done tr \<and> stepCount env + 1 \<ge> maxSteps (config env)
        then ''timeout'' else reason tr) \<and>
     reward res = getReward (term_done tr) (success tr) \<and>
     totalReward env' = totalReward env + reward res \<and>
     info_totalReward (info res) = Some (totalReward env')"
proof -
  from demoSessions_session obtain env where
    d: "demoSessions = [''s'' \<mapsto> env]" and i: "sessionIntact env" and n: "\<not> env_done env"
    by blast
  have s: "demoSessions ''s'' = Some env" by (simp add: d)
  have k: "protocolAction (ActionString ''forward'')" by simp
  from stepEnvironment_live [where environments = demoSessions and sessionId = "''s''"
      and clock = noClock and act = "ActionString ''forward''" and p = noParams,
      OF s n i preservesBodies_id k] s
  show ?thesis by blast
qed

subsection \<open>Resetting with a task name outside the registry\<close>

lemma createEnvironment_constructor_replaces:
  "Config.task (mergeConfig req) = ''constructor'' \<Longrightarrow> taskVersion (mergeConfig req) \<noteq> Some ''v2'' \<Longrightarrow>
   \<exists>env. fst (createEnvironment sessionId req environments) sessionId = Some env \<and>
         task env = WorldObject \<and>
         snd (createEnvironment sessionId req environments) =
           Inl (TypeError ''task.getObservation is not a function'')"
  by (simp add: createEnvironment_def Let_def TASKS_def task_getObservation_def)

text \<open>
  Claim C9. A reset whose configuration names a task outside the registry must fail and
  leave the session map alone. For the task name \<open>constructor\<close> the read
  \<open>TASKS[taskName]\<close> finds \<open>Object\<close> on the prototype chain, the guard \<open>!TaskClass\<close>
  passes, the environment is stored, and only then \<open>task.getObservation()\<close> raises: the
  call fails, but a session has been created.
\<close>

theorem createEnvironment_constructor_creates_session:
  "\<not> registered ''constructor'' \<and>
   createEnvironment ''s'' (emptyRequest\<lparr>req_task := Some ''constructor''\<rparr>) Map.empty =
     ([''s'' \<mapsto> \<lparr>world = new_PhysicsWorld (Some 9.81) (Some (1 / 60)),
                  task = WorldObject,
                  config = mergeConfig (emptyRequest\<lparr>req_task := Some ''constructor''\<rparr>),
                  stepCount = 0, env_done = False, totalReward = 0\<rparr>],
      Inl (TypeError ''task.getObservation is not a function''))"
  by (simp add: registered_def createEnvironment_def Let_def mergeConfig_def emptyRequest_def
        orDefault_def TASKS_def task_getObservation_def)

subsection \<open>The seeded generator\<close>

text \<open>
  Where the exact product and sum stay below \<open>2^53\<close> no rounding happens and the
  generator is the linear-congruential recurrence; this covers the seeds from 0 to
  8162278. Each task constructor draws exactly once, in \<open>setup()\<close>, and the actual gap
  width and the actual basket distance are the configured base value plus that one draw
  scaled into the variance range.
\<close>

lemma drop_bits_small: "a < 2 ^ 53 \<Longrightarrow> drop_bits a 0 = 0"
  by (subst drop_bits.simps) simp

lemma round_double_exact: "\<bar>n\<bar> < 2 ^ 53 \<Longrightarrow> round_double n = n"
  by (simp add: round_double_def Let_def drop_bits_small)

lemma ToInt32_mod: "ToInt32 n mod 2 ^ 31 = n mod 2 ^ 31"
proof -
  have a: "(n mod 2 ^ 32) mod 2 ^ 31 = n mod 2 ^ 31"
    by (rule mod_mod_cancel) simp
  have "(n mod 2 ^ 32 - 2 ^ 32) mod 2 ^ 31 = (n mod 2 ^ 32 + (- 2) * 2 ^ 31) mod (2 ^ 31 :: int)"
    by simp
  also have "\<dots> = (n mod 2 ^ 32) mod 2 ^ 31"
    by (rule mod_mult_self1)
  finally have b: "(n mod 2 ^ 32 - 2 ^ 32) mod 2 ^ 31 = n mod (2 ^ 31 :: int)"
    using a by simp
  show ?thesis
    unfolding ToInt32_def Let_def using a b by (simp only: if_distrib [of "\<lambda>x. x mod 2 ^ 31"] if_cancel)
qed

lemma js_bitand_mask: "js_bitand n 0x7fffffff = n mod 2 ^ 31"
proof -
  have m: "(2147483647::int) = mask 31" by (simp add: mask_eq_exp_minus_1)
  have t: "ToInt32 2147483647 = 2147483647" by (simp add: ToInt32_def)
  have "js_bitand n 2147483647 = ToInt32 n AND 2147483647"
    by (simp only: js_bitand_def t)
  also have "\<dots> = ToInt32 n AND mask 31" by (simp only: m)
  also have "\<dots> = take_bit 31 (ToInt32 n)" by (simp only: take_bit_eq_mask)
  also have "\<dots> = ToInt32 n mod 2 ^ 31" by (simp only: take_bit_eq_mod)
  finally show ?thesis by (simp only: ToInt32_mod)
qed

lemma seededRandom_lcg:
  assumes "\<bar>seed cfg * 1103515245\<bar> < 2 ^ 53" and "\<bar>seed cfg * 1103515245 + 12345\<bar> < 2 ^ 53"
  shows "seed (fst (seededRandom cfg)) = lcg (seed cfg)"
proof -
  have "js_add (js_mul (seed cfg) 1103515245) 12345 = seed cfg * 1103515245 + 12345"
    using assms by (simp only: js_mul_def js_add_def round_double_exact)
  then show ?thesis
    by (simp add: seededRandom_def Let_def js_bitand_mask lcg_def)
qed

lemma new_task_draws_once:
  "new_task c w cfg = (tk, w', cfg') \<Longrightarrow> cfg' = fst (seededRandom cfg)"
  by (cases c)
     (auto simp: new_task_def
        new_GapCrossingTask_def GapCrossingTask_setup_def
        new_GapCrossingTaskV2_def GapCrossingTaskV2_setup_def
        new_ThrowBlockTask_def ThrowBlockTask_setup_def
        new_ThrowBlockTaskV2_def ThrowBlockTaskV2_setup_def
        randomInRange_def Let_def
        split: prod.splits)

lemma GapCrossingTask_actualGapWidth:
  "new_GapCrossingTask w cfg = (t, w', cfg') \<Longrightarrow>
   GapCrossingTask.actualGapWidth t =
     orDefault (Config.gapWidth cfg) 3.0 +
     (- orDefault (Config.gapVariance cfg) 0.5 +
      snd (seededRandom cfg) *
        (orDefault (Config.gapVariance cfg) 0.5 - - orDefault (Config.gapVariance cfg) 0.5))"
  by (auto simp: new_GapCrossingTask_def GapCrossingTask_setup_def GapCrossingTask_constructor_def
        randomInRange_def Let_def split: prod.splits)

lemma ThrowBlockTask_actualBasketDistance:
  "new_ThrowBlockTask w cfg = (t, w', cfg') \<Longrightarrow>
   ThrowBlockTask.actualBasketDistance t =
     orDefault (Config.basketDistance cfg) 6.0 +
     (- orDefault (Config.basketDistanceVariance cfg) 1.0 +
      snd (seededRandom cfg) *
        (orDefault (Config.basketDistanceVariance cfg) 1.0 -
         - orDefault (Config.basketDistanceVariance cfg) 1.0))"
  by (auto simp: new_ThrowBlockTask_def ThrowBlockTask_setup_def ThrowBlockTask_constructor_def
        randomInRange_def Let_def split: prod.splits)

text \<open>
  Claim C3. The generator is meant to follow
  \<open>seed' = (seed * 1103515245 + 12345) mod 2^31\<close>. The source computes the product and
  the sum in double precision before masking, so the low bits are lost once the product
  passes \<open>2^53\<close>: for the configured seed 10000000 the exact sum 11035152450012345 is
  rounded to 11035152450012344 and the new seed is 634602680, where the recurrence gives
  634602681.
\<close>

theorem seededRandom_loses_low_bits:
  "seed (fst (seededRandom (mergeConfig (emptyRequest\<lparr>req_seed := Some 10000000\<rparr>)))) = 634602680
   \<and> lcg 10000000 = 634602681"
  by (simp add: seededRandom_def Let_def js_mul_def js_add_def js_bitand_def ToInt32_def
      round_double_def drop_bits.simps mergeConfig_def emptyRequest_def orDefault_def lcg_def)

subsection \<open>Jumping\<close>

lemma agentOf_setBody [simp]: "agentOf (setBody ''agent'' b w) = b"
  by (simp add: agentOf_def setBody_def getBody_def)

lemma getBody_setBody_same [simp]: "getBody (setBody name b w) name = Some b"
  by (simp add: setBody_def getBody_def)

lemma vel_clampHorizontal_y [simp]: "vec_y (velocity (clampHorizontal m b)) = vec_y (velocity b)"
  by (simp add: clampHorizontal_def)

lemma vel_setVelY [simp]: "vec_y (velocity (setVelY r b)) = r"
  by (simp add: setVelY_def set_y_def)

lemma toLowerCase_JUMP: "toLowerCase ''JUMP'' = ''jump''"
  by (simp add: toLowerCase_def lowerChar_def)

text \<open>
  Claim C6, as amended. In the traversal task an accepted jump (the agent is grounded and
  the jump is permitted; in the second revision the cooldown has also elapsed) sets the
  vertical velocity of the agent to \<open>sqrt (2 * g * h)\<close>, with \<open>h = 2.0\<close> in the first
  revision and \<open>h = jumpHeight\<close> in the second. The second revision multiplies it by
  \<open>runUpBonus\<close> exactly when the forward velocity component \<open>velocity.x\<close> at takeoff
  exceeds half of \<open>moveSpeed\<close>.
\<close>

theorem jump_velocity:
  assumes "getBody w ''agent'' = Some agent" and "gravity cfg > 0"
  shows "(normalizeAction (GapCrossingTask.actions t1) act = Inr (Some ''jump'')
          \<and> groundedCheck (GapCrossingTask.agentHeight t1) agent \<and> GapCrossingTask.canJump t1
          \<longrightarrow> vec_y (velocity (agentOf (snd (fst (GapCrossingTask_applyAction cfg act (t1, w))))))
                = sqrt (2 * gravity cfg * 2.0))
       \<and> (normalizeAction (GapCrossingTaskV2.actions t2) act = Inr (Some ''jump'')
          \<and> groundedCheck (GapCrossingTaskV2.agentHeight t2) agent
          \<and> (GapCrossingTaskV2.canJump t2 \<or> \<not> GapCrossingTaskV2.isGrounded t2)
          \<and> now - lastJumpTime t2 > jumpCooldownMs t2
          \<longrightarrow> vec_y (velocity (agentOf (snd (fst (GapCrossingTaskV2_applyAction cfg now act (t2, w))))))
                = (if vec_x (velocity agent) > moveSpeed t2 * 0.5
                   then sqrt (2 * gravity cfg * jumpHeight t2) * runUpBonus t2
                   else sqrt (2 * gravity cfg * jumpHeight t2)))"
  using assms
  by (auto simp: GapCrossingTask_applyAction_def GapCrossingTaskV2_applyAction_def Let_def)

text \<open>Witness for C6: the action \<open>JUMP\<close> on a grounded agent, in both revisions.\<close>

theorem jump_velocity_witness:
  "vec_y (velocity (agentOf (snd (fst (GapCrossingTask_applyAction defaultConfig (ActionString ''JUMP'')
      (GapCrossingTask_constructor defaultConfig, movingRightWorld)))))) = sqrt (2 * 9.81 * 2.0)
   \<and> vec_y (velocity (agentOf (snd (fst (GapCrossingTaskV2_applyAction defaultConfig 1700000000000
      (ActionString ''JUMP'') (GapCrossingTaskV2_constructor defaultConfig, movingRightWorld))))))
     = sqrt (2 * 9.81 * 1.2)"
proof -
  have a: "getBody movingRightWorld ''agent'' = Some movingRightAgent"
    by (simp add: movingRightWorld_def)
  have g: "gravity defaultConfig > 0"
    by (simp add: defaultConfig_def mergeConfig_def emptyRequest_def orDefault_def)
  have n1: "normalizeAction (GapCrossingTask.actions (GapCrossingTask_constructor defaultConfig))
      (ActionString ''JUMP'') = Inr (Some ''jump'')"
    by (simp add: normalizeAction_def toLowerCase_JUMP)
  have n2: "normalizeAction (GapCrossingTaskV2.actions (GapCrossingTaskV2_constructor defaultConfig))
      (ActionString ''JUMP'') = Inr (Some ''jump'')"
    by (simp add: normalizeAction_def toLowerCase_JUMP)
  have gr1: "groundedCheck (GapCrossingTask.agentHeight (GapCrossingTask_constructor defaultConfig))
      movingRightAgent"
    by (simp add: groundedCheck_def GapCrossingTask_constructor_def movingRightAgent_def)
  have gr2: "groundedCheck
      (GapCrossingTaskV2.agentHeight (GapCrossingTaskV2_constructor defaultConfig)) movingRightAgent"
    by (simp add: groundedCheck_def GapCrossingTaskV2_constructor_def movingRightAgent_def)
  have c1: "GapCrossingTask.canJump (GapCrossingTask_constructor defaultConfig)"
    by (simp add: GapCrossingTask_constructor_def)
  have c2: "GapCrossingTaskV2.canJump (GapCrossingTaskV2_constructor defaultConfig)"
    "1700000000000 - lastJumpTime (GapCrossingTaskV2_constructor defaultConfig)
       > jumpCooldownMs (GapCrossingTaskV2_constructor defaultConfig)"
    "\<not> vec_x (velocity movingRightAgent)
       > moveSpeed (GapCrossingTaskV2_constructor defaultConfig) * 0.5"
    "jumpHeight (GapCrossingTaskV2_constructor defaultConfig) = 1.2"
    by (simp_all add: GapCrossingTaskV2_constructor_def movingRightAgent_def)
  have gv: "gravity defaultConfig = 9.81"
    by (simp add: defaultConfig_def mergeConfig_def emptyRequest_def orDefault_def)
  from jump_velocity [OF a g, of "GapCrossingTask_constructor defaultConfig"
      "ActionString ''JUMP''" "GapCrossingTaskV2_constructor defaultConfig" 1700000000000]
    n1 n2 gr1 gr2 c1 c2 gv
  show ?thesis by simp
qed

text \<open>
  Counterexample to C6 as stated: an agent moving sideways at 2.4 m/s has a horizontal
  speed above half the move speed (1.5), yet its accepted jump gets no bonus, because the
  source tests \<open>agent.velocity.x\<close> only.
\<close>

theorem run_up_bonus_ignores_lateral_speed:
  "groundedCheck (GapCrossingTaskV2.agentHeight (GapCrossingTaskV2_constructor defaultConfig))
     movingRightAgent
   \<and> GapCrossingTaskV2.canJump (GapCrossingTaskV2_constructor defaultConfig)
   \<and> 1700000000000 - lastJumpTime (GapCrossingTaskV2_constructor defaultConfig)
       > jumpCooldownMs (GapCrossingTaskV2_constructor defaultConfig)
   \<and> horizontalSpeed (velocity movingRightAgent) = 2.4
   \<and> moveSpeed (GapCrossingTaskV2_constructor defaultConfig) * 0.5 = 1.5
   \<and> vec_y (velocity (agentOf (snd (fst (GapCrossingTaskV2_applyAction defaultConfig 1700000000000
        (ActionString ''jump'') (GapCrossingTaskV2_constructor defaultConfig, movingRightWorld))))))
       = sqrt (2 * 9.81 * 1.2)
   \<and> claimedJumpVelocityV2 defaultConfig (GapCrossingTaskV2_constructor defaultConfig)
        movingRightAgent = sqrt (2 * 9.81 * 1.2) * 1.3
   \<and> vec_y (velocity (agentOf (snd (fst (GapCrossingTaskV2_applyAction defaultConfig 1700000000000
        (ActionString ''jump'') (GapCrossingTaskV2_constructor defaultConfig, movingRightWorld))))))
       \<noteq> claimedJumpVelocityV2 defaultConfig (GapCrossingTaskV2_constructor defaultConfig)
            movingRightAgent"
proof -
  have h: "horizontalSpeed (velocity movingRightAgent) = 2.4"
  proof -
    have "horizontalSpeed (velocity movingRightAgent) = sqrt (2.4 * 2.4)"
      by (simp add: horizontalSpeed_def movingRightAgent_def)
    also have "\<dots> = \<bar>2.4::real\<bar>" by (rule real_sqrt_abs2)
    finally show ?thesis by simp
  qed
  have gv: "gravity defaultConfig = 9.81"
    by (simp add: defaultConfig_def mergeConfig_def emptyRequest_def orDefault_def)
  have gr: "groundedCheck
      (GapCrossingTaskV2.agentHeight (GapCrossingTaskV2_constructor defaultConfig)) movingRightAgent"
    by (simp add: groundedCheck_def GapCrossingTaskV2_constructor_def movingRightAgent_def)
  have v: "vec_y (velocity (agentOf (snd (fst (GapCrossingTaskV2_applyAction defaultConfig 1700000000000
        (ActionString ''jump'') (GapCrossingTaskV2_constructor defaultConfig, movingRightWorld))))))
       = sqrt (2 * 9.81 * 1.2)"
    using gr
    by (simp add: GapCrossingTaskV2_applyAction_def Let_def movingRightWorld_def gv
        normalizeAction_def toLowerCase_def lowerChar_def)
       (simp add: GapCrossingTaskV2_constructor_def movingRightAgent_def)
  have c: "claimedJumpVelocityV2 defaultConfig (GapCrossingTaskV2_constructor defaultConfig)
        movingRightAgent = sqrt (2 * 9.81 * 1.2) * 1.3"
    by (simp add: claimedJumpVelocityV2_def h gv) (simp add: GapCrossingTaskV2_constructor_def)
  have p: "sqrt (2 * 9.81 * 1.2) > (0::real)" by simp
  have ne: "sqrt (2 * 9.81 * 1.2) \<noteq> sqrt (2 * 9.81 * 1.2) * (1.3::real)"
    using p by simp
  have k: "GapCrossingTaskV2.canJump (GapCrossingTaskV2_constructor defaultConfig)"
    "1700000000000 - lastJumpTime (GapCrossingTaskV2_constructor defaultConfig)
       > jumpCooldownMs (GapCrossingTaskV2_constructor defaultConfig)"
    "moveSpeed (GapCrossingTaskV2_constructor defaultConfig) * 0.5 = 1.5"
    by (simp_all add: GapCrossingTaskV2_constructor_def)
  have neq: "vec_y (velocity (agentOf (snd (fst (GapCrossingTaskV2_applyAction defaultConfig
        1700000000000 (ActionString ''jump'')
        (GapCrossingTaskV2_constructor defaultConfig, movingRightWorld))))))
       \<noteq> claimedJumpVelocityV2 defaultConfig (GapCrossingTaskV2_constructor defaultConfig)
            movingRightAgent"
    unfolding v c by (rule ne)
  from gr k h v c neq show ?thesis by blast
qed

subsection \<open>Throwing\<close>

lemma getBody_setBody_other [simp]:
  "name \<noteq> name' \<Longrightarrow> getBody (setBody name b w) name' = getBody w name'"
  by (simp add: setBody_def getBody_def)

lemma blockOf_setBody [simp]: "blockOf (setBody ''agent'' a (setBody ''block'' b w)) = b"
  by (simp add: blockOf_def)

lemma agentOf_setBody_block [simp]:
  "agentOf (setBody ''agent'' a (setBody ''block'' b w)) = a"
  by (simp add: agentOf_def)

lemma isThrow_cases:
  "isThrow a \<Longrightarrow> a \<noteq> Some ''forward'' \<and> a \<noteq> Some ''back'' \<and> a \<noteq> Some ''left'' \<and>
     a \<noteq> Some ''right'' \<and> a \<noteq> Some ''pick'' \<and> a \<noteq> Some ''drop''"
  by (auto simp: isThrow_def)

lemma ThrowBlockTask_throw:
  assumes "getBody w ''agent'' = Some agent" and "getBody w ''block'' = Some block"
    and "ThrowBlockTask.holdingBlock t"
    and "normalizeAction (ThrowBlockTask.actions t) act = Inr a" and "isThrow a"
  shows "ThrowBlockTask_applyAction cfg act (t, w) =
           ((t\<lparr>ThrowBlockTask.isGrounded := groundedCheck (ThrowBlockTask.agentHeight t) agent,
               ThrowBlockTask.holdingBlock := False\<rparr>,
             setBody ''agent'' (clampHorizontal 4.0 agent)
               (setBody ''block''
                  (let s = lookupStrength (ThrowBlockTask.throwStrengths t) (strengthKey (the a))
                   in placeBlock (offsetFrom (position agent) 0.8 0.3)
                        (Vec3 s (s * 0.5 * sqrt (gravity cfg / 9.81)) 0) block) w)),
            None)"
  using assms isThrow_cases [OF assms(5)]
  by (simp add: ThrowBlockTask_applyAction_def Let_def)

lemma ThrowBlockTaskV2_throw:
  assumes "getBody w ''agent'' = Some agent" and "getBody w ''block'' = Some block"
    and "ThrowBlockTaskV2.holdingBlock t"
    and "normalizeAction (ThrowBlockTaskV2.actions t) act = Inr a" and "isThrow a"
  shows "ThrowBlockTaskV2_applyAction cfg act p (t, w) =
           ((t\<lparr>ThrowBlockTaskV2.isGrounded :=
                 groundedCheck (ThrowBlockTaskV2.agentHeight t) agent,
               ThrowBlockTaskV2.holdingBlock := False\<rparr>,
             setBody ''agent'' (clampHorizontal 4.0 agent)
               (setBody ''block''
                  (placeBlock (offsetFrom (position agent) 0.6 0.4)
                     (aimedVelocity
                        (lookupStrength (ThrowBlockTaskV2.throwStrengths t) (strengthKey (the a)))
                        (throwAngle t) (offsetFrom (position agent) 0.6 0.4)
                        (Vec3 (ThrowBlockTaskV2.actualBasketDistance t)
                           (ThrowBlockTaskV2.basketHeight t) 0)) block) w)),
            None)"
  using assms isThrow_cases [OF assms(5)]
  by (simp add: ThrowBlockTaskV2_applyAction_def Let_def aimedVelocity_def aimDirection_def)

lemma aimDirection_unit:
  assumes "vec_x release \<noteq> vec_x centre \<or> vec_z release \<noteq> vec_z centre"
  shows "(fst (aimDirection release centre))\<^sup>2 + (snd (aimDirection release centre))\<^sup>2 = 1"
proof -
  define a where "a = vec_x centre - vec_x release"
  define b where "b = vec_z centre - vec_z release"
  define S where "S = a * a + b * b"
  have "a \<noteq> 0 \<or> b \<noteq> 0" using assms by (auto simp: a_def b_def)
  then have p: "S > 0"
    unfolding S_def by (metis not_sum_squares_lt_zero sum_squares_eq_zero_iff
        linorder_neqE_linordered_idom)
  then have d: "(sqrt S)\<^sup>2 = S" by simp
  have "(a / sqrt S)\<^sup>2 + (b / sqrt S)\<^sup>2 = a\<^sup>2 / (sqrt S)\<^sup>2 + b\<^sup>2 / (sqrt S)\<^sup>2"
    by (simp only: power_divide)
  also have "\<dots> = (a\<^sup>2 + b\<^sup>2) / S" by (simp only: d add_divide_distrib)
  also have "\<dots> = S / S" by (simp only: S_def power2_eq_square)
  also have "\<dots> = 1" using p by simp
  finally show ?thesis
    by (simp only: aimDirection_def Let_def fst_conv snd_conv a_def b_def S_def)
qed

lemma strengthKey_values:
  "strengthKey ''throw_weak'' = ''weak''" "strengthKey ''throw_medium'' = ''medium''"
  "strengthKey ''throw_strong'' = ''strong''"
  by (simp_all add: strengthKey_def)

lemma lookupStrength_table:
  "lookupStrength ts (strengthKey ''throw_weak'') = weak ts"
  "lookupStrength ts (strengthKey ''throw_medium'') = medium ts"
  "lookupStrength ts (strengthKey ''throw_strong'') = strong ts"
  by (simp_all add: strengthKey_values lookupStrength_def)

lemma holdingWorld_bodies:
  "getBody holdingWorld ''agent'' = Some throwAgent" "getBody holdingWorld ''block'' = Some heldBlock"
  by (simp_all add: holdingWorld_def)

lemma defaultConfig_gravity: "gravity defaultConfig = 9.81"
  by (simp add: defaultConfig_def mergeConfig_def emptyRequest_def orDefault_def)

lemma toLowerCase_throw_medium: "toLowerCase ''throw_medium'' = ''throw_medium''"
  by (simp add: toLowerCase_def lowerChar_def)

lemma holdingTask_throw_medium:
  "normalizeAction (ThrowBlockTask.actions holdingTask) (ActionString ''throw_medium'')
     = Inr (Some ''throw_medium'')"
  "normalizeAction (ThrowBlockTaskV2.actions holdingTaskV2) (ActionString ''throw_medium'')
     = Inr (Some ''throw_medium'')"
  by (simp_all add: normalizeAction_def toLowerCase_throw_medium)

lemma holdingTask_fields:
  "ThrowBlockTask.holdingBlock holdingTask"
  "ThrowBlockTask.throwStrengths holdingTask = \<lparr>weak = 5, medium = 10, strong = 15\<rparr>"
  "ThrowBlockTaskV2.holdingBlock holdingTaskV2"
  "ThrowBlockTaskV2.throwStrengths holdingTaskV2 = \<lparr>weak = 4.0, medium = 6.0, strong = 8.5\<rparr>"
  "throwAngle holdingTaskV2 = 45 * pi / 180"
  "ThrowBlockTaskV2.actualBasketDistance holdingTaskV2 = 4"
  "ThrowBlockTaskV2.basketHeight holdingTaskV2 = 1"
  by (simp_all add: holdingTask_def holdingTaskV2_def ThrowBlockTask_constructor_def
      ThrowBlockTaskV2_constructor_def defaultConfig_def mergeConfig_def emptyRequest_def
      orDefault_def)

lemma ThrowBlockTask_throw_medium_velocity:
  "velocity (blockOf (snd (fst (ThrowBlockTask_applyAction defaultConfig (ActionString ''throw_medium'')
     (holdingTask, holdingWorld))))) = Vec3 10 5 0"
proof -
  have i: "isThrow (Some ''throw_medium'')"
    by (simp add: isThrow_def)
  show ?thesis
    by (simp add: ThrowBlockTask_throw [OF holdingWorld_bodies holdingTask_fields(1)
          holdingTask_throw_medium(1) i]
        holdingTask_fields lookupStrength_table placeBlock_def
        defaultConfig_gravity Let_def)
qed

text \<open>
  Claim C7, as amended. A throw action issued while the block is held releases the block.
  In the second revision the block is placed at the release point and its velocity is the
  launch-angle decomposition of the table magnitude at the fixed angle \<open>throwAngle\<close>,
  aimed along the planar unit vector from the release point to the basket centre
  (provided the release point is not exactly over the centre). In the first revision the
  block is launched straight along the x axis with velocity
  \<open>(strength, strength * 0.5 * sqrt (g / 9.81), 0)\<close>, without aiming.
\<close>

theorem throw_velocity:
  assumes "getBody w ''agent'' = Some agent" and "getBody w ''block'' = Some block"
    and "gravity cfg > 0"
  shows "(ThrowBlockTask.holdingBlock t1
          \<and> normalizeAction (ThrowBlockTask.actions t1) act = Inr a1 \<and> isThrow a1
          \<longrightarrow> velocity (blockOf (snd (fst (ThrowBlockTask_applyAction cfg act (t1, w)))))
                = (let s = lookupStrength (ThrowBlockTask.throwStrengths t1)
                             (strengthKey (the a1))
                   in Vec3 s (s * 0.5 * sqrt (gravity cfg / 9.81)) 0)
              \<and> \<not> ThrowBlockTask.holdingBlock
                    (fst (fst (ThrowBlockTask_applyAction cfg act (t1, w))))
              \<and> snd (ThrowBlockTask_applyAction cfg act (t1, w)) = None)
       \<and> (ThrowBlockTaskV2.holdingBlock t2
          \<and> normalizeAction (ThrowBlockTaskV2.actions t2) act = Inr a2 \<and> isThrow a2
          \<and> (vec_x (offsetFrom (position agent) 0.6 0.4) \<noteq> ThrowBlockTaskV2.actualBasketDistance t2
             \<or> vec_z (offsetFrom (position agent) 0.6 0.4) \<noteq> 0)
          \<longrightarrow> velocity (blockOf (snd (fst (ThrowBlockTaskV2_applyAction cfg act p (t2, w)))))
                = aimedVelocity
                    (lookupStrength (ThrowBlockTaskV2.throwStrengths t2) (strengthKey (the a2)))
                    (throwAngle t2) (offsetFrom (position agent) 0.6 0.4)
                    (Vec3 (ThrowBlockTaskV2.actualBasketDistance t2)
                       (ThrowBlockTaskV2.basketHeight t2) 0)
              \<and> position (blockOf (snd (fst (ThrowBlockTaskV2_applyAction cfg act p (t2, w)))))
                = offsetFrom (position agent) 0.6 0.4
              \<and> (fst (aimDirection (offsetFrom (position agent) 0.6 0.4)
                         (Vec3 (ThrowBlockTaskV2.actualBasketDistance t2)
                            (ThrowBlockTaskV2.basketHeight t2) 0)))\<^sup>2
                + (snd (aimDirection (offsetFrom (position agent) 0.6 0.4)
                         (Vec3 (ThrowBlockTaskV2.actualBasketDistance t2)
                            (ThrowBlockTaskV2.basketHeight t2) 0)))\<^sup>2 = 1
              \<and> throwAngle (fst (fst (ThrowBlockTaskV2_applyAction cfg act p (t2, w))))
                = throwAngle t2
              \<and> \<not> ThrowBlockTaskV2.holdingBlock
                    (fst (fst (ThrowBlockTaskV2_applyAction cfg act p (t2, w))))
              \<and> snd (ThrowBlockTaskV2_applyAction cfg act p (t2, w)) = None)"
proof (intro conjI impI)
  assume a: "ThrowBlockTask.holdingBlock t1
          \<and> normalizeAction (ThrowBlockTask.actions t1) act = Inr a1 \<and> isThrow a1"
  then have h: "ThrowBlockTask.holdingBlock t1"
    and n: "normalizeAction (ThrowBlockTask.actions t1) act = Inr a1" and i: "isThrow a1"
    by simp_all
  note r = ThrowBlockTask_throw [OF assms(1,2) h n i, of cfg]
  show "velocity (blockOf (snd (fst (ThrowBlockTask_applyAction cfg act (t1, w)))))
                = (let s = lookupStrength (ThrowBlockTask.throwStrengths t1)
                             (strengthKey (the a1))
                   in Vec3 s (s * 0.5 * sqrt (gravity cfg / 9.81)) 0)"
    unfolding r by (simp add: Let_def placeBlock_def)
  show "\<not> ThrowBlockTask.holdingBlock (fst (fst (ThrowBlockTask_applyAction cfg act (t1, w))))"
    unfolding r by (simp add: placeBlock_def)
  show "snd (ThrowBlockTask_applyAction cfg act (t1, w)) = None"
    unfolding r by (simp add: placeBlock_def)
next
  assume b: "ThrowBlockTaskV2.holdingBlock t2
          \<and> normalizeAction (ThrowBlockTaskV2.actions t2) act = Inr a2 \<and> isThrow a2
          \<and> (vec_x (offsetFrom (position agent) 0.6 0.4) \<noteq> ThrowBlockTaskV2.actualBasketDistance t2
             \<or> vec_z (offsetFrom (position agent) 0.6 0.4) \<noteq> 0)"
  then have h: "ThrowBlockTaskV2.holdingBlock t2"
    and n: "normalizeAction (ThrowBlockTaskV2.actions t2) act = Inr a2" and i: "isThrow a2"
    by simp_all
  note r = ThrowBlockTaskV2_throw [OF assms(1,2) h n i, of cfg p]
  show "velocity (blockOf (snd (fst (ThrowBlockTaskV2_applyAction cfg act p (t2, w)))))
                = aimedVelocity
                    (lookupStrength (ThrowBlockTaskV2.throwStrengths t2) (strengthKey (the a2)))
                    (throwAngle t2) (offsetFrom (position agent) 0.6 0.4)
                    (Vec3 (ThrowBlockTaskV2.actualBasketDistance t2)
                       (ThrowBlockTaskV2.basketHeight t2) 0)"
    unfolding r by (simp add: placeBlock_def)
  show "position (blockOf (snd (fst (ThrowBlockTaskV2_applyAction cfg act p (t2, w)))))
                = offsetFrom (position agent) 0.6 0.4"
    unfolding r by (simp add: placeBlock_def)
  from b
  show "(fst (aimDirection (offsetFrom (position agent) 0.6 0.4)
                         (Vec3 (ThrowBlockTaskV2.actualBasketDistance t2)
                            (ThrowBlockTaskV2.basketHeight t2) 0)))\<^sup>2
                + (snd (aimDirection (offsetFrom (position agent) 0.6 0.4)
                         (Vec3 (ThrowBlockTaskV2.actualBasketDistance t2)
                            (ThrowBlockTaskV2.basketHeight t2) 0)))\<^sup>2 = 1"
    by (intro aimDirection_unit) simp
  show "throwAngle (fst (fst (ThrowBlockTaskV2_applyAction cfg act p (t2, w)))) = throwAngle t2"
    unfolding r by (simp add: placeBlock_def)
  show "\<not> ThrowBlockTaskV2.holdingBlock
          (fst (fst (ThrowBlockTaskV2_applyAction cfg act p (t2, w))))"
    unfolding r by (simp add: placeBlock_def)
  show "snd (ThrowBlockTaskV2_applyAction cfg act p (t2, w)) = None"
    unfolding r by (simp add: placeBlock_def)
qed

text \<open>
  Witness for C7: \<open>throw_medium\<close> with the block in hand, in both revisions.
\<close>

theorem throw_velocity_witness:
  "velocity (blockOf (snd (fst (ThrowBlockTask_applyAction defaultConfig
         (ActionString ''throw_medium'') (holdingTask, holdingWorld))))) = Vec3 10 5 0
   \<and> \<not> ThrowBlockTask.holdingBlock (fst (fst (ThrowBlockTask_applyAction defaultConfig
         (ActionString ''throw_medium'') (holdingTask, holdingWorld))))
   \<and> velocity (blockOf (snd (fst (ThrowBlockTaskV2_applyAction defaultConfig
         (ActionString ''throw_medium'') noParams (holdingTaskV2, holdingWorld)))))
       = aimedVelocity 6 (45 * pi / 180) (Vec3 (- 1.4) 1.4 0) (Vec3 4 1 0)
   \<and> \<not> ThrowBlockTaskV2.holdingBlock (fst (fst (ThrowBlockTaskV2_applyAction defaultConfig
         (ActionString ''throw_medium'') noParams (holdingTaskV2, holdingWorld))))"
proof -
  have g: "gravity defaultConfig > 0" by (simp add: defaultConfig_gravity)
  have i: "isThrow (Some ''throw_medium'')" by (simp add: isThrow_def)
  have r: "offsetFrom (position throwAgent) 0.6 0.4 = Vec3 (- 1.4) 1.4 0"
    by (simp add: offsetFrom_def throwAgent_def)
  note T = throw_velocity [OF holdingWorld_bodies g, of holdingTask "ActionString ''throw_medium''"
      "Some ''throw_medium''" holdingTaskV2 "Some ''throw_medium''" noParams]
  have p1: "ThrowBlockTask.holdingBlock holdingTask
      \<and> normalizeAction (ThrowBlockTask.actions holdingTask) (ActionString ''throw_medium'')
          = Inr (Some ''throw_medium'')
      \<and> isThrow (Some ''throw_medium'')"
    by (simp add: holdingTask_fields holdingTask_throw_medium i)
  have p2: "ThrowBlockTaskV2.holdingBlock holdingTaskV2
      \<and> normalizeAction (ThrowBlockTaskV2.actions holdingTaskV2) (ActionString ''throw_medium'')
          = Inr (Some ''throw_medium'')
      \<and> isThrow (Some ''throw_medium'')
      \<and> (vec_x (offsetFrom (position throwAgent) 0.6 0.4)
            \<noteq> ThrowBlockTaskV2.actualBasketDistance holdingTaskV2
         \<or> vec_z (offsetFrom (position throwAgent) 0.6 0.4) \<noteq> 0)"
    unfolding r by (simp add: holdingTask_fields holdingTask_throw_medium i)
  from T [THEN conjunct1, THEN mp, OF p1]
  have q1: "velocity (blockOf (snd (fst (ThrowBlockTask_applyAction defaultConfig
        (ActionString ''throw_medium'') (holdingTask, holdingWorld))))) = Vec3 10 5 0"
    and q2: "\<not> ThrowBlockTask.holdingBlock (fst (fst (ThrowBlockTask_applyAction defaultConfig
         (ActionString ''throw_medium'') (holdingTask, holdingWorld))))"
    by (simp_all add: holdingTask_fields lookupStrength_table defaultConfig_gravity Let_def)
  from T [THEN conjunct2, THEN mp, OF p2]
  have q3: "velocity (blockOf (snd (fst (ThrowBlockTaskV2_applyAction defaultConfig
         (ActionString ''throw_medium'') noParams (holdingTaskV2, holdingWorld)))))
       = aimedVelocity 6 (45 * pi / 180) (Vec3 (- 1.4) 1.4 0) (Vec3 4 1 0)"
    and q4: "\<not> ThrowBlockTaskV2.holdingBlock (fst (fst (ThrowBlockTaskV2_applyAction defaultConfig
         (ActionString ''throw_medium'') noParams (holdingTaskV2, holdingWorld))))"
    unfolding r
    by (simp_all add: holdingTask_fields lookupStrength_table)
  from q1 q2 q3 q4 show ?thesis by blast
qed

text \<open>
  Counterexample to C7 as stated: in the first revision \<open>throw_medium\<close> launches the held
  block with velocity \<open>(10, 5, 0)\<close>, which is the decomposition of the table magnitude 10
  at no launch angle.
\<close>

theorem throw_v1_is_not_a_launch_angle_decomposition:
  "ThrowBlockTask.holdingBlock holdingTask
   \<and> velocity (blockOf (snd (fst (ThrowBlockTask_applyAction defaultConfig
        (ActionString ''throw_medium'') (holdingTask, holdingWorld))))) = Vec3 10 5 0
   \<and> lookupStrength (ThrowBlockTask.throwStrengths holdingTask) (strengthKey ''throw_medium'') = 10
   \<and> (\<forall>theta. Vec3 10 5 0 \<noteq>
         aimedVelocity 10 theta (offsetFrom (position throwAgent) 0.8 0.3) (Vec3 6 1.5 0))"
proof -
  have d: "aimDirection (offsetFrom (position throwAgent) 0.8 0.3) (Vec3 6 1.5 0) = (1, 0)"
  proof -
    have "sqrt ((36 / 5) * (36 / 5)) = \<bar>36 / 5 :: real\<bar>" by (rule real_sqrt_abs2)
    then have "sqrt (1296 / 25) = (36 / 5 :: real)" by simp
    then show ?thesis
      by (simp add: aimDirection_def offsetFrom_def throwAgent_def Let_def)
  qed
  have n: "Vec3 10 5 0 \<noteq> aimedVelocity 10 theta (offsetFrom (position throwAgent) 0.8 0.3)
      (Vec3 6 1.5 0)" for theta
  proof
    assume "Vec3 10 5 0 = aimedVelocity 10 theta (offsetFrom (position throwAgent) 0.8 0.3)
      (Vec3 6 1.5 0)"
    then have "Vec3 10 5 0 = Vec3 (10 * cos theta * 1) (10 * sin theta) (10 * cos theta * 0)"
      unfolding aimedVelocity_def d by (simp only: prod.case)
    then have c: "cos theta = 1" and s: "sin theta = 1 / 2"
      by simp_all
    from sin_cos_squared_add [of theta] c s show False by (simp add: power2_eq_square)
  qed
  from holdingTask_fields(1) ThrowBlockTask_throw_medium_velocity n
  show ?thesis
    by (simp add: holdingTask_fields lookupStrength_table)
qed

subsection \<open>Picking up and holding the block\<close>

lemma position_updates [simp]:
  "position (setVelX r b) = position b" "position (setVelY r b) = position b"
  "position (setVelZ r b) = position b" "position (dragHorizontal f b) = position b"
  "position (clampHorizontal m b) = position b"
  by (simp_all add: setVelX_def setVelY_def setVelZ_def dragHorizontal_def clampHorizontal_def)

lemma placeBlock_sel [simp]:
  "position (placeBlock q v b) = q" "velocity (placeBlock q v b) = v"
  by (simp_all add: placeBlock_def)

lemma ThrowBlockTask_pick:
  assumes "getBody w ''agent'' = Some agent" and "getBody w ''block'' = Some block"
    and "normalizeAction (ThrowBlockTask.actions t) act = Inr (Some ''pick'')"
    and "\<not> ThrowBlockTask.holdingBlock t"
  shows "ThrowBlockTask.holdingBlock (fst (fst (ThrowBlockTask_applyAction cfg act (t, w))))
           = (planarDistance (position agent) (position block) < 1.5)"
  using assms by (simp add: ThrowBlockTask_applyAction_def Let_def)

lemma ThrowBlockTaskV2_pick:
  assumes "getBody w ''agent'' = Some agent" and "getBody w ''block'' = Some block"
    and "normalizeAction (ThrowBlockTaskV2.actions t) act = Inr (Some ''pick'')"
    and "\<not> ThrowBlockTaskV2.holdingBlock t"
  shows "ThrowBlockTaskV2.holdingBlock (fst (fst (ThrowBlockTaskV2_applyAction cfg act p (t, w))))
           = (planarDistance (position agent) (position block) < pickupRange t)"
  using assms by (simp add: ThrowBlockTaskV2_applyAction_def Let_def)

lemma ThrowBlockTask_pinned:
  assumes "getBody w ''agent'' = Some agent" and "getBody w ''block'' = Some block"
    and "protocolAction act"
    and "ThrowBlockTask.holdingBlock (fst (fst (ThrowBlockTask_applyAction cfg act (t, w))))"
  shows "position (blockOf (snd (fst (ThrowBlockTask_applyAction cfg act (t, w)))))
           = offsetFrom (position agent) 0.5 0.2
         \<and> velocity (blockOf (snd (fst (ThrowBlockTask_applyAction cfg act (t, w))))) = Vec3 0 0 0
         \<and> position (agentOf (snd (fst (ThrowBlockTask_applyAction cfg act (t, w)))))
           = position agent"
proof -
  from normalizeAction_protocol [OF assms(3)] obtain a where
    n: "normalizeAction (ThrowBlockTask.actions t) act = Inr a" by blast
  from assms(1,2,4) n show ?thesis
    by (simp add: ThrowBlockTask_applyAction_def Let_def split_beta split: if_splits)
qed

lemma ThrowBlockTaskV2_pinned:
  assumes "getBody w ''agent'' = Some agent" and "getBody w ''block'' = Some block"
    and "protocolAction act"
    and "ThrowBlockTaskV2.holdingBlock
           (fst (fst (ThrowBlockTaskV2_applyAction cfg act p (t, w))))"
  shows "position (blockOf (snd (fst (ThrowBlockTaskV2_applyAction cfg act p (t, w)))))
           = offsetFrom (position agent) 0.5 0.2
         \<and> velocity (blockOf (snd (fst (ThrowBlockTaskV2_applyAction cfg act p (t, w)))))
           = Vec3 0 0 0
         \<and> position (agentOf (snd (fst (ThrowBlockTaskV2_applyAction cfg act p (t, w)))))
           = position agent"
proof -
  from normalizeAction_protocol [OF assms(3)] obtain a where
    n: "normalizeAction (ThrowBlockTaskV2.actions t) act = Inr a" by blast
  from assms(1,2,4) n show ?thesis
    by (simp add: ThrowBlockTaskV2_applyAction_def Let_def split_beta split: if_splits)
qed

lemma ThrowBlockTask_keeps_holding:
  assumes "getBody w ''agent'' = Some agent" and "getBody w ''block'' = Some block"
    and "ThrowBlockTask.holdingBlock t"
    and "normalizeAction (ThrowBlockTask.actions t) act = Inr a"
    and "a \<noteq> Some ''drop''" and "\<not> isThrow a"
  shows "ThrowBlockTask.holdingBlock (fst (fst (ThrowBlockTask_applyAction cfg act (t, w))))"
  using assms
  by (simp add: ThrowBlockTask_applyAction_def Let_def split_beta)

lemma ThrowBlockTaskV2_keeps_holding:
  assumes "getBody w ''agent'' = Some agent" and "getBody w ''block'' = Some block"
    and "ThrowBlockTaskV2.holdingBlock t"
    and "normalizeAction (ThrowBlockTaskV2.actions t) act = Inr a"
    and "a \<noteq> Some ''drop''" and "\<not> isThrow a"
  shows "ThrowBlockTaskV2.holdingBlock (fst (fst (ThrowBlockTaskV2_applyAction cfg act p (t, w))))"
  using assms
  by (simp add: ThrowBlockTaskV2_applyAction_def Let_def split_beta)

lemma toLowerCase_pick: "toLowerCase ''Pick'' = ''pick''"
  by (simp add: toLowerCase_def lowerChar_def)

lemma holdingWorld_distance:
  "planarDistance (position throwAgent) (position heldBlock) = 1 / 2"
proof -
  have "sqrt ((1 / 2) * (1 / 2)) = \<bar>1 / 2 :: real\<bar>" by (rule real_sqrt_abs2)
  then have "sqrt (1 / 4) = (1 / 2 :: real)" by simp
  then show ?thesis
    by (simp add: planarDistance_def throwAgent_def heldBlock_def Let_def)
qed

text \<open>
  Claim C8. In the manipulation task a pick action issued while the block is not held
  sets the holding flag exactly when the planar distance between agent and block is
  strictly below the pickup radius (1.5 in the first revision, \<open>pickupRange\<close> in the
  second). After any application of a string or number action that leaves the block held,
  the block sits at the fixed offset \<open>(0.5, 0.2, 0)\<close> from the agent with zero velocity;
  and a held block stays held under every action other than drop and the throws.
\<close>

theorem pick_and_hold:
  assumes "getBody w ''agent'' = Some agent" and "getBody w ''block'' = Some block"
  shows "(normalizeAction (ThrowBlockTask.actions t1) act = Inr (Some ''pick'')
          \<and> \<not> ThrowBlockTask.holdingBlock t1
          \<longrightarrow> ThrowBlockTask.holdingBlock (fst (fst (ThrowBlockTask_applyAction cfg act (t1, w))))
                = (planarDistance (position agent) (position block) < 1.5))
       \<and> (protocolAction act
          \<and> ThrowBlockTask.holdingBlock (fst (fst (ThrowBlockTask_applyAction cfg act (t1, w))))
          \<longrightarrow> position (blockOf (snd (fst (ThrowBlockTask_applyAction cfg act (t1, w)))))
                = offsetFrom (position agent) 0.5 0.2
              \<and> velocity (blockOf (snd (fst (ThrowBlockTask_applyAction cfg act (t1, w)))))
                = Vec3 0 0 0
              \<and> position (agentOf (snd (fst (ThrowBlockTask_applyAction cfg act (t1, w)))))
                = position agent)
       \<and> (ThrowBlockTask.holdingBlock t1
          \<and> normalizeAction (ThrowBlockTask.actions t1) act = Inr a1
          \<and> a1 \<noteq> Some ''drop'' \<and> \<not> isThrow a1
          \<longrightarrow> ThrowBlockTask.holdingBlock
                (fst (fst (ThrowBlockTask_applyAction cfg act (t1, w)))))
       \<and> (normalizeAction (ThrowBlockTaskV2.actions t2) act = Inr (Some ''pick'')
          \<and> \<not> ThrowBlockTaskV2.holdingBlock t2
          \<longrightarrow> ThrowBlockTaskV2.holdingBlock
                (fst (fst (ThrowBlockTaskV2_applyAction cfg act p (t2, w))))
                = (planarDistance (position agent) (position block) < pickupRange t2))
       \<and> (protocolAction act
          \<and> ThrowBlockTaskV2.holdingBlock
              (fst (fst (ThrowBlockTaskV2_applyAction cfg act p (t2, w))))
          \<longrightarrow> position (blockOf (snd (fst (ThrowBlockTaskV2_applyAction cfg act p (t2, w)))))
                = offsetFrom (position agent) 0.5 0.2
              \<and> velocity (blockOf (snd (fst (ThrowBlockTaskV2_applyAction cfg act p (t2, w)))))
                = Vec3 0 0 0
              \<and> position (agentOf (snd (fst (ThrowBlockTaskV2_applyAction cfg act p (t2, w)))))
                = position agent)
       \<and> (ThrowBlockTaskV2.holdingBlock t2
          \<and> normalizeAction (ThrowBlockTaskV2.actions t2) act = Inr a2
          \<and> a2 \<noteq> Some ''drop'' \<and> \<not> isThrow a2
          \<longrightarrow> ThrowBlockTaskV2.holdingBlock
                (fst (fst (ThrowBlockTaskV2_applyAction cfg act p (t2, w)))))"
  using ThrowBlockTask_pick [OF assms, of t1 act cfg]
    ThrowBlockTask_pinned [OF assms, of act cfg t1]
    ThrowBlockTask_keeps_holding [OF assms, of t1 act a1 cfg]
    ThrowBlockTaskV2_pick [OF assms, of t2 act cfg p]
    ThrowBlockTaskV2_pinned [OF assms, of act cfg p t2]
    ThrowBlockTaskV2_keeps_holding [OF assms, of t2 act a2 cfg p]
  by blast

text \<open>
  Witness for C8: \<open>Pick\<close> with the block half a metre from the agent, in both
  revisions.
\<close>

theorem pick_and_hold_witness:
  "ThrowBlockTask.holdingBlock (fst (fst (ThrowBlockTask_applyAction defaultConfig
       (ActionString ''Pick'') (ThrowBlockTask_constructor defaultConfig, holdingWorld))))
   \<and> position (blockOf (snd (fst (ThrowBlockTask_applyAction defaultConfig (ActionString ''Pick'')
       (ThrowBlockTask_constructor defaultConfig, holdingWorld))))) = Vec3 (- 1.5) 1.2 0
   \<and> velocity (blockOf (snd (fst (ThrowBlockTask_applyAction defaultConfig (ActionString ''Pick'')
       (ThrowBlockTask_constructor defaultConfig, holdingWorld))))) = Vec3 0 0 0
   \<and> ThrowBlockTaskV2.holdingBlock (fst (fst (ThrowBlockTaskV2_applyAction defaultConfig
       (ActionString ''Pick'') noParams (ThrowBlockTaskV2_constructor defaultConfig, holdingWorld))))
   \<and> position (blockOf (snd (fst (ThrowBlockTaskV2_applyAction defaultConfig
       (ActionString ''Pick'') noParams
       (ThrowBlockTaskV2_constructor defaultConfig, holdingWorld))))) = Vec3 (- 1.5) 1.2 0"
proof -
  note T = pick_and_hold [OF holdingWorld_bodies, of "ThrowBlockTask_constructor defaultConfig"
      "ActionString ''Pick''" defaultConfig "Some ''pick''"
      "ThrowBlockTaskV2_constructor defaultConfig" noParams "Some ''pick''"]
  have n1: "normalizeAction (ThrowBlockTask.actions (ThrowBlockTask_constructor defaultConfig))
      (ActionString ''Pick'') = Inr (Some ''pick'')
      \<and> \<not> ThrowBlockTask.holdingBlock (ThrowBlockTask_constructor defaultConfig)"
    by (simp add: normalizeAction_def toLowerCase_pick ThrowBlockTask_constructor_def)
  have n2: "normalizeAction (ThrowBlockTaskV2.actions (ThrowBlockTaskV2_constructor defaultConfig))
      (ActionString ''Pick'') = Inr (Some ''pick'')
      \<and> \<not> ThrowBlockTaskV2.holdingBlock (ThrowBlockTaskV2_constructor defaultConfig)"
    by (simp add: normalizeAction_def toLowerCase_pick ThrowBlockTaskV2_constructor_def)
  have r: "pickupRange (ThrowBlockTaskV2_constructor defaultConfig) = 1.8"
    by (simp add: ThrowBlockTaskV2_constructor_def)
  have o: "offsetFrom (position throwAgent) 0.5 0.2 = Vec3 (- 1.5) 1.2 0"
    by (simp add: offsetFrom_def throwAgent_def)
  have h1: "ThrowBlockTask.holdingBlock (fst (fst (ThrowBlockTask_applyAction defaultConfig
      (ActionString ''Pick'') (ThrowBlockTask_constructor defaultConfig, holdingWorld))))"
    using T [THEN conjunct1, THEN mp, OF n1] by (simp add: holdingWorld_distance)
  have h2: "ThrowBlockTaskV2.holdingBlock (fst (fst (ThrowBlockTaskV2_applyAction defaultConfig
       (ActionString ''Pick'') noParams
       (ThrowBlockTaskV2_constructor defaultConfig, holdingWorld))))"
    using T [THEN conjunct2, THEN conjunct2, THEN conjunct2, THEN conjunct1, THEN mp, OF n2]
    by (simp add: holdingWorld_distance r)
  have k: "protocolAction (ActionString ''Pick'')" by simp
  from T [THEN conjunct2, THEN conjunct1, THEN mp, OF conjI [OF k h1]]
    T [THEN conjunct2, THEN conjunct2, THEN conjunct2, THEN conjunct2, THEN conjunct1, THEN mp,
       OF conjI [OF k h2]] h1 h2
  show ?thesis unfolding o by blast
qed

subsection \<open>Unrecognised actions\<close>

lemma toLowerCase_idle: "toLowerCase ''idle'' = ''idle''"
  by (simp add: toLowerCase_def lowerChar_def)

lemma normalizeAction_idle [simp]:
  "normalizeAction as (ActionString ''idle'') = Inr (Some ''idle'')"
  by (simp add: normalizeAction_def toLowerCase_idle)

lemma indexActions_outside:
  "r < 0 \<or> r \<noteq> of_int \<lfloor>r\<rfloor> \<or> real (length as) \<le> r \<Longrightarrow> indexActions as r = None"
  by (auto simp: indexActions_def)

lemma unrecognised_None [simp]: "unrecognised cases None"
  by (simp add: unrecognised_def)

lemma GapCrossingTask_unrecognised:
  assumes "normalizeAction (GapCrossingTask.actions t) act = Inr a"
    and "unrecognised gapCases a"
  shows "GapCrossingTask_applyAction cfg act (t, w) =
         GapCrossingTask_applyAction cfg (ActionString ''idle'') (t, w)"
  using assms
  by (simp add: GapCrossingTask_applyAction_def unrecognised_def gapCases_def Let_def
      split: option.split)

lemma GapCrossingTaskV2_unrecognised:
  assumes "normalizeAction (GapCrossingTaskV2.actions t) act = Inr a"
    and "unrecognised gapCases a"
  shows "GapCrossingTaskV2_applyAction cfg now act (t, w) =
         GapCrossingTaskV2_applyAction cfg now (ActionString ''idle'') (t, w)"
  using assms
  by (simp add: GapCrossingTaskV2_applyAction_def unrecognised_def gapCases_def Let_def
      split: option.split)

lemma ThrowBlockTask_unrecognised:
  assumes "normalizeAction (ThrowBlockTask.actions t) act = Inr a"
    and "unrecognised throwCases a"
  shows "ThrowBlockTask_applyAction cfg act (t, w) =
         ThrowBlockTask_applyAction cfg (ActionString ''idle'') (t, w)"
  using assms
  by (simp add: ThrowBlockTask_applyAction_def unrecognised_def throwCases_def Let_def isThrow_def
      split: option.split)

lemma ThrowBlockTaskV2_unrecognised:
  assumes "normalizeAction (ThrowBlockTaskV2.actions t) act = Inr a"
    and "unrecognised throwCases a"
  shows "ThrowBlockTaskV2_applyAction cfg act p (t, w) =
         ThrowBlockTaskV2_applyAction cfg (ActionString ''idle'') p (t, w)"
  using assms
  by (simp add: ThrowBlockTaskV2_applyAction_def unrecognised_def throwCases_def Let_def
      isThrow_def split: option.split)

lemma drag_clamp:
  "clampHorizontal m (dragHorizontal f b) =
     b\<lparr>velocity := Vec3 (max (- m) (min m (vec_x (velocity b) * f))) (vec_y (velocity b))
                        (max (- m) (min m (vec_z (velocity b) * f)))\<rparr>"
  by (simp add: clampHorizontal_def dragHorizontal_def clampSpeed_def)

lemma GapCrossingTask_idle:
  assumes "getBody w ''agent'' = Some agent"
  shows "GapCrossingTask_applyAction cfg (ActionString ''idle'') (t, w) =
         ((t\<lparr>GapCrossingTask.isGrounded := groundedCheck (GapCrossingTask.agentHeight t) agent,
             GapCrossingTask.canJump :=
               (groundedCheck (GapCrossingTask.agentHeight t) agent \<or> GapCrossingTask.canJump t)\<rparr>,
           setBody ''agent''
             (agent\<lparr>velocity :=
                Vec3 (max (- 5.0) (min 5.0 (vec_x (velocity agent) * 0.9))) (vec_y (velocity agent))
                     (max (- 5.0) (min 5.0 (vec_z (velocity agent) * 0.9)))\<rparr>) w),
          None)"
  using assms by (simp add: GapCrossingTask_applyAction_def Let_def drag_clamp)

lemma GapCrossingTaskV2_idle:
  assumes "getBody w ''agent'' = Some agent"
  shows "GapCrossingTaskV2_applyAction cfg now (ActionString ''idle'') (t, w) =
         ((t\<lparr>GapCrossingTaskV2.isGrounded := groundedCheck (GapCrossingTaskV2.agentHeight t) agent,
             GapCrossingTaskV2.canJump :=
               ((\<not> GapCrossingTaskV2.isGrounded t
                 \<and> groundedCheck (GapCrossingTaskV2.agentHeight t) agent)
                \<or> GapCrossingTaskV2.canJump t)\<rparr>,
           setBody ''agent''
             (agent\<lparr>velocity :=
                Vec3 (max (- maxSpeed t)
                        (min (maxSpeed t)
                           (vec_x (velocity agent) *
                            (if groundedCheck (GapCrossingTaskV2.agentHeight t) agent
                             then 0.85 else 0.98))))
                     (vec_y (velocity agent))
                     (max (- maxSpeed t)
                        (min (maxSpeed t)
                           (vec_z (velocity agent) *
                            (if groundedCheck (GapCrossingTaskV2.agentHeight t) agent
                             then 0.85 else 0.98))))\<rparr>) w),
          None)"
  using assms by (simp add: GapCrossingTaskV2_applyAction_def Let_def drag_clamp)

lemma ThrowBlockTask_idle:
  assumes "getBody w ''agent'' = Some agent" and "getBody w ''block'' = Some block"
  shows "ThrowBlockTask_applyAction cfg (ActionString ''idle'') (t, w) =
         ((t\<lparr>ThrowBlockTask.isGrounded := groundedCheck (ThrowBlockTask.agentHeight t) agent\<rparr>,
           setBody ''agent''
             (agent\<lparr>velocity :=
                Vec3 (max (- 4.0) (min 4.0 (vec_x (velocity agent) * 0.9))) (vec_y (velocity agent))
                     (max (- 4.0) (min 4.0 (vec_z (velocity agent) * 0.9)))\<rparr>)
             (setBody ''block''
                (if ThrowBlockTask.holdingBlock t
                 then block\<lparr>position := Vec3 (vec_x (position agent) + 0.5)
                                          (vec_y (position agent) + 0.2) (vec_z (position agent)),
                            velocity := Vec3 0 0 0\<rparr>
                 else block) w)),
          None)"
  using assms
  by (simp add: ThrowBlockTask_applyAction_def Let_def isThrow_def drag_clamp placeBlock_def
      offsetFrom_def)

lemma ThrowBlockTaskV2_idle:
  assumes "getBody w ''agent'' = Some agent" and "getBody w ''block'' = Some block"
  shows "ThrowBlockTaskV2_applyAction cfg (ActionString ''idle'') p (t, w) =
         ((t\<lparr>ThrowBlockTaskV2.isGrounded := groundedCheck (ThrowBlockTaskV2.agentHeight t) agent\<rparr>,
           setBody ''agent''
             (agent\<lparr>velocity :=
                Vec3 (max (- 4.0) (min 4.0 (vec_x (velocity agent) * 0.9))) (vec_y (velocity agent))
                     (max (- 4.0) (min 4.0 (vec_z (velocity agent) * 0.9)))\<rparr>)
             (setBody ''block''
                (if ThrowBlockTaskV2.holdingBlock t
                 then block\<lparr>position := Vec3 (vec_x (position agent) + 0.5)
                                          (vec_y (position agent) + 0.2) (vec_z (position agent)),
                            velocity := Vec3 0 0 0\<rparr>
                 else block) w)),
          None)"
  using assms
  by (simp add: ThrowBlockTaskV2_applyAction_def Let_def isThrow_def drag_clamp placeBlock_def
      offsetFrom_def)

lemma GapCrossingTask_malformed:
  assumes "getBody w ''agent'' = Some agent" and "\<not> protocolAction act"
  shows "\<exists>msg. GapCrossingTask_applyAction cfg act (t, w) =
           ((t\<lparr>GapCrossingTask.isGrounded := groundedCheck (GapCrossingTask.agentHeight t) agent\<rparr>,
             w), Some (TypeError msg))"
proof -
  from normalizeAction_malformed [OF assms(2)] obtain msg where
    n: "normalizeAction (GapCrossingTask.actions t) act = Inl (TypeError msg)" by blast
  show ?thesis
    by (simp add: GapCrossingTask_applyAction_def Let_def assms(1) n)
qed

lemma GapCrossingTaskV2_malformed:
  assumes "getBody w ''agent'' = Some agent" and "\<not> protocolAction act"
  shows "\<exists>msg. GapCrossingTaskV2_applyAction cfg now act (t, w) =
           ((t\<lparr>GapCrossingTaskV2.isGrounded :=
                 groundedCheck (GapCrossingTaskV2.agentHeight t) agent,
               GapCrossingTaskV2.canJump :=
                 ((\<not> GapCrossingTaskV2.isGrounded t
                   \<and> groundedCheck (GapCrossingTaskV2.agentHeight t) agent)
                  \<or> GapCrossingTaskV2.canJump t)\<rparr>,
             w), Some (TypeError msg))"
proof -
  from normalizeAction_malformed [OF assms(2)] obtain msg where
    n: "normalizeAction (GapCrossingTaskV2.actions t) act = Inl (TypeError msg)" by blast
  show ?thesis
    by (simp add: GapCrossingTaskV2_applyAction_def Let_def assms(1) n)
qed

lemma ThrowBlockTask_malformed:
  assumes "getBody w ''agent'' = Some agent" and "getBody w ''block'' = Some block"
    and "\<not> protocolAction act"
  shows "\<exists>msg. ThrowBlockTask_applyAction cfg act (t, w) =
           ((t\<lparr>ThrowBlockTask.isGrounded := groundedCheck (ThrowBlockTask.agentHeight t) agent\<rparr>,
             w), Some (TypeError msg))"
proof -
  from normalizeAction_malformed [OF assms(3)] obtain msg where
    n: "normalizeAction (ThrowBlockTask.actions t) act = Inl (TypeError msg)" by blast
  show ?thesis
    by (simp add: ThrowBlockTask_applyAction_def Let_def assms(1,2) n)
qed

lemma ThrowBlockTaskV2_malformed:
  assumes "getBody w ''agent'' = Some agent" and "getBody w ''block'' = Some block"
    and "\<not> protocolAction act"
  shows "\<exists>msg. ThrowBlockTaskV2_applyAction cfg act p (t, w) =
           ((t\<lparr>ThrowBlockTaskV2.isGrounded :=
                 groundedCheck (ThrowBlockTaskV2.agentHeight t) agent\<rparr>,
             w), Some (TypeError msg))"
proof -
  from normalizeAction_malformed [OF assms(3)] obtain msg where
    n: "normalizeAction (ThrowBlockTaskV2.actions t) act = Inl (TypeError msg)" by blast
  show ?thesis
    by (simp add: ThrowBlockTaskV2_applyAction_def Let_def assms(1,2) n)
qed

text \<open>
  Claim C10, as amended. A string or a number whose normalised form is none of the case
  labels (an unknown string, or \<open>undefined\<close> from an index outside the action list) raises
  nothing and takes the \<open>default\<close> branch, so the call does exactly what \<open>idle\<close> does, and
  its whole effect is this: the grounded flag is refreshed from the agent's body, as on
  every call, and with it the jump permission of the traversal task (set when the agent
  is grounded in the first revision, when it has just landed in the second); the
  horizontal velocity of the agent is multiplied by the drag factor (0.9; in the second
  revision of the traversal task 0.85 on the ground and 0.98 in the air) and clamped to
  the maximum speed; in the manipulation task a held block is pinned to the agent at the
  offset \<open>(0.5, 0.2, 0)\<close> with zero velocity. Everything else is as before: the other
  fields of the task object, among them the holding flag and the success counter, the
  position and the vertical velocity of the agent, a block that is not held, every other
  body. An action that is neither a string nor a number raises a \<open>TypeError\<close>, after the
  grounded flag (and the jump permission on landing) has been refreshed.
\<close>

theorem unrecognised_action_is_idle:
  assumes "getBody w ''agent'' = Some agent"
  shows "(normalizeAction (GapCrossingTask.actions g1) act = Inr a1 \<and> unrecognised gapCases a1 \<longrightarrow>
            GapCrossingTask_applyAction cfg act (g1, w)
              = GapCrossingTask_applyAction cfg (ActionString ''idle'') (g1, w)
          \<and> GapCrossingTask_applyAction cfg act (g1, w)
              = ((g1\<lparr>GapCrossingTask.isGrounded :=
                       groundedCheck (GapCrossingTask.agentHeight g1) agent,
                     GapCrossingTask.canJump :=
                       (groundedCheck (GapCrossingTask.agentHeight g1) agent
                        \<or> GapCrossingTask.canJump g1)\<rparr>,
                  setBody ''agent''
                    (agent\<lparr>velocity :=
                       Vec3 (max (- 5.0) (min 5.0 (vec_x (velocity agent) * 0.9)))
                            (vec_y (velocity agent))
                            (max (- 5.0) (min 5.0 (vec_z (velocity agent) * 0.9)))\<rparr>) w),
                 None))
       \<and> (normalizeAction (GapCrossingTaskV2.actions g2) act = Inr a2
          \<and> unrecognised gapCases a2 \<longrightarrow>
            GapCrossingTaskV2_applyAction cfg now act (g2, w)
              = GapCrossingTaskV2_applyAction cfg now (ActionString ''idle'') (g2, w)
          \<and> GapCrossingTaskV2_applyAction cfg now act (g2, w)
              = ((g2\<lparr>GapCrossingTaskV2.isGrounded :=
                       groundedCheck (GapCrossingTaskV2.agentHeight g2) agent,
                     GapCrossingTaskV2.canJump :=
                       ((\<not> GapCrossingTaskV2.isGrounded g2
                         \<and> groundedCheck (GapCrossingTaskV2.agentHeight g2) agent)
                        \<or> GapCrossingTaskV2.canJump g2)\<rparr>,
                  setBody ''agent''
                    (agent\<lparr>velocity :=
                       Vec3 (max (- maxSpeed g2)
                               (min (maxSpeed g2)
                                  (vec_x (velocity agent) *
                                   (if groundedCheck (GapCrossingTaskV2.agentHeight g2) agent
                                    then 0.85 else 0.98))))
                            (vec_y (velocity agent))
                            (max (- maxSpeed g2)
                               (min (maxSpeed g2)
                                  (vec_z (velocity agent) *
                                   (if groundedCheck (GapCrossingTaskV2.agentHeight g2) agent
                                    then 0.85 else 0.98))))\<rparr>) w),
                 None))
       \<and> (getBody w ''block'' = Some block
          \<and> normalizeAction (ThrowBlockTask.actions t1) act = Inr b1
          \<and> unrecognised throwCases b1 \<longrightarrow>
            ThrowBlockTask_applyAction cfg act (t1, w)
              = ThrowBlockTask_applyAction cfg (ActionString ''idle'') (t1, w)
          \<and> ThrowBlockTask_applyAction cfg act (t1, w)
              = ((t1\<lparr>ThrowBlockTask.isGrounded :=
                       groundedCheck (ThrowBlockTask.agentHeight t1) agent\<rparr>,
                  setBody ''agent''
                    (agent\<lparr>velocity :=
                       Vec3 (max (- 4.0) (min 4.0 (vec_x (velocity agent) * 0.9)))
                            (vec_y (velocity agent))
                            (max (- 4.0) (min 4.0 (vec_z (velocity agent) * 0.9)))\<rparr>)
                    (setBody ''block''
                       (if ThrowBlockTask.holdingBlock t1
                        then block\<lparr>position :=
                                     Vec3 (vec_x (position agent) + 0.5)
                                          (vec_y (position agent) + 0.2) (vec_z (position agent)),
                                   velocity := Vec3 0 0 0\<rparr>
                        else block) w)),
                 None))
       \<and> (getBody w ''block'' = Some block
          \<and> normalizeAction (ThrowBlockTaskV2.actions t2) act = Inr b2
          \<and> unrecognised throwCases b2 \<longrightarrow>
            ThrowBlockTaskV2_applyAction cfg act p (t2, w)
              = ThrowBlockTaskV2_applyAction cfg (ActionString ''idle'') p (t2, w)
          \<and> ThrowBlockTaskV2_applyAction cfg act p (t2, w)
              = ((t2\<lparr>ThrowBlockTaskV2.isGrounded :=
                       groundedCheck (ThrowBlockTaskV2.agentHeight t2) agent\<rparr>,
                  setBody ''agent''
                    (agent\<lparr>velocity :=
                       Vec3 (max (- 4.0) (min 4.0 (vec_x (velocity agent) * 0.9)))
                            (vec_y (velocity agent))
                            (max (- 4.0) (min 4.0 (vec_z (velocity agent) * 0.9)))\<rparr>)
                    (setBody ''block''
                       (if ThrowBlockTaskV2.holdingBlock t2
                        then block\<lparr>position :=
                                     Vec3 (vec_x (position agent) + 0.5)
                                          (vec_y (position agent) + 0.2) (vec_z (position agent)),
                                   velocity := Vec3 0 0 0\<rparr>
                        else block) w)),
                 None))
       \<and> (\<not> protocolAction act \<longrightarrow>
            (\<exists>msg. GapCrossingTask_applyAction cfg act (g1, w)
               = ((g1\<lparr>GapCrossingTask.isGrounded :=
                        groundedCheck (GapCrossingTask.agentHeight g1) agent\<rparr>, w),
                  Some (TypeError msg)))
          \<and> (\<exists>msg. GapCrossingTaskV2_applyAction cfg now act (g2, w)
               = ((g2\<lparr>GapCrossingTaskV2.isGrounded :=
                        groundedCheck (GapCrossingTaskV2.agentHeight g2) agent,
                      GapCrossingTaskV2.canJump :=
                        ((\<not> GapCrossingTaskV2.isGrounded g2
                          \<and> groundedCheck (GapCrossingTaskV2.agentHeight g2) agent)
                         \<or> GapCrossingTaskV2.canJump g2)\<rparr>, w),
                  Some (TypeError msg))))
       \<and> (getBody w ''block'' = Some block \<and> \<not> protocolAction act \<longrightarrow>
            (\<exists>msg. ThrowBlockTask_applyAction cfg act (t1, w)
               = ((t1\<lparr>ThrowBlockTask.isGrounded :=
                        groundedCheck (ThrowBlockTask.agentHeight t1) agent\<rparr>, w),
                  Some (TypeError msg)))
          \<and> (\<exists>msg. ThrowBlockTaskV2_applyAction cfg act p (t2, w)
               = ((t2\<lparr>ThrowBlockTaskV2.isGrounded :=
                        groundedCheck (ThrowBlockTaskV2.agentHeight t2) agent\<rparr>, w),
                  Some (TypeError msg))))"
proof (intro conjI impI)
  assume u: "normalizeAction (GapCrossingTask.actions g1) act = Inr a1
      \<and> unrecognised gapCases a1"
  then have e: "GapCrossingTask_applyAction cfg act (g1, w)
          = GapCrossingTask_applyAction cfg (ActionString ''idle'') (g1, w)"
    using GapCrossingTask_unrecognised by blast
  show "GapCrossingTask_applyAction cfg act (g1, w)
          = GapCrossingTask_applyAction cfg (ActionString ''idle'') (g1, w)" by (rule e)
  show "GapCrossingTask_applyAction cfg act (g1, w)
              = ((g1\<lparr>GapCrossingTask.isGrounded :=
                       groundedCheck (GapCrossingTask.agentHeight g1) agent,
                     GapCrossingTask.canJump :=
                       (groundedCheck (GapCrossingTask.agentHeight g1) agent
                        \<or> GapCrossingTask.canJump g1)\<rparr>,
                  setBody ''agent''
                    (agent\<lparr>velocity :=
                       Vec3 (max (- 5.0) (min 5.0 (vec_x (velocity agent) * 0.9)))
                            (vec_y (velocity agent))
                            (max (- 5.0) (min 5.0 (vec_z (velocity agent) * 0.9)))\<rparr>) w),
                 None)"
    unfolding e by (rule GapCrossingTask_idle [OF assms])
next
  assume u: "normalizeAction (GapCrossingTaskV2.actions g2) act = Inr a2
      \<and> unrecognised gapCases a2"
  then have e: "GapCrossingTaskV2_applyAction cfg now act (g2, w)
          = GapCrossingTaskV2_applyAction cfg now (ActionString ''idle'') (g2, w)"
    using GapCrossingTaskV2_unrecognised by blast
  show "GapCrossingTaskV2_applyAction cfg now act (g2, w)
          = GapCrossingTaskV2_applyAction cfg now (ActionString ''idle'') (g2, w)" by (rule e)
  show "GapCrossingTaskV2_applyAction cfg now act (g2, w)
              = ((g2\<lparr>GapCrossingTaskV2.isGrounded :=
                       groundedCheck (GapCrossingTaskV2.agentHeight g2) agent,
                     GapCrossingTaskV2.canJump :=
                       ((\<not> GapCrossingTaskV2.isGrounded g2
                         \<and> groundedCheck (GapCrossingTaskV2.agentHeight g2) agent)
                        \<or> GapCrossingTaskV2.canJump g2)\<rparr>,
                  setBody ''agent''
                    (agent\<lparr>velocity :=
                       Vec3 (max (- maxSpeed g2)
                               (min (maxSpeed g2)
                                  (vec_x (velocity agent) *
                                   (if groundedCheck (GapCrossingTaskV2.agentHeight g2) agent
                                    then 0.85 else 0.98))))
                            (vec_y (velocity agent))
                            (max (- maxSpeed g2)
                               (min (maxSpeed g2)
                                  (vec_z (velocity agent) *
                                   (if groundedCheck (GapCrossingTaskV2.agentHeight g2) agent
                                    then 0.85 else 0.98))))\<rparr>) w),
                 None)"
    unfolding e by (rule GapCrossingTaskV2_idle [OF assms])
next
  assume u: "getBody w ''block'' = Some block
      \<and> normalizeAction (ThrowBlockTask.actions t1) act = Inr b1
      \<and> unrecognised throwCases b1"
  then have b: "getBody w ''block'' = Some block" by simp
  from u have e: "ThrowBlockTask_applyAction cfg act (t1, w)
          = ThrowBlockTask_applyAction cfg (ActionString ''idle'') (t1, w)"
    using ThrowBlockTask_unrecognised by blast
  show "ThrowBlockTask_applyAction cfg act (t1, w)
          = ThrowBlockTask_applyAction cfg (ActionString ''idle'') (t1, w)" by (rule e)
  show "ThrowBlockTask_applyAction cfg act (t1, w)
              = ((t1\<lparr>ThrowBlockTask.isGrounded :=
                       groundedCheck (ThrowBlockTask.agentHeight t1) agent\<rparr>,
                  setBody ''agent''
                    (agent\<lparr>velocity :=
                       Vec3 (max (- 4.0) (min 4.0 (vec_x (velocity agent) * 0.9)))
                            (vec_y (velocity agent))
                            (max (- 4.0) (min 4.0 (vec_z (velocity agent) * 0.9)))\<rparr>)
                    (setBody ''block''
                       (if ThrowBlockTask.holdingBlock t1
                        then block\<lparr>position :=
                                     Vec3 (vec_x (position agent) + 0.5)
                                          (vec_y (position agent) + 0.2) (vec_z (position agent)),
                                   velocity := Vec3 0 0 0\<rparr>
                        else block) w)),
                 None)"
    unfolding e by (rule ThrowBlockTask_idle [OF assms b])
next
  assume u: "getBody w ''block'' = Some block
      \<and> normalizeAction (ThrowBlockTaskV2.actions t2) act = Inr b2
      \<and> unrecognised throwCases b2"
  then have b: "getBody w ''block'' = Some block" by simp
  from u have e: "ThrowBlockTaskV2_applyAction cfg act p (t2, w)
          = ThrowBlockTaskV2_applyAction cfg (ActionString ''idle'') p (t2, w)"
    using ThrowBlockTaskV2_unrecognised by blast
  show "ThrowBlockTaskV2_applyAction cfg act p (t2, w)
          = ThrowBlockTaskV2_applyAction cfg (ActionString ''idle'') p (t2, w)" by (rule e)
  show "ThrowBlockTaskV2_applyAction cfg act p (t2, w)
              = ((t2\<lparr>ThrowBlockTaskV2.isGrounded :=
                       groundedCheck (ThrowBlockTaskV2.agentHeight t2) agent\<rparr>,
                  setBody ''agent''
                    (agent\<lparr>velocity :=
                       Vec3 (max (- 4.0) (min 4.0 (vec_x (velocity agent) * 0.9)))
                            (vec_y (velocity agent))
                            (max (- 4.0) (min 4.0 (vec_z (velocity agent) * 0.9)))\<rparr>)
                    (setBody ''block''
                       (if ThrowBlockTaskV2.holdingBlock t2
                        then block\<lparr>position :=
                                     Vec3 (vec_x (position agent) + 0.5)
                                          (vec_y (position agent) + 0.2) (vec_z (position agent)),
                                   velocity := Vec3 0 0 0\<rparr>
                        else block) w)),
                 None)"
    unfolding e by (rule ThrowBlockTaskV2_idle [OF assms b])
next
  assume m: "\<not> protocolAction act"
  show "\<exists>msg. GapCrossingTask_applyAction cfg act (g1, w)
               = ((g1\<lparr>GapCrossingTask.isGrounded :=
                        groundedCheck (GapCrossingTask.agentHeight g1) agent\<rparr>, w),
                  Some (TypeError msg))"
    by (rule GapCrossingTask_malformed [OF assms m])
  show "\<exists>msg. GapCrossingTaskV2_applyAction cfg now act (g2, w)
               = ((g2\<lparr>GapCrossingTaskV2.isGrounded :=
                        groundedCheck (GapCrossingTaskV2.agentHeight g2) agent,
                      GapCrossingTaskV2.canJump :=
                        ((\<not> GapCrossingTaskV2.isGrounded g2
                          \<and> groundedCheck (GapCrossingTaskV2.agentHeight g2) agent)
                         \<or> GapCrossingTaskV2.canJump g2)\<rparr>, w),
                  Some (TypeError msg))"
    by (rule GapCrossingTaskV2_malformed [OF assms m])
next
  assume m: "getBody w ''block'' = Some block \<and> \<not> protocolAction act"
  then have b: "getBody w ''block'' = Some block" and n: "\<not> protocolAction act" by simp_all
  show "\<exists>msg. ThrowBlockTask_applyAction cfg act (t1, w)
               = ((t1\<lparr>ThrowBlockTask.isGrounded :=
                        groundedCheck (ThrowBlockTask.agentHeight t1) agent\<rparr>, w),
                  Some (TypeError msg))"
    by (rule ThrowBlockTask_malformed [OF assms b n])
  show "\<exists>msg. ThrowBlockTaskV2_applyAction cfg act p (t2, w)
               = ((t2\<lparr>ThrowBlockTaskV2.isGrounded :=
                        groundedCheck (ThrowBlockTaskV2.agentHeight t2) agent\<rparr>, w),
                  Some (TypeError msg))"
    by (rule ThrowBlockTaskV2_malformed [OF assms b n])
qed

text \<open>
  Witness for C10: the unknown string \<open>Fly\<close> in the traversal tasks, with the agent on the
  start platform moving sideways at 2.4 m/s; the index 42 in the manipulation tasks, with the
  block in hand; and the action \<open>null\<close>.
\<close>

theorem unrecognised_action_is_idle_witness:
  "GapCrossingTask_applyAction defaultConfig (ActionString ''Fly'')
       (GapCrossingTask_constructor defaultConfig, movingRightWorld)
     = (((GapCrossingTask_constructor defaultConfig)
           \<lparr>GapCrossingTask.isGrounded := True, GapCrossingTask.canJump := True\<rparr>,
         setBody ''agent'' (movingRightAgent\<lparr>velocity := Vec3 0 0 2.16\<rparr>) movingRightWorld),
        None)
   \<and> GapCrossingTaskV2_applyAction defaultConfig 1700000000000 (ActionString ''Fly'')
       (GapCrossingTaskV2_constructor defaultConfig, movingRightWorld)
     = (((GapCrossingTaskV2_constructor defaultConfig)
           \<lparr>GapCrossingTaskV2.isGrounded := True, GapCrossingTaskV2.canJump := True\<rparr>,
         setBody ''agent'' (movingRightAgent\<lparr>velocity := Vec3 0 0 2.04\<rparr>) movingRightWorld),
        None)
   \<and> ThrowBlockTask_applyAction defaultConfig (ActionNumber 42) (holdingTask, holdingWorld)
     = ((holdingTask\<lparr>ThrowBlockTask.isGrounded := True\<rparr>,
         setBody ''agent'' (throwAgent\<lparr>velocity := Vec3 0 0 0\<rparr>)
           (setBody ''block''
              (heldBlock\<lparr>position := Vec3 (- 1.5) 1.2 0, velocity := Vec3 0 0 0\<rparr>)
              holdingWorld)),
        None)
   \<and> ThrowBlockTaskV2_applyAction defaultConfig (ActionNumber 42) noParams
       (holdingTaskV2, holdingWorld)
     = ((holdingTaskV2\<lparr>ThrowBlockTaskV2.isGrounded := True\<rparr>,
         setBody ''agent'' (throwAgent\<lparr>velocity := Vec3 0 0 0\<rparr>)
           (setBody ''block''
              (heldBlock\<lparr>position := Vec3 (- 1.5) 1.2 0, velocity := Vec3 0 0 0\<rparr>)
              holdingWorld)),
        None)
   \<and> (\<exists>msg. GapCrossingTask_applyAction defaultConfig ActionNull
               (GapCrossingTask_constructor defaultConfig, movingRightWorld)
             = (((GapCrossingTask_constructor defaultConfig)
                   \<lparr>GapCrossingTask.isGrounded := True\<rparr>, movingRightWorld),
                Some (TypeError msg)))"
proof -
  have f: "toLowerCase ''Fly'' = ''fly''" by (simp add: toLowerCase_def lowerChar_def)
  have u: "unrecognised gapCases (Some ''fly'')"
    by (simp add: unrecognised_def gapCases_def)
  have n1: "normalizeAction (GapCrossingTask.actions (GapCrossingTask_constructor defaultConfig))
      (ActionString ''Fly'') = Inr (Some ''fly'')"
    by (simp add: normalizeAction_def f)
  have n2: "normalizeAction (GapCrossingTaskV2.actions (GapCrossingTaskV2_constructor defaultConfig))
      (ActionString ''Fly'') = Inr (Some ''fly'')"
    by (simp add: normalizeAction_def f)
  have i: "indexActions as 42 = None" if "length as = 10" for as
    using that by (simp add: indexActions_def)
  have n3: "normalizeAction (ThrowBlockTask.actions holdingTask) (ActionNumber 42) = Inr None"
    by (simp add: normalizeAction_def i holdingTask_def ThrowBlockTask_constructor_def)
  have n4: "normalizeAction (ThrowBlockTaskV2.actions holdingTaskV2) (ActionNumber 42) = Inr None"
    by (simp add: normalizeAction_def i holdingTaskV2_def ThrowBlockTaskV2_constructor_def)
  have a: "getBody movingRightWorld ''agent'' = Some movingRightAgent"
    by (simp add: movingRightWorld_def)
  have g1: "groundedCheck (GapCrossingTask.agentHeight (GapCrossingTask_constructor defaultConfig))
      movingRightAgent"
    by (simp add: groundedCheck_def GapCrossingTask_constructor_def movingRightAgent_def)
  have g2: "groundedCheck
      (GapCrossingTaskV2.agentHeight (GapCrossingTaskV2_constructor defaultConfig)) movingRightAgent"
    by (simp add: groundedCheck_def GapCrossingTaskV2_constructor_def movingRightAgent_def)
  have g3: "groundedCheck (ThrowBlockTask.agentHeight holdingTask) throwAgent"
    "groundedCheck (ThrowBlockTaskV2.agentHeight holdingTaskV2) throwAgent"
    by (simp_all add: groundedCheck_def holdingTask_def holdingTaskV2_def
        ThrowBlockTask_constructor_def ThrowBlockTaskV2_constructor_def throwAgent_def)
  have v: "velocity movingRightAgent = Vec3 0 0 2.4" "velocity throwAgent = Vec3 0 0 0"
    "position throwAgent = Vec3 (- 2) 1.0 0"
    by (simp_all add: movingRightAgent_def throwAgent_def)
  have m: "maxSpeed (GapCrossingTaskV2_constructor defaultConfig) = 4"
    "GapCrossingTaskV2.canJump (GapCrossingTaskV2_constructor defaultConfig)"
    by (simp_all add: GapCrossingTaskV2_constructor_def)
  note A = unrecognised_action_is_idle [OF a, where act = "ActionString ''Fly''"
      and cfg = defaultConfig and now = 1700000000000
      and ?g1.0 = "GapCrossingTask_constructor defaultConfig" and ?a1.0 = "Some ''fly''"
      and ?g2.0 = "GapCrossingTaskV2_constructor defaultConfig" and ?a2.0 = "Some ''fly''"]
  note B = unrecognised_action_is_idle [OF holdingWorld_bodies(1),
      where act = "ActionNumber 42" and cfg = defaultConfig and p = noParams
      and block = heldBlock
      and ?t1.0 = holdingTask and ?b1.0 = None and ?t2.0 = holdingTaskV2 and ?b2.0 = None]
  note C = unrecognised_action_is_idle [OF a, where act = ActionNull
      and cfg = defaultConfig and ?g1.0 = "GapCrossingTask_constructor defaultConfig"]
  from A [THEN conjunct1, THEN mp, OF conjI [OF n1 u], THEN conjunct2]
  have w1: "GapCrossingTask_applyAction defaultConfig (ActionString ''Fly'')
       (GapCrossingTask_constructor defaultConfig, movingRightWorld)
     = (((GapCrossingTask_constructor defaultConfig)
           \<lparr>GapCrossingTask.isGrounded := True, GapCrossingTask.canJump := True\<rparr>,
         setBody ''agent'' (movingRightAgent\<lparr>velocity := Vec3 0 0 2.16\<rparr>) movingRightWorld),
        None)"
    by (simp add: g1 v)
  from A [THEN conjunct2, THEN conjunct1, THEN mp, OF conjI [OF n2 u], THEN conjunct2]
  have w2: "GapCrossingTaskV2_applyAction defaultConfig 1700000000000 (ActionString ''Fly'')
       (GapCrossingTaskV2_constructor defaultConfig, movingRightWorld)
     = (((GapCrossingTaskV2_constructor defaultConfig)
           \<lparr>GapCrossingTaskV2.isGrounded := True, GapCrossingTaskV2.canJump := True\<rparr>,
         setBody ''agent'' (movingRightAgent\<lparr>velocity := Vec3 0 0 2.04\<rparr>) movingRightWorld),
        None)"
    by (simp add: g2 v m)
  from B [THEN conjunct2, THEN conjunct2, THEN conjunct1, THEN mp,
      OF conjI [OF holdingWorld_bodies(2) conjI [OF n3 unrecognised_None]], THEN conjunct2]
  have w3: "ThrowBlockTask_applyAction defaultConfig (ActionNumber 42) (holdingTask, holdingWorld)
     = ((holdingTask\<lparr>ThrowBlockTask.isGrounded := True\<rparr>,
         setBody ''agent'' (throwAgent\<lparr>velocity := Vec3 0 0 0\<rparr>)
           (setBody ''block''
              (heldBlock\<lparr>position := Vec3 (- 1.5) 1.2 0, velocity := Vec3 0 0 0\<rparr>)
              holdingWorld)),
        None)"
    by (simp add: g3 v holdingTask_fields)
  from B [THEN conjunct2, THEN conjunct2, THEN conjunct2, THEN conjunct1, THEN mp,
      OF conjI [OF holdingWorld_bodies(2) conjI [OF n4 unrecognised_None]], THEN conjunct2]
  have w4: "ThrowBlockTaskV2_applyAction defaultConfig (ActionNumber 42) noParams
       (holdingTaskV2, holdingWorld)
     = ((holdingTaskV2\<lparr>ThrowBlockTaskV2.isGrounded := True\<rparr>,
         setBody ''agent'' (throwAgent\<lparr>velocity := Vec3 0 0 0\<rparr>)
           (setBody ''block''
              (heldBlock\<lparr>position := Vec3 (- 1.5) 1.2 0, velocity := Vec3 0 0 0\<rparr>)
              holdingWorld)),
        None)"
    by (simp add: g3 v holdingTask_fields)
  have k: "\<not> protocolAction ActionNull" by simp
  from C [THEN conjunct2, THEN conjunct2, THEN conjunct2, THEN conjunct2, THEN conjunct1,
      THEN mp, OF k, THEN conjunct1]
  have w5: "\<exists>msg. GapCrossingTask_applyAction defaultConfig ActionNull
               (GapCrossingTask_constructor defaultConfig, movingRightWorld)
             = (((GapCrossingTask_constructor defaultConfig)
                   \<lparr>GapCrossingTask.isGrounded := True\<rparr>, movingRightWorld),
                Some (TypeError msg))"
    by (simp add: g1)
  from w1 w2 w3 w4 w5 show ?thesis by blast
qed

lemma task_applyAction_malformed:
  assumes "taskIntact tk w" and "\<not> protocolAction act"
  shows "\<exists>tk' msg. task_applyAction cfg now act p (tk, w) = ((tk', w), Some (TypeError msg))"
proof (cases tk)
  case (GapTask t)
  with assms(1) obtain agent where a: "getBody w ''agent'' = Some agent"
    by (auto simp: taskIntact_def getBody_def)
  from GapCrossingTask_malformed [OF a assms(2), of cfg t] GapTask show ?thesis
    by (auto simp: task_applyAction_def)
next
  case (GapTaskV2 t)
  with assms(1) obtain agent where a: "getBody w ''agent'' = Some agent"
    by (auto simp: taskIntact_def getBody_def)
  from GapCrossingTaskV2_malformed [OF a assms(2), of cfg now t] GapTaskV2 show ?thesis
    by (auto simp: task_applyAction_def)
next
  case (ThrowTask t)
  with assms(1) obtain agent block where a: "getBody w ''agent'' = Some agent"
    and b: "getBody w ''block'' = Some block"
    by (auto simp: taskIntact_def getBody_def)
  from ThrowBlockTask_malformed [OF a b assms(2), of cfg t] ThrowTask show ?thesis
    by (auto simp: task_applyAction_def)
next
  case (ThrowTaskV2 t)
  with assms(1) obtain agent block where a: "getBody w ''agent'' = Some agent"
    and b: "getBody w ''block'' = Some block"
    by (auto simp: taskIntact_def getBody_def)
  from ThrowBlockTaskV2_malformed [OF a b assms(2), of cfg p t] ThrowTaskV2 show ?thesis
    by (auto simp: task_applyAction_def)
next
  case WorldObject
  with assms(1) show ?thesis by (simp add: taskIntact_def)
qed

text \<open>
  A step with an action that is neither a string nor a number, on a live session with at
  least one tick per step: the first \<open>applyAction\<close> raises, so the call fails with a
  \<open>TypeError\<close> before the world is stepped; the step counter, the done flag, the cumulative
  reward and the world of the session are as before.
\<close>

lemma stepEnvironment_malformed:
  assumes "environments sessionId = Some env" and "\<not> env_done env" and "sessionIntact env"
    and "\<not> protocolAction act" and "0 < physicsTicksPerStep (config env)"
  shows "\<exists>tk msg. stepEnvironment B clock sessionId act p environments =
           (environments(sessionId \<mapsto> env\<lparr>task := tk\<rparr>), Inl (TypeError msg))"
proof -
  from assms(5) obtain n where n: "nat (physicsTicksPerStep (config env)) = Suc n"
    by (metis Suc_pred zero_less_nat_eq)
  from task_applyAction_malformed [OF assms(3) [unfolded sessionIntact_def] assms(4),
      of "config env" "clock 0" p]
  obtain tk msg where
    a: "task_applyAction (config env) (clock 0) act p (task env, world env)
        = ((tk, world env), Some (TypeError msg))" by blast
  have "stepEnvironment B clock sessionId act p environments =
           (environments(sessionId \<mapsto> env\<lparr>task := tk\<rparr>), Inl (TypeError msg))"
    using assms(1,2) by (simp add: stepEnvironment_def n a)
  then show ?thesis by blast
qed

text \<open>
  Counterexample to C10 as stated. The action \<open>null\<close> is neither a recognised string nor a
  numeric index, and applying it raises a \<open>TypeError\<close>, which the step of a default session
  passes on to the caller. And the unknown string \<open>Fly\<close>, which does take the default
  branch, does not leave all other episode state unchanged: the grounded flag of the fresh
  task object goes from false to true.
\<close>

theorem malformed_action_raises_and_flags_change:
  "snd (GapCrossingTask_applyAction defaultConfig ActionNull
          (GapCrossingTask_constructor defaultConfig, movingRightWorld))
     = Some (TypeError ''Cannot read properties of null (reading 'toLowerCase')'')
   \<and> (\<exists>msg. snd (stepEnvironment (\<lambda>w. w) noClock ''s'' ActionNull noParams demoSessions)
               = Inl (TypeError msg))
   \<and> normalizeAction (GapCrossingTask.actions (GapCrossingTask_constructor defaultConfig))
        (ActionString ''Fly'') = Inr (Some ''fly'')
   \<and> unrecognised gapCases (Some ''fly'')
   \<and> \<not> GapCrossingTask.isGrounded (GapCrossingTask_constructor defaultConfig)
   \<and> GapCrossingTask.isGrounded
        (fst (fst (GapCrossingTask_applyAction defaultConfig (ActionString ''Fly'')
                     (GapCrossingTask_constructor defaultConfig, movingRightWorld))))"
proof -
  have f: "toLowerCase ''Fly'' = ''fly''" by (simp add: toLowerCase_def lowerChar_def)
  have a: "getBody movingRightWorld ''agent'' = Some movingRightAgent"
    by (simp add: movingRightWorld_def)
  have g: "groundedCheck (GapCrossingTask.agentHeight (GapCrossingTask_constructor defaultConfig))
      movingRightAgent"
    by (simp add: groundedCheck_def GapCrossingTask_constructor_def movingRightAgent_def)
  have c1: "snd (GapCrossingTask_applyAction defaultConfig ActionNull
          (GapCrossingTask_constructor defaultConfig, movingRightWorld))
     = Some (TypeError ''Cannot read properties of null (reading 'toLowerCase')'')"
    by (simp add: GapCrossingTask_applyAction_def a Let_def normalizeAction_def)
  from demoSessions_session obtain env where
    d: "demoSessions = [''s'' \<mapsto> env]" and i: "sessionIntact env" and n: "\<not> env_done env"
    and t: "physicsTicksPerStep (config env) = 10"
    by blast
  have s: "demoSessions ''s'' = Some env" by (simp add: d)
  have k: "\<not> protocolAction ActionNull" by simp
  from t have t': "0 < physicsTicksPerStep (config env)" by simp
  from stepEnvironment_malformed [where environments = demoSessions and sessionId = "''s''"
      and B = "\<lambda>w. w" and clock = noClock and p = noParams, OF s n i k t']
  have c2: "\<exists>msg. snd (stepEnvironment (\<lambda>w. w) noClock ''s'' ActionNull noParams demoSessions)
               = Inl (TypeError msg)"
    by (metis snd_conv)
  have c3: "normalizeAction (GapCrossingTask.actions (GapCrossingTask_constructor defaultConfig))
        (ActionString ''Fly'') = Inr (Some ''fly'')"
    by (simp add: normalizeAction_def f)
  have c4: "unrecognised gapCases (Some ''fly'')"
    by (simp add: unrecognised_def gapCases_def)
  have c5: "\<not> GapCrossingTask.isGrounded (GapCrossingTask_constructor defaultConfig)"
    by (simp add: GapCrossingTask_constructor_def)
  have c6: "GapCrossingTask.isGrounded
        (fst (fst (GapCrossingTask_applyAction defaultConfig (ActionString ''Fly'')
                     (GapCrossingTask_constructor defaultConfig, movingRightWorld))))"
    using g by (simp add: GapCrossingTask_applyAction_def a Let_def c3 split_beta)
  from c1 c2 c3 c4 c5 c6 show ?thesis by blast
qed

subsection \<open>The success streak\<close>

lemma terminationResult_sel [simp]:
  "term_done (terminationResult d s r) = d" "success (terminationResult d s r) = s"
  "reason (terminationResult d s r) = r"
  by (simp_all add: terminationResult_def)

lemma task_checkTermination_cases:
  assumes "task_checkTermination tk w = Inr (tk', tr)"
  shows "(\<forall>w'. task_compliant tk' w' = task_compliant tk w')
       \<and> task_requiredSuccessSteps tk' = task_requiredSuccessSteps tk
       \<and> (success tr \<longrightarrow> term_done tr \<and> task_compliant tk w
             \<and> task_successSteps tk' = task_successSteps tk + 1
             \<and> task_requiredSuccessSteps tk \<le> task_successSteps tk')
       \<and> (term_done tr \<and> \<not> success tr \<longrightarrow> task_successSteps tk' = task_successSteps tk)
       \<and> (\<not> term_done tr \<longrightarrow>
             (if task_compliant tk w
              then task_successSteps tk' = task_successSteps tk + 1
                   \<and> task_successSteps tk' < task_requiredSuccessSteps tk
              else task_successSteps tk' = 0))"
proof (cases tk)
  case (GapTask t)
  with assms show ?thesis
    by (auto simp: task_checkTermination_def GapCrossingTask_checkTermination_def
        task_compliant_def task_successSteps_def task_requiredSuccessSteps_def Let_def
        split: option.splits if_splits)
next
  case (ThrowTask t)
  with assms show ?thesis
    by (auto simp: task_checkTermination_def ThrowBlockTask_checkTermination_def
        task_compliant_def task_successSteps_def task_requiredSuccessSteps_def Let_def
        speedOf_def split: option.splits if_splits)
next
  case (GapTaskV2 t)
  with assms show ?thesis
    by (auto simp: task_checkTermination_def GapCrossingTaskV2_checkTermination_def
        task_compliant_def task_successSteps_def task_requiredSuccessSteps_def Let_def
        split: option.splits if_splits)
next
  case (ThrowTaskV2 t)
  with assms show ?thesis
    by (auto simp: task_checkTermination_def ThrowBlockTaskV2_checkTermination_def
        task_compliant_def task_successSteps_def task_requiredSuccessSteps_def Let_def
        speedOf_def split: option.splits if_splits)
next
  case WorldObject
  with assms show ?thesis by (simp add: task_checkTermination_def)
qed

lemma checkRun_invariant:
  assumes "k < length (checkRun tk ws)" and "checkRun tk ws ! k = (tk', tr)"
  shows "k < length ws
       \<and> (\<not> task_compliant tk (ws ! k) \<longrightarrow>
             \<not> success tr \<and> (task_successSteps tk' = 0 \<or> term_done tr))
       \<and> (success tr \<longrightarrow> task_requiredSuccessSteps tk \<le> task_successSteps tk')
       \<and> (\<not> term_done tr \<or> success tr \<longrightarrow>
             task_successSteps tk' \<le> task_successSteps tk + k + 1
             \<and> (\<forall>j\<le>k. k - j < task_successSteps tk' \<longrightarrow> task_compliant tk (ws ! j)))"
  using assms
proof (induction ws arbitrary: tk k)
  case Nil
  then show ?case by simp
next
  case (Cons w ws)
  from Cons.prems(1) obtain tk1 tr1 where c: "task_checkTermination tk w = Inr (tk1, tr1)"
    by (cases "task_checkTermination tk w") auto
  note A = task_checkTermination_cases [OF c]
  from A have same: "\<And>w'. task_compliant tk1 w' = task_compliant tk w'"
    and req: "task_requiredSuccessSteps tk1 = task_requiredSuccessSteps tk" by blast+
  from A have step1: "\<not> term_done tr1 \<Longrightarrow> task_successSteps tk1 \<le> task_successSteps tk + 1"
    by (auto split: if_splits)
  from A have pos1: "\<not> term_done tr1 \<Longrightarrow> 0 < task_successSteps tk1 \<Longrightarrow> task_compliant tk w"
    by (auto split: if_splits)
  show ?case
  proof (cases k)
    case 0
    with Cons.prems(2) c have e: "tk' = tk1" "tr = tr1" by simp_all
    from A have "\<not> task_compliant tk w \<longrightarrow>
        \<not> success tr1 \<and> (task_successSteps tk1 = 0 \<or> term_done tr1)"
      by (auto split: if_splits)
    moreover from A have "success tr1 \<longrightarrow> task_requiredSuccessSteps tk \<le> task_successSteps tk1"
      by blast
    moreover from A have "\<not> term_done tr1 \<or> success tr1 \<longrightarrow>
        task_successSteps tk1 \<le> task_successSteps tk + 0 + 1
        \<and> (0 < task_successSteps tk1 \<longrightarrow> task_compliant tk w)"
      by (auto split: if_splits)
    ultimately show ?thesis using 0 e by simp
  next
    case (Suc k')
    with Cons.prems(1) c have nd: "\<not> term_done tr1"
      by (auto split: if_splits)
    with Cons.prems Suc c have l: "k' < length (checkRun tk1 ws)"
      and n: "checkRun tk1 ws ! k' = (tk', tr)" by simp_all
    note IH = Cons.IH [OF l n]
    from IH have i1: "k' < length ws" by blast
    from IH same have i2: "\<not> task_compliant tk (ws ! k') \<longrightarrow>
             \<not> success tr \<and> (task_successSteps tk' = 0 \<or> term_done tr)" by simp
    from IH req have i3: "success tr \<longrightarrow> task_requiredSuccessSteps tk \<le> task_successSteps tk'"
      by simp
    have i4: "task_successSteps tk' \<le> task_successSteps tk + Suc k' + 1
             \<and> (\<forall>j\<le>Suc k'. Suc k' - j < task_successSteps tk' \<longrightarrow>
                    task_compliant tk ((w # ws) ! j))"
      if t: "\<not> term_done tr \<or> success tr"
    proof -
      from IH t have b: "task_successSteps tk' \<le> task_successSteps tk1 + k' + 1"
        and tr: "\<forall>j\<le>k'. k' - j < task_successSteps tk' \<longrightarrow> task_compliant tk1 (ws ! j)"
        by blast+
      from b step1 [OF nd] have b': "task_successSteps tk' \<le> task_successSteps tk + Suc k' + 1"
        by simp
      have "task_compliant tk ((w # ws) ! j)"
        if j: "j \<le> Suc k'" and d: "Suc k' - j < task_successSteps tk'" for j
      proof (cases j)
        case 0
        with d b have "0 < task_successSteps tk1" by simp
        from pos1 [OF nd this] 0 show ?thesis by simp
      next
        case (Suc j')
        with j d tr same show ?thesis by simp
      qed
      with b' show ?thesis by blast
    qed
    from i1 i2 i3 i4 Suc show ?thesis by simp
  qed
qed

lemma seededRandom_42: "seededRandom defaultConfig = (defaultConfig\<lparr>seed := 1250496027\<rparr>,
    1250496027 / 2147483647)"
  by (simp add: seededRandom_def Let_def js_mul_def js_add_def js_bitand_def ToInt32_def
      round_double_def drop_bits.simps defaultConfig_def mergeConfig_def emptyRequest_def
      orDefault_def)

lemma sessionGapTask_fields:
  "successSteps sessionGapTask = 0" "requiredSuccessSteps sessionGapTask = 5"
  "GapCrossingTask.goalZone sessionGapTask =
     \<lparr>minX = 5 / 2 + (3 + (- (1 / 2) + 1250496027 / 2147483647)) + 1 / 2,
      maxX = 5 / 2 + (3 + (- (1 / 2) + 1250496027 / 2147483647)) + 5 / 2 + 5 / 2 - 1 / 2,
      minZ = - 2, maxZ = 2, minY = 0, maxY = 2\<rparr>"
proof -
  have c: "Config.gapWidth defaultConfig = None" "Config.gapVariance defaultConfig = None"
    by (simp_all add: defaultConfig_def mergeConfig_def emptyRequest_def)
  show "successSteps sessionGapTask = 0" "requiredSuccessSteps sessionGapTask = 5"
    "GapCrossingTask.goalZone sessionGapTask =
     \<lparr>minX = 5 / 2 + (3 + (- (1 / 2) + 1250496027 / 2147483647)) + 1 / 2,
      maxX = 5 / 2 + (3 + (- (1 / 2) + 1250496027 / 2147483647)) + 5 / 2 + 5 / 2 - 1 / 2,
      minZ = - 2, maxZ = 2, minY = 0, maxY = 2\<rparr>"
    by (simp_all add: sessionGapTask_def new_GapCrossingTask_def GapCrossingTask_setup_def
        GapCrossingTask_constructor_def randomInRange_def seededRandom_42 c orDefault_def Let_def)
qed

lemma goalWorld_in_goal:
  "inZone (Vec3 8 1 0) (GapCrossingTask.goalZone sessionGapTask)"
  by (simp add: inZone_def sessionGapTask_fields)

lemma goalWorld_check:
  assumes "GapCrossingTask.goalZone t = GapCrossingTask.goalZone sessionGapTask"
  shows "GapCrossingTask_checkTermination t goalWorld =
           (t\<lparr>successSteps := successSteps t + 1\<rparr>,
            if requiredSuccessSteps t \<le> successSteps t + 1
            then terminationResult True True ''reached_goal''
            else terminationResult False False ''ongoing'')"
  using goalWorld_in_goal
  by (simp add: GapCrossingTask_checkTermination_def goalWorld_def agentAt_def assms Let_def)

lemma fallenWorld_check:
  "GapCrossingTask_checkTermination t fallenWorld = (t, terminationResult True False ''fell'')"
  by (simp add: GapCrossingTask_checkTermination_def fallenWorld_def agentAt_def Let_def)

lemma fallenWorld_not_compliant: "\<not> task_compliant (GapTask sessionGapTask) fallenWorld"
  by (simp add: task_compliant_def fallenWorld_def agentAt_def inZone_def sessionGapTask_fields)

lemma goalWorld_compliant: "task_compliant (GapTask sessionGapTask) goalWorld"
  using goalWorld_in_goal by (simp add: task_compliant_def goalWorld_def agentAt_def)

lemma sessionGapTask_fresh: "sessionGapTask\<lparr>successSteps := 0\<rparr> = sessionGapTask"
  using sessionGapTask_fields(1) by (cases sessionGapTask) simp

lemma checkRun_goal:
  assumes "n < 4"
  shows "checkRun (GapTask (sessionGapTask\<lparr>successSteps := n\<rparr>)) (goalWorld # ws) =
           (GapTask (sessionGapTask\<lparr>successSteps := Suc n\<rparr>),
            terminationResult False False ''ongoing'')
           # checkRun (GapTask (sessionGapTask\<lparr>successSteps := Suc n\<rparr>)) ws"
  using assms by (simp add: task_checkTermination_def goalWorld_check sessionGapTask_fields(2))

lemma checkRun_goal_last:
  "checkRun (GapTask (sessionGapTask\<lparr>successSteps := 4\<rparr>)) (goalWorld # ws) =
     [(GapTask (sessionGapTask\<lparr>successSteps := 5\<rparr>),
       terminationResult True True ''reached_goal'')]"
  by (simp add: task_checkTermination_def goalWorld_check sessionGapTask_fields(2))

lemma checkRun_fallen:
  "checkRun (GapTask t) (fallenWorld # ws) =
     [(GapTask t, terminationResult True False ''fell'')]"
  by (simp add: task_checkTermination_def fallenWorld_check)

lemma four_compliant_checks:
  "checkRun (GapTask sessionGapTask) (goalWorld # goalWorld # goalWorld # goalWorld # ws) =
     (GapTask (sessionGapTask\<lparr>successSteps := 1\<rparr>), terminationResult False False ''ongoing'')
     # (GapTask (sessionGapTask\<lparr>successSteps := 2\<rparr>), terminationResult False False ''ongoing'')
     # (GapTask (sessionGapTask\<lparr>successSteps := 3\<rparr>), terminationResult False False ''ongoing'')
     # (GapTask (sessionGapTask\<lparr>successSteps := 4\<rparr>), terminationResult False False ''ongoing'')
     # checkRun (GapTask (sessionGapTask\<lparr>successSteps := 4\<rparr>)) ws"
proof -
  have "checkRun (GapTask sessionGapTask) (goalWorld # goalWorld # goalWorld # goalWorld # ws)
        = checkRun (GapTask (sessionGapTask\<lparr>successSteps := 0\<rparr>))
            (goalWorld # goalWorld # goalWorld # goalWorld # ws)"
    by (simp only: sessionGapTask_fresh)
  also have "\<dots> =
     (GapTask (sessionGapTask\<lparr>successSteps := Suc 0\<rparr>), terminationResult False False ''ongoing'')
     # (GapTask (sessionGapTask\<lparr>successSteps := Suc (Suc 0)\<rparr>),
        terminationResult False False ''ongoing'')
     # (GapTask (sessionGapTask\<lparr>successSteps := Suc (Suc (Suc 0))\<rparr>),
        terminationResult False False ''ongoing'')
     # (GapTask (sessionGapTask\<lparr>successSteps := Suc (Suc (Suc (Suc 0)))\<rparr>),
        terminationResult False False ''ongoing'')
     # checkRun (GapTask (sessionGapTask\<lparr>successSteps := Suc (Suc (Suc (Suc 0)))\<rparr>)) ws"
    by (simp del: checkRun.simps add: checkRun_goal)
  finally show ?thesis by (simp add: eval_nat_numeral del: checkRun.simps)
qed

lemma checkRun_step:
  assumes "k < length (checkRun tk ws)"
  shows "task_checkTermination (if k = 0 then tk else fst (checkRun tk ws ! (k - 1))) (ws ! k)
           = Inr (checkRun tk ws ! k)"
  using assms
proof (induction ws arbitrary: tk k)
  case Nil
  then show ?case by simp
next
  case (Cons w ws)
  from Cons.prems obtain tk1 tr1 where c: "task_checkTermination tk w = Inr (tk1, tr1)"
    by (cases "task_checkTermination tk w") auto
  show ?case
  proof (cases k)
    case 0
    with c show ?thesis by simp
  next
    case (Suc k')
    with Cons.prems c have nd: "\<not> term_done tr1"
      by (auto split: if_splits)
    with Cons.prems Suc c have l: "k' < length (checkRun tk1 ws)" by simp
    have p: "fst (checkRun tk (w # ws) ! k') = (if k' = 0 then tk1 else fst (checkRun tk1 ws ! (k' - 1)))"
      using c nd by (cases k') simp_all
    from Cons.IH [OF l] p Suc c nd show ?thesis by simp
  qed
qed

text \<open>
  Claim C4, as amended. Over the checks of an episode, which start from a fresh task
  object and stop at the first check that reports done, \<open>checkTermination\<close> reports
  success at a check only if the success predicate held at that check and at the
  preceding ones, \<open>requiredSuccessSteps\<close> consecutive checks in all. A check on which the
  predicate fails never reports success, and it either resets the streak counter to
  zero or ends the episode in failure (the early returns \<open>fell\<close>, \<open>fell_side\<close>,
  \<open>block_fell\<close>, \<open>agent_fell\<close> and the missing-body results); a check that ends the
  episode in failure leaves the counter as it was before the check.
\<close>

theorem success_needs_sustained_streak:
  assumes "task_successSteps tk = 0"
    and "k < length (checkRun tk ws)" and "checkRun tk ws ! k = (tk', tr)"
  shows "(success tr \<longrightarrow>
            task_requiredSuccessSteps tk \<le> k + 1
            \<and> (\<forall>j\<le>k. k - j < task_requiredSuccessSteps tk \<longrightarrow> task_compliant tk (ws ! j)))
       \<and> (\<not> task_compliant tk (ws ! k) \<longrightarrow>
            \<not> success tr \<and> (task_successSteps tk' = 0 \<or> (term_done tr \<and> \<not> success tr)))
       \<and> (term_done tr \<and> \<not> success tr \<longrightarrow>
            task_successSteps tk'
              = task_successSteps (if k = 0 then tk else fst (checkRun tk ws ! (k - 1))))"
proof -
  note I = checkRun_invariant [OF assms(2,3)]
  have "task_requiredSuccessSteps tk \<le> k + 1
        \<and> (\<forall>j\<le>k. k - j < task_requiredSuccessSteps tk \<longrightarrow> task_compliant tk (ws ! j))"
    if s: "success tr"
  proof -
    from I s have r: "task_requiredSuccessSteps tk \<le> task_successSteps tk'"
      and b: "task_successSteps tk' \<le> task_successSteps tk + k + 1"
      and t: "\<forall>j\<le>k. k - j < task_successSteps tk' \<longrightarrow> task_compliant tk (ws ! j)"
      by blast+
    from r b assms(1) have "task_requiredSuccessSteps tk \<le> k + 1" by simp
    moreover from r t have
      "\<forall>j\<le>k. k - j < task_requiredSuccessSteps tk \<longrightarrow> task_compliant tk (ws ! j)"
      by (meson less_le_trans)
    ultimately show ?thesis by blast
  qed
  moreover from I have "\<not> task_compliant tk (ws ! k) \<longrightarrow>
            \<not> success tr \<and> (task_successSteps tk' = 0 \<or> (term_done tr \<and> \<not> success tr))"
    by blast
  moreover have "term_done tr \<and> \<not> success tr \<longrightarrow>
            task_successSteps tk'
              = task_successSteps (if k = 0 then tk else fst (checkRun tk ws ! (k - 1)))"
  proof -
    from checkRun_step [OF assms(2)] assms(3)
    have c: "task_checkTermination (if k = 0 then tk else fst (checkRun tk ws ! (k - 1))) (ws ! k)
           = Inr (tk', tr)" by simp
    from task_checkTermination_cases [OF c] show ?thesis by blast
  qed
  ultimately show ?thesis by blast
qed

text \<open>
  Witness for C4: five checks with the agent in the goal zone, the fifth reports
  \<open>reached_goal\<close>; and four such checks followed by one with the agent fallen below the
  floor, which ends the episode and leaves the counter at 4.
\<close>

theorem success_needs_sustained_streak_witness:
  "checkRun (GapTask sessionGapTask) [goalWorld, goalWorld, goalWorld, goalWorld, goalWorld] ! 4
     = (GapTask (sessionGapTask\<lparr>successSteps := 5\<rparr>), terminationResult True True ''reached_goal'')
   \<and> task_requiredSuccessSteps (GapTask sessionGapTask) \<le> 4 + 1
   \<and> task_compliant (GapTask sessionGapTask)
         ([goalWorld, goalWorld, goalWorld, goalWorld, goalWorld] ! 0)
   \<and> task_compliant (GapTask sessionGapTask)
         ([goalWorld, goalWorld, goalWorld, goalWorld, goalWorld] ! 1)
   \<and> task_compliant (GapTask sessionGapTask)
         ([goalWorld, goalWorld, goalWorld, goalWorld, goalWorld] ! 2)
   \<and> task_compliant (GapTask sessionGapTask)
         ([goalWorld, goalWorld, goalWorld, goalWorld, goalWorld] ! 3)
   \<and> task_compliant (GapTask sessionGapTask)
         ([goalWorld, goalWorld, goalWorld, goalWorld, goalWorld] ! 4)
   \<and> task_successSteps (GapTask (sessionGapTask\<lparr>successSteps := 4\<rparr>))
       = task_successSteps
           (fst (checkRun (GapTask sessionGapTask)
                   [goalWorld, goalWorld, goalWorld, goalWorld, fallenWorld] ! 3))"
proof -
  have r: "checkRun (GapTask sessionGapTask) [goalWorld, goalWorld, goalWorld, goalWorld, goalWorld]
      = [(GapTask (sessionGapTask\<lparr>successSteps := 1\<rparr>), terminationResult False False ''ongoing''),
         (GapTask (sessionGapTask\<lparr>successSteps := 2\<rparr>), terminationResult False False ''ongoing''),
         (GapTask (sessionGapTask\<lparr>successSteps := 3\<rparr>), terminationResult False False ''ongoing''),
         (GapTask (sessionGapTask\<lparr>successSteps := 4\<rparr>), terminationResult False False ''ongoing''),
         (GapTask (sessionGapTask\<lparr>successSteps := 5\<rparr>),
          terminationResult True True ''reached_goal'')]"
    by (simp only: four_compliant_checks checkRun_goal_last)
  have l: "4 < length (checkRun (GapTask sessionGapTask)
      [goalWorld, goalWorld, goalWorld, goalWorld, goalWorld])"
    by (simp only: r) simp
  have n: "checkRun (GapTask sessionGapTask)
      [goalWorld, goalWorld, goalWorld, goalWorld, goalWorld] ! 4
     = (GapTask (sessionGapTask\<lparr>successSteps := 5\<rparr>), terminationResult True True ''reached_goal'')"
    by (simp only: r) simp
  have z: "task_successSteps (GapTask sessionGapTask) = 0"
    by (simp add: task_successSteps_def sessionGapTask_fields)
  have q: "task_requiredSuccessSteps (GapTask sessionGapTask) = 5"
    by (simp add: task_requiredSuccessSteps_def sessionGapTask_fields)
  note T = success_needs_sustained_streak [OF z l n]
  from T [THEN conjunct1]
  have b: "task_requiredSuccessSteps (GapTask sessionGapTask) \<le> 4 + 1"
    and a: "\<forall>j\<le>4. 4 - j < task_requiredSuccessSteps (GapTask sessionGapTask) \<longrightarrow>
         task_compliant (GapTask sessionGapTask)
           ([goalWorld, goalWorld, goalWorld, goalWorld, goalWorld] ! j)"
    by simp_all
  from a [rule_format, of 0] a [rule_format, of 1] a [rule_format, of 2] a [rule_format, of 3]
    a [rule_format, of 4]
  have c: "task_compliant (GapTask sessionGapTask)
         ([goalWorld, goalWorld, goalWorld, goalWorld, goalWorld] ! 0)"
    "task_compliant (GapTask sessionGapTask)
         ([goalWorld, goalWorld, goalWorld, goalWorld, goalWorld] ! 1)"
    "task_compliant (GapTask sessionGapTask)
         ([goalWorld, goalWorld, goalWorld, goalWorld, goalWorld] ! 2)"
    "task_compliant (GapTask sessionGapTask)
         ([goalWorld, goalWorld, goalWorld, goalWorld, goalWorld] ! 3)"
    "task_compliant (GapTask sessionGapTask)
         ([goalWorld, goalWorld, goalWorld, goalWorld, goalWorld] ! 4)"
    unfolding q by simp_all
  have r': "checkRun (GapTask sessionGapTask)
      [goalWorld, goalWorld, goalWorld, goalWorld, fallenWorld]
      = [(GapTask (sessionGapTask\<lparr>successSteps := 1\<rparr>), terminationResult False False ''ongoing''),
         (GapTask (sessionGapTask\<lparr>successSteps := 2\<rparr>), terminationResult False False ''ongoing''),
         (GapTask (sessionGapTask\<lparr>successSteps := 3\<rparr>), terminationResult False False ''ongoing''),
         (GapTask (sessionGapTask\<lparr>successSteps := 4\<rparr>), terminationResult False False ''ongoing''),
         (GapTask (sessionGapTask\<lparr>successSteps := 4\<rparr>), terminationResult True False ''fell'')]"
    by (simp only: four_compliant_checks checkRun_fallen)
  have l': "4 < length (checkRun (GapTask sessionGapTask)
      [goalWorld, goalWorld, goalWorld, goalWorld, fallenWorld])"
    by (simp only: r') simp
  have n': "checkRun (GapTask sessionGapTask)
      [goalWorld, goalWorld, goalWorld, goalWorld, fallenWorld] ! 4
     = (GapTask (sessionGapTask\<lparr>successSteps := 4\<rparr>), terminationResult True False ''fell'')"
    by (simp only: r') simp
  have t: "term_done (terminationResult True False ''fell'')
      \<and> \<not> success (terminationResult True False ''fell'')" by simp
  from success_needs_sustained_streak [OF z l' n', THEN conjunct2, THEN conjunct2, THEN mp, OF t]
  have d: "task_successSteps (GapTask (sessionGapTask\<lparr>successSteps := 4\<rparr>))
       = task_successSteps
           (fst (checkRun (GapTask sessionGapTask)
                   [goalWorld, goalWorld, goalWorld, goalWorld, fallenWorld] ! 3))"
    by simp
  from n b c d show ?thesis by blast
qed

text \<open>
  Counterexample to C4 as stated: after four compliant checks the agent falls below the
  floor threshold; the fifth check fails the predicate, returns \<open>fell\<close> early and leaves
  the streak counter at 4.
\<close>

theorem failed_check_can_keep_the_streak:
  "checkRun (GapTask sessionGapTask) [goalWorld, goalWorld, goalWorld, goalWorld, fallenWorld] ! 4
     = (GapTask (sessionGapTask\<lparr>successSteps := 4\<rparr>), terminationResult True False ''fell'')
   \<and> \<not> task_compliant (GapTask sessionGapTask)
         ([goalWorld, goalWorld, goalWorld, goalWorld, fallenWorld] ! 4)
   \<and> task_successSteps (GapTask (sessionGapTask\<lparr>successSteps := 4\<rparr>)) = 4"
proof -
  have "checkRun (GapTask sessionGapTask)
      [goalWorld, goalWorld, goalWorld, goalWorld, fallenWorld] ! 4
     = (GapTask (sessionGapTask\<lparr>successSteps := 4\<rparr>), terminationResult True False ''fell'')"
    by (simp only: four_compliant_checks checkRun_fallen) simp
  moreover have "\<not> task_compliant (GapTask sessionGapTask)
         ([goalWorld, goalWorld, goalWorld, goalWorld, fallenWorld] ! 4)"
    using fallenWorld_not_compliant by simp
  moreover have "task_successSteps (GapTask (sessionGapTask\<lparr>successSteps := 4\<rparr>)) = 4"
    by (simp add: task_successSteps_def)
  ultimately show ?thesis by blast
qed

subsection \<open>Trajectories and the wall clock\<close>

lemma setBody_setBody [simp]: "setBody name b (setBody name a w) = setBody name b w"
  by (simp add: setBody_def)

lemma world_fields_setBody [simp]:
  "world_gravity (setBody name b w) = world_gravity w"
  "world_timeStep (setBody name b w) = world_timeStep w"
  by (simp_all add: setBody_def)

lemma cooldown_reset:
  "createEnvironment ''session'' cooldownRequest Map.empty =
     ([''session'' \<mapsto> \<lparr>world = cooldownWorld, task = GapTaskV2 cooldownTask,
                        config = cooldownConfig, stepCount = 0, env_done = False,
                        totalReward = 0\<rparr>],
      task_getObservation (GapTaskV2 cooldownTask) cooldownWorld cooldownConfig)"
proof -
  have m: "Config.task (mergeConfig cooldownRequest) = ''gap''"
    "taskVersion (mergeConfig cooldownRequest) = Some ''v2''"
    "gravity (mergeConfig cooldownRequest) = 15" "timeStep (mergeConfig cooldownRequest) = 0.3"
    by (simp_all add: mergeConfig_def cooldownRequest_def emptyRequest_def orDefault_def)
  have t: "TASKS ''gap_v2'' = TaskClass GapCrossingTaskV2Class"
    by (simp add: TASKS_def)
  show ?thesis
    unfolding createEnvironment_def Let_def m
    by (simp add: t new_task_def cooldownTask_def cooldownWorld_def cooldownConfig_def
        split_beta)
qed

lemma seededRandom_seed_42:
  "seed cfg = 42 \<Longrightarrow> seededRandom cfg = (cfg\<lparr>seed := 1250496027\<rparr>, 1250496027 / 2147483647)"
  by (simp add: seededRandom_def Let_def js_mul_def js_add_def js_bitand_def ToInt32_def
      round_double_def drop_bits.simps)

lemma cooldownRequest_merged:
  "seed (mergeConfig cooldownRequest) = 42"
  "physicsTicksPerStep (mergeConfig cooldownRequest) = 1"
  "gravity (mergeConfig cooldownRequest) = 15" "maxSteps (mergeConfig cooldownRequest) = 500"
  "Config.gapWidth (mergeConfig cooldownRequest) = None"
  "Config.gapVariance (mergeConfig cooldownRequest) = None"
  "Config.goalPlatformWidth (mergeConfig cooldownRequest) = None"
  "Config.landingZoneWidth (mergeConfig cooldownRequest) = None"
  "Config.landingZoneStart (mergeConfig cooldownRequest) = None"
  "Config.landingZoneEnd (mergeConfig cooldownRequest) = None"
  by (simp_all add: mergeConfig_def cooldownRequest_def emptyRequest_def orDefault_def)

lemma cooldownConfig_fields:
  "physicsTicksPerStep cooldownConfig = 1" "gravity cooldownConfig = 15"
  "maxSteps cooldownConfig = 500"
  by (simp_all add: cooldownConfig_def new_GapCrossingTaskV2_def GapCrossingTaskV2_setup_def
      GapCrossingTaskV2_constructor_def randomInRange_def
      seededRandom_seed_42 [OF cooldownRequest_merged(1)] Let_def split_beta
      cooldownRequest_merged orDefault_def)

lemma cooldownWorld_fields:
  "getBody cooldownWorld ''agent'' = Some (agentWith (Vec3 (- 4 / 3) 1 0) (Vec3 0 0 0))"
  "world_gravity cooldownWorld = 15" "world_timeStep cooldownWorld = 0.3"
  by (simp_all add: cooldownWorld_def new_GapCrossingTaskV2_def GapCrossingTaskV2_setup_def
      GapCrossingTaskV2_constructor_def randomInRange_def
      seededRandom_seed_42 [OF cooldownRequest_merged(1)] Let_def split_beta createBox_def
      createCapsule_def addBody_def setBody_def getBody_def new_PhysicsWorld_def agentWith_def
      cooldownRequest_merged orDefault_def)

lemma cooldownTask_fields:
  "GapCrossingTaskV2.agentHeight cooldownTask = 1.8" "moveSpeed cooldownTask = 3"
  "maxSpeed cooldownTask = 4" "jumpHeight cooldownTask = 1.2" "jumpCooldownMs cooldownTask = 500"
  "runUpBonus cooldownTask = 1.3" "GapCrossingTaskV2.platformDepth cooldownTask = 3"
  "\<not> GapCrossingTaskV2.isGrounded cooldownTask" "GapCrossingTaskV2.canJump cooldownTask"
  "lastJumpTime cooldownTask = 0" "successSteps cooldownTask = 0"
  "requiredSuccessSteps cooldownTask = 5"
  "GapCrossingTaskV2.actions cooldownTask
     = [''forward'', ''back'', ''left'', ''right'', ''jump'', ''idle'']"
  "minX (GapCrossingTaskV2.goalZone cooldownTask) > 0"
  by (simp_all add: cooldownTask_def new_GapCrossingTaskV2_def GapCrossingTaskV2_setup_def
      GapCrossingTaskV2_constructor_def randomInRange_def
      seededRandom_seed_42 [OF cooldownRequest_merged(1)] Let_def split_beta
      cooldownRequest_merged orDefault_def)

lemma cooldownTaskState_fields [simp]:
  "GapCrossingTaskV2.agentHeight (cooldownTaskState g c l) = 1.8"
  "moveSpeed (cooldownTaskState g c l) = 3" "maxSpeed (cooldownTaskState g c l) = 4"
  "jumpHeight (cooldownTaskState g c l) = 1.2" "jumpCooldownMs (cooldownTaskState g c l) = 500"
  "runUpBonus (cooldownTaskState g c l) = 1.3"
  "GapCrossingTaskV2.platformDepth (cooldownTaskState g c l) = 3"
  "GapCrossingTaskV2.isGrounded (cooldownTaskState g c l) = g"
  "GapCrossingTaskV2.canJump (cooldownTaskState g c l) = c"
  "lastJumpTime (cooldownTaskState g c l) = l"
  "successSteps (cooldownTaskState g c l) = 0"
  "GapCrossingTaskV2.actions (cooldownTaskState g c l)
     = [''forward'', ''back'', ''left'', ''right'', ''jump'', ''idle'']"
  "minX (GapCrossingTaskV2.goalZone (cooldownTaskState g c l)) > 0"
  by (simp_all add: cooldownTaskState_def cooldownTask_fields)

lemma cooldownTaskState_update:
  "(cooldownTaskState g c l)\<lparr>GapCrossingTaskV2.isGrounded := g'\<rparr> = cooldownTaskState g' c l"
  "(cooldownTaskState g c l)\<lparr>GapCrossingTaskV2.canJump := c'\<rparr> = cooldownTaskState g c' l"
  "(cooldownTaskState g c l)\<lparr>lastJumpTime := l'\<rparr> = cooldownTaskState g c l'"
  "(cooldownTaskState g c l)\<lparr>successSteps := 0\<rparr> = cooldownTaskState g c l"
  by (simp_all add: cooldownTaskState_def)

lemma cooldownTask_initial: "cooldownTask = cooldownTaskState False True 0"
  using cooldownTask_fields(8,9,10,11)
  by (cases cooldownTask) (simp add: cooldownTaskState_def)

lemma cooldownWorld_initial:
  "cooldownWorld = cooldownWorldState (Vec3 (- 4 / 3) 1 0) (Vec3 0 0 0)"
proof -
  have "(bodies cooldownWorld)(''agent'' \<mapsto> agentWith (Vec3 (- 4 / 3) 1 0) (Vec3 0 0 0))
          = bodies cooldownWorld"
    using cooldownWorld_fields(1) unfolding getBody_def by (rule map_upd_triv)
  then show ?thesis by (simp add: cooldownWorldState_def setBody_def)
qed

lemma cooldownWorldState_agent [simp]:
  "getBody (cooldownWorldState q v) ''agent'' = Some (agentWith q v)"
  "world_gravity (cooldownWorldState q v) = 15" "world_timeStep (cooldownWorldState q v) = 0.3"
  by (simp_all add: cooldownWorldState_def cooldownWorld_fields)

lemma cooldownWorldState_setBody [simp]:
  "setBody ''agent'' (agentWith q' v') (cooldownWorldState q v) = cooldownWorldState q' v'"
  by (simp add: cooldownWorldState_def)

lemma agentWith_sel [simp]: "position (agentWith q v) = q" "velocity (agentWith q v) = v"
  by (simp_all add: agentWith_def)

lemma agentWith_updates [simp]:
  "setVelY r (agentWith q v) = agentWith q (set_y r v)"
  "dragHorizontal f (agentWith q v) = agentWith q (Vec3 (vec_x v * f) (vec_y v) (vec_z v * f))"
  "clampHorizontal m (agentWith q v)
     = agentWith q (Vec3 (clampSpeed m (vec_x v)) (vec_y v) (clampSpeed m (vec_z v)))"
  "(agentWith q v)\<lparr>position := q', velocity := v'\<rparr> = agentWith q' v'"
  by (simp_all add: agentWith_def setVelY_def dragHorizontal_def clampHorizontal_def)

lemma toLowerCase_jump: "toLowerCase ''jump'' = ''jump''"
  by (simp add: toLowerCase_def lowerChar_def)

lemma normalizeAction_jump [simp]:
  "normalizeAction as (ActionString ''jump'') = Inr (Some ''jump'')"
  by (simp add: normalizeAction_def toLowerCase_jump)

lemma cooldown_jump_accepted:
  assumes "now - l > 500" and "c \<or> \<not> g" and "d < 3 / 10"
  shows "GapCrossingTaskV2_applyAction cooldownConfig now (ActionString ''jump'')
           (cooldownTaskState g c l, cooldownWorldState (Vec3 qx (9 / 10 + d) qz) (Vec3 0 0 0)) =
         ((cooldownTaskState True False now,
          cooldownWorldState (Vec3 qx (9 / 10 + d) qz) (Vec3 0 6 0)), None)"
proof -
  have s: "sqrt (2 * 15 * (12 / 10)) = (6::real)"
  proof -
    have "sqrt (6 * 6) = \<bar>6::real\<bar>" by (rule real_sqrt_abs2)
    then show ?thesis by simp
  qed
  from assms show ?thesis
    by (auto simp: GapCrossingTaskV2_applyAction_def Let_def groundedCheck_def
        cooldownConfig_fields cooldownTaskState_update s set_y_def clampSpeed_def)
qed

lemma cooldown_jump_rejected:
  assumes "\<not> now - l > 500" and "d < 3 / 10"
  shows "GapCrossingTaskV2_applyAction cooldownConfig now (ActionString ''jump'')
           (cooldownTaskState g c l, cooldownWorldState (Vec3 qx (9 / 10 + d) qz) (Vec3 0 0 0)) =
         ((cooldownTaskState True (c \<or> \<not> g) l,
          cooldownWorldState (Vec3 qx (9 / 10 + d) qz) (Vec3 0 0 0)), None)"
  using assms
  by (auto simp: GapCrossingTaskV2_applyAction_def Let_def groundedCheck_def
      cooldownConfig_fields cooldownTaskState_update clampSpeed_def)

lemma cooldown_idle_airborne:
  assumes "\<bar>vy\<bar> \<ge> 1 / 10"
  shows "GapCrossingTaskV2_applyAction cooldownConfig now (ActionString ''idle'')
           (cooldownTaskState g c l, cooldownWorldState q (Vec3 0 vy 0)) =
         ((cooldownTaskState False c l, cooldownWorldState q (Vec3 0 vy 0)), None)"
  using assms
  by (auto simp: GapCrossingTaskV2_applyAction_def Let_def groundedCheck_def
      cooldownConfig_fields cooldownTaskState_update clampSpeed_def)

lemma cooldown_backend:
  "freeFallBackend (cooldownWorldState q v) =
     setBody ''agent'' (freeFall 15 (3 / 10) (agentWith q v)) (cooldownWorldState q v)"
  by (simp add: freeFallBackend_def)

lemma cooldown_check_ongoing:
  assumes "vec_y q \<ge> - 5" and "\<bar>vec_z q\<bar> \<le> 2" and "vec_x q \<le> 0"
  shows "GapCrossingTaskV2_checkTermination (cooldownTaskState g c l) (cooldownWorldState q v) =
           (cooldownTaskState g c l, terminationResult False False ''ongoing'')"
proof -
  have "minX (GapCrossingTaskV2.goalZone (cooldownTaskState g c l)) > 0"
    by (rule cooldownTaskState_fields(13))
  with assms(3) have "\<not> inZone q (GapCrossingTaskV2.goalZone (cooldownTaskState g c l))"
    unfolding inZone_def by linarith
  with assms(1,2) show ?thesis
    by (simp add: GapCrossingTaskV2_checkTermination_def Let_def cooldownTaskState_update)
qed

lemma cooldown_step:
  assumes a: "GapCrossingTaskV2_applyAction cooldownConfig (clk 0) act
                (cooldownTaskState g c l, cooldownWorldState q v)
              = ((cooldownTaskState g1 c1 l1, cooldownWorldState q1 v1), None)"
    and b: "freeFall 15 (3 / 10) (agentWith q1 v1) = agentWith q2 v2"
    and y: "vec_y q2 \<ge> - 5" and z: "\<bar>vec_z q2\<bar> \<le> 2" and x: "vec_x q2 \<le> 0"
    and n: "n + 1 < 500"
  shows "fst (stepEnvironment freeFallBackend clk ''session'' act p (cooldownSession n g c l q v))
           = cooldownSession (n + 1) g1 c1 l1 q2 v2"
    and "observedAgentVelocity
           (snd (stepEnvironment freeFallBackend clk ''session'' act p
                   (cooldownSession n g c l q v))) = Some v2"
proof -
  have t: "tickLoop freeFallBackend cooldownConfig clk act p 0 (Suc 0)
             (GapTaskV2 (cooldownTaskState g c l), cooldownWorldState q v)
           = ((GapTaskV2 (cooldownTaskState g1 c1 l1), cooldownWorldState q2 v2), None)"
    by (simp add: task_applyAction_def a cooldown_backend b)
  have k: "task_checkTermination (GapTaskV2 (cooldownTaskState g1 c1 l1)) (cooldownWorldState q2 v2)
           = Inr (GapTaskV2 (cooldownTaskState g1 c1 l1), terminationResult False False ''ongoing'')"
    by (simp add: task_checkTermination_def cooldown_check_ongoing [OF y z x])
  have o: "task_getObservation (GapTaskV2 (cooldownTaskState g1 c1 l1)) (cooldownWorldState q2 v2)
             cooldownConfig
           = Inr (ObsGapV2 ob) \<and> GapObservation.agentVelocity ob = v2"
    if "ob = projr (GapCrossingTaskV2_getObservation (cooldownTaskState g1 c1 l1)
                      (cooldownWorldState q2 v2) cooldownConfig)" for ob
    using that
    by (simp add: task_getObservation_def GapCrossingTaskV2_getObservation_def getBodyState_def
        cooldownWorldState_def setBody_def agentWith_def)
  note o' = o [OF refl]
  show "fst (stepEnvironment freeFallBackend clk ''session'' act p (cooldownSession n g c l q v))
           = cooldownSession (n + 1) g1 c1 l1 q2 v2"
    using n
    by (simp add: stepEnvironment_def cooldownSession_def cooldownConfig_fields t k Let_def
        getReward_def del: tickLoop.simps)
  show "observedAgentVelocity
           (snd (stepEnvironment freeFallBackend clk ''session'' act p
                   (cooldownSession n g c l q v))) = Some v2"
    using n o'
    by (simp add: stepEnvironment_def cooldownSession_def cooldownConfig_fields t k Let_def
        getReward_def observedAgentVelocity_def del: tickLoop.simps)
qed

lemma freeFall_steps:
  "freeFall 15 (3 / 10) (agentWith (Vec3 (- 4 / 3) (9 / 10 + 1 / 10) 0) (Vec3 0 6 0))
     = agentWith (Vec3 (- 4 / 3) (29 / 20) 0) (Vec3 0 (3 / 2) 0)"
  "freeFall 15 (3 / 10) (agentWith (Vec3 (- 4 / 3) (29 / 20) 0) (Vec3 0 (3 / 2) 0))
     = agentWith (Vec3 (- 4 / 3) (9 / 10) 0) (Vec3 0 0 0)"
  "freeFall 15 (3 / 10) (agentWith (Vec3 (- 4 / 3) (9 / 10 + 0) 0) (Vec3 0 6 0))
     = agentWith (Vec3 (- 4 / 3) (27 / 20) 0) (Vec3 0 (3 / 2) 0)"
  "freeFall 15 (3 / 10) (agentWith (Vec3 (- 4 / 3) (9 / 10 + 0) 0) (Vec3 0 0 0))
     = agentWith (Vec3 (- 4 / 3) (9 / 10) 0) (Vec3 0 0 0)"
  by (simp_all add: freeFall_def Let_def)

lemma cooldown_initial_session:
  "fst (createEnvironment ''session'' cooldownRequest Map.empty)
     = cooldownSession 0 False True 0 (Vec3 (- 4 / 3) (9 / 10 + 1 / 10) 0) (Vec3 0 0 0)"
proof -
  have "Vec3 (- 4 / 3) (9 / 10 + 1 / 10) 0 = Vec3 (- 4 / 3) 1 (0::real)" by simp
  then show ?thesis
    by (simp only: cooldown_reset fst_conv cooldownSession_def
        cooldownTask_initial [symmetric] cooldownWorld_initial [symmetric])
qed

lemma runSteps_three:
  assumes "fst (stepEnvironment B (clock k) sid x1 p1 e0) = e1"
    and "fst (stepEnvironment B (clock (Suc k)) sid x2 p2 e1) = e2"
  shows "runSteps B clock sid k [(x1, p1), (x2, p2), (x3, p3)] e0
         = [snd (stepEnvironment B (clock k) sid x1 p1 e0),
            snd (stepEnvironment B (clock (Suc k)) sid x2 p2 e1),
            snd (stepEnvironment B (clock (Suc (Suc k))) sid x3 p3 e2)]"
  unfolding assms [symmetric] by (simp add: split_beta)

lemma trajectory_steps:
  "snd (trajectory B clock req steps)
   = runSteps B clock ''session'' 0 steps (fst (createEnvironment ''session'' req Map.empty))"
  by (simp add: trajectory_def split_beta)

lemma slowClock_run:
  "map observedAgentVelocity
     (snd (trajectory freeFallBackend slowClock cooldownRequest jumpIdleJump))
   = [Some (Vec3 0 (3 / 2) 0), Some (Vec3 0 0 0), Some (Vec3 0 (3 / 2) 0)]"
proof -
  let ?e0 = "cooldownSession 0 False True 0 (Vec3 (- 4 / 3) (9 / 10 + 1 / 10) 0) (Vec3 0 0 0)"
  let ?e1 = "cooldownSession 1 True False 1700000000000 (Vec3 (- 4 / 3) (29 / 20) 0) (Vec3 0 (3 / 2) 0)"
  let ?e2 = "cooldownSession 2 False False 1700000000000 (Vec3 (- 4 / 3) (9 / 10) 0) (Vec3 0 0 0)"
  let ?s1 = "stepEnvironment freeFallBackend (slowClock 0) ''session'' (ActionString ''jump'')
               noParams ?e0"
  let ?s2 = "stepEnvironment freeFallBackend (slowClock (Suc 0)) ''session'' (ActionString ''idle'')
               noParams ?e1"
  let ?s3 = "stepEnvironment freeFallBackend (slowClock (Suc (Suc 0))) ''session''
               (ActionString ''jump'') noParams ?e2"
  have c0: "slowClock 0 0 = 1700000000000" and c2: "slowClock (Suc (Suc 0)) 0 = 1700000002000"
    by (simp_all add: slowClock_def)
  have a1: "GapCrossingTaskV2_applyAction cooldownConfig (slowClock 0 0) (ActionString ''jump'')
              (cooldownTaskState False True 0,
               cooldownWorldState (Vec3 (- 4 / 3) (9 / 10 + 1 / 10) 0) (Vec3 0 0 0))
            = ((cooldownTaskState True False 1700000000000,
               cooldownWorldState (Vec3 (- 4 / 3) (9 / 10 + 1 / 10) 0) (Vec3 0 6 0)), None)"
    unfolding c0 by (rule cooldown_jump_accepted) simp_all
  have f1: "fst ?s1 = ?e1" and v1: "observedAgentVelocity (snd ?s1) = Some (Vec3 0 (3 / 2) 0)"
    using cooldown_step [where clk = "slowClock 0" and n = 0 and p = noParams,
        OF a1 freeFall_steps(1)] by simp_all
  have a2: "GapCrossingTaskV2_applyAction cooldownConfig (slowClock (Suc 0) 0) (ActionString ''idle'')
              (cooldownTaskState True False 1700000000000,
               cooldownWorldState (Vec3 (- 4 / 3) (29 / 20) 0) (Vec3 0 (3 / 2) 0))
            = ((cooldownTaskState False False 1700000000000,
               cooldownWorldState (Vec3 (- 4 / 3) (29 / 20) 0) (Vec3 0 (3 / 2) 0)), None)"
    by (rule cooldown_idle_airborne) simp
  have f2: "fst ?s2 = ?e2" and v2: "observedAgentVelocity (snd ?s2) = Some (Vec3 0 0 0)"
    using cooldown_step [where clk = "slowClock (Suc 0)" and n = 1 and p = noParams,
        OF a2 freeFall_steps(2)] by simp_all
  have a3: "GapCrossingTaskV2_applyAction cooldownConfig (slowClock (Suc (Suc 0)) 0)
              (ActionString ''jump'')
              (cooldownTaskState False False 1700000000000,
               cooldownWorldState (Vec3 (- 4 / 3) (9 / 10 + 0) 0) (Vec3 0 0 0))
            = ((cooldownTaskState True False 1700000002000,
               cooldownWorldState (Vec3 (- 4 / 3) (9 / 10 + 0) 0) (Vec3 0 6 0)), None)"
    unfolding c2 by (rule cooldown_jump_accepted) simp_all
  have v3: "observedAgentVelocity (snd ?s3) = Some (Vec3 0 (3 / 2) 0)"
    using cooldown_step(2) [where clk = "slowClock (Suc (Suc 0))" and n = 2 and p = noParams,
        OF a3 freeFall_steps(3)] by simp
  have "snd (trajectory freeFallBackend slowClock cooldownRequest jumpIdleJump)
          = [snd ?s1, snd ?s2, snd ?s3]"
    unfolding trajectory_steps cooldown_initial_session jumpIdleJump_def
    by (rule runSteps_three [OF f1 f2])
  then show ?thesis by (simp only: list.map v1 v2 v3)
qed

lemma fastClock_run:
  "map observedAgentVelocity
     (snd (trajectory freeFallBackend fastClock cooldownRequest jumpIdleJump))
   = [Some (Vec3 0 (3 / 2) 0), Some (Vec3 0 0 0), Some (Vec3 0 0 0)]"
proof -
  let ?e0 = "cooldownSession 0 False True 0 (Vec3 (- 4 / 3) (9 / 10 + 1 / 10) 0) (Vec3 0 0 0)"
  let ?e1 = "cooldownSession 1 True False 1700000000000 (Vec3 (- 4 / 3) (29 / 20) 0) (Vec3 0 (3 / 2) 0)"
  let ?e2 = "cooldownSession 2 False False 1700000000000 (Vec3 (- 4 / 3) (9 / 10) 0) (Vec3 0 0 0)"
  let ?s1 = "stepEnvironment freeFallBackend (fastClock 0) ''session'' (ActionString ''jump'')
               noParams ?e0"
  let ?s2 = "stepEnvironment freeFallBackend (fastClock (Suc 0)) ''session'' (ActionString ''idle'')
               noParams ?e1"
  let ?s3 = "stepEnvironment freeFallBackend (fastClock (Suc (Suc 0))) ''session''
               (ActionString ''jump'') noParams ?e2"
  have c0: "fastClock 0 0 = 1700000000000" and c2: "fastClock (Suc (Suc 0)) 0 = 1700000000200"
    by (simp_all add: fastClock_def)
  have a1: "GapCrossingTaskV2_applyAction cooldownConfig (fastClock 0 0) (ActionString ''jump'')
              (cooldownTaskState False True 0,
               cooldownWorldState (Vec3 (- 4 / 3) (9 / 10 + 1 / 10) 0) (Vec3 0 0 0))
            = ((cooldownTaskState True False 1700000000000,
               cooldownWorldState (Vec3 (- 4 / 3) (9 / 10 + 1 / 10) 0) (Vec3 0 6 0)), None)"
    unfolding c0 by (rule cooldown_jump_accepted) simp_all
  have f1: "fst ?s1 = ?e1" and v1: "observedAgentVelocity (snd ?s1) = Some (Vec3 0 (3 / 2) 0)"
    using cooldown_step [where clk = "fastClock 0" and n = 0 and p = noParams,
        OF a1 freeFall_steps(1)] by simp_all
  have a2: "GapCrossingTaskV2_applyAction cooldownConfig (fastClock (Suc 0) 0) (ActionString ''idle'')
              (cooldownTaskState True False 1700000000000,
               cooldownWorldState (Vec3 (- 4 / 3) (29 / 20) 0) (Vec3 0 (3 / 2) 0))
            = ((cooldownTaskState False False 1700000000000,
               cooldownWorldState (Vec3 (- 4 / 3) (29 / 20) 0) (Vec3 0 (3 / 2) 0)), None)"
    by (rule cooldown_idle_airborne) simp
  have f2: "fst ?s2 = ?e2" and v2: "observedAgentVelocity (snd ?s2) = Some (Vec3 0 0 0)"
    using cooldown_step [where clk = "fastClock (Suc 0)" and n = 1 and p = noParams,
        OF a2 freeFall_steps(2)] by simp_all
  have a3: "GapCrossingTaskV2_applyAction cooldownConfig (fastClock (Suc (Suc 0)) 0)
              (ActionString ''jump'')
              (cooldownTaskState False False 1700000000000,
               cooldownWorldState (Vec3 (- 4 / 3) (9 / 10 + 0) 0) (Vec3 0 0 0))
            = ((cooldownTaskState True (False \<or> \<not> False) 1700000000000,
               cooldownWorldState (Vec3 (- 4 / 3) (9 / 10 + 0) 0) (Vec3 0 0 0)), None)"
    unfolding c2 by (rule cooldown_jump_rejected) simp_all
  have v3: "observedAgentVelocity (snd ?s3) = Some (Vec3 0 0 0)"
    using cooldown_step(2) [where clk = "fastClock (Suc (Suc 0))" and n = 2 and p = noParams,
        OF a3 freeFall_steps(4)] by simp
  have "snd (trajectory freeFallBackend fastClock cooldownRequest jumpIdleJump)
          = [snd ?s1, snd ?s2, snd ?s3]"
    unfolding trajectory_steps cooldown_initial_session jumpIdleJump_def
    by (rule runSteps_three [OF f1 f2])
  then show ?thesis by (simp only: list.map v1 v2 v3)
qed

text \<open>
  Claim C1. Two fresh sessions with the same seed, the same configuration and the same
  action sequence must return the same trajectory when the backend steps
  deterministically. The second revision of the traversal task reads the wall clock
  (\<open>Date.now()\<close>) for its jump cooldown, so the trajectory also depends on when the caller
  sends its steps: with the deterministic backend \<open>freeFallBackend\<close> and the actions
  \<open>jump, idle, jump\<close>, the caller that waits a second between steps gets its second jump
  (the agent leaves the ground at 1.5 m/s after the tick), the caller that sends a step
  every 100 ms does not (the agent stays at rest).
\<close>

theorem wall_clock_changes_trajectory:
  "map observedAgentVelocity
     (snd (trajectory freeFallBackend slowClock cooldownRequest jumpIdleJump))
     = [Some (Vec3 0 (3 / 2) 0), Some (Vec3 0 0 0), Some (Vec3 0 (3 / 2) 0)]
   \<and> map observedAgentVelocity
       (snd (trajectory freeFallBackend fastClock cooldownRequest jumpIdleJump))
     = [Some (Vec3 0 (3 / 2) 0), Some (Vec3 0 0 0), Some (Vec3 0 0 0)]
   \<and> trajectory freeFallBackend slowClock cooldownRequest jumpIdleJump
     \<noteq> trajectory freeFallBackend fastClock cooldownRequest jumpIdleJump"
proof -
  have "trajectory freeFallBackend slowClock cooldownRequest jumpIdleJump
     \<noteq> trajectory freeFallBackend fastClock cooldownRequest jumpIdleJump"
  proof
    assume "trajectory freeFallBackend slowClock cooldownRequest jumpIdleJump
      = trajectory freeFallBackend fastClock cooldownRequest jumpIdleJump"
    then have "map observedAgentVelocity
        (snd (trajectory freeFallBackend slowClock cooldownRequest jumpIdleJump))
      = map observedAgentVelocity
        (snd (trajectory freeFallBackend fastClock cooldownRequest jumpIdleJump))"
      by simp
    then show False unfolding slowClock_run fastClock_run by simp
  qed
  with slowClock_run fastClock_run show ?thesis by blast
qed

subsection \<open>Sessions that never read the clock\<close>

lemma task_applyAction_clockFree:
  "\<not> readsClock tk \<Longrightarrow>
   task_applyAction cfg now act p (tk, w) = task_applyAction cfg now' act p (tk, w)"
  by (cases tk) (simp_all add: task_applyAction_def)

lemma task_applyAction_class:
  "task_applyAction cfg now act p (tk, w) = ((tk', w'), e) \<Longrightarrow> readsClock tk' = readsClock tk"
  by (cases tk) (auto simp add: task_applyAction_def split: prod.splits)

lemma tickLoop_clockFree:
  "\<not> readsClock (fst s) \<Longrightarrow>
   tickLoop B cfg clock act p i n s = tickLoop B cfg clock' act p j n s"
proof (induction n arbitrary: i j s)
  case 0
  show ?case by simp
next
  case (Suc n)
  obtain tk w where s: "s = (tk, w)" by (cases s)
  from Suc.prems s have k: "\<not> readsClock tk" by simp
  have e: "task_applyAction cfg (clock i) act p s = task_applyAction cfg (clock' j) act p s"
    unfolding s by (rule task_applyAction_clockFree [OF k])
  obtain tk' w' r where a: "task_applyAction cfg (clock' j) act p s = ((tk', w'), r)"
    by (metis surj_pair)
  show ?case
  proof (cases r)
    case (Some err)
    with e a show ?thesis by simp
  next
    case None
    from a s have "readsClock tk' = readsClock tk"
      by (simp add: task_applyAction_class)
    with k have "\<not> readsClock (fst (tk', B w'))" by simp
    from Suc.IH [OF this, of "Suc i" "Suc j"] e a None show ?thesis by simp
  qed
qed

lemma tickLoop_class:
  "tickLoop B cfg clock act p i n s = (s', e) \<Longrightarrow> readsClock (fst s') = readsClock (fst s)"
proof (induction n arbitrary: i s)
  case 0
  then show ?case by simp
next
  case (Suc n)
  obtain tk w where s: "s = (tk, w)" by (cases s)
  obtain tk' w' r where a: "task_applyAction cfg (clock i) act p s = ((tk', w'), r)"
    by (metis surj_pair)
  from a s have c: "readsClock tk' = readsClock tk"
    by (simp add: task_applyAction_class)
  show ?case
  proof (cases r)
    case (Some err)
    with Suc.prems a c s show ?thesis by auto
  next
    case None
    with Suc.prems a have "tickLoop B cfg clock act p (Suc i) n (tk', B w') = (s', e)"
      by simp
    from Suc.IH [OF this] c s show ?thesis by simp
  qed
qed

lemma task_checkTermination_class:
  "task_checkTermination tk w = Inr (tk', r) \<Longrightarrow> readsClock tk' = readsClock tk"
  by (cases tk) (auto simp add: task_checkTermination_def split: prod.splits)

lemma stepEnvironment_clockFree:
  assumes "clockFree environments sessionId"
  shows "stepEnvironment B clock sessionId act p environments
         = stepEnvironment B clock' sessionId act p environments"
proof (cases "environments sessionId")
  case None
  then show ?thesis by (simp add: stepEnvironment_def)
next
  case (Some env)
  with assms have "\<not> readsClock (fst (task env, world env))" by (simp add: clockFree_def)
  then have t: "tickLoop B (config env) clock act p 0 n (task env, world env)
      = tickLoop B (config env) clock' act p 0 n (task env, world env)" for n
    by (rule tickLoop_clockFree)
  show ?thesis by (simp only: stepEnvironment_def Some option.case t)
qed

lemma stepEnvironment_keeps_class:
  assumes "clockFree environments sessionId"
  shows "clockFree (fst (stepEnvironment B clock sessionId act p environments)) sessionId"
proof (cases "environments sessionId")
  case None
  with assms show ?thesis by (simp add: stepEnvironment_def)
next
  case (Some env)
  with assms have k: "\<not> readsClock (task env)" by (simp add: clockFree_def)
  show ?thesis
  proof (cases "env_done env")
    case True
    with Some assms show ?thesis by (simp add: stepEnvironment_def)
  next
    case False
    obtain tk w e where l: "tickLoop B (config env) clock act p 0
        (nat (physicsTicksPerStep (config env))) (task env, world env) = ((tk, w), e)"
      by (metis surj_pair)
    from tickLoop_class [OF l] k have k1: "\<not> readsClock tk" by simp
    show ?thesis
    proof (cases e)
      case (Some err)
      with \<open>environments sessionId = Some env\<close> False l k1 show ?thesis
        by (simp add: stepEnvironment_def clockFree_def)
    next
      case None
      show ?thesis
      proof (cases "task_checkTermination tk w")
        case (Inl err)
        with \<open>environments sessionId = Some env\<close> False l None k1 show ?thesis
          by (simp add: stepEnvironment_def clockFree_def)
      next
        case (Inr r)
        obtain tk' tr where r: "r = (tk', tr)" by (cases r)
        from Inr r k1 have "\<not> readsClock tk'"
          by (simp add: task_checkTermination_class)
        with \<open>environments sessionId = Some env\<close> False l None Inr r show ?thesis
          by (simp add: stepEnvironment_def clockFree_def Let_def)
      qed
    qed
  qed
qed

lemma runSteps_clockFree:
  "clockFree environments sessionId \<Longrightarrow>
   runSteps B clock sessionId k steps environments
   = runSteps B clock' sessionId k' steps environments"
proof (induction steps arbitrary: k k' environments)
  case Nil
  show ?case by simp
next
  case (Cons ap rest)
  have e: "stepEnvironment B (clock k) sessionId (fst ap) (snd ap) environments
      = stepEnvironment B (clock' k') sessionId (fst ap) (snd ap) environments"
    by (rule stepEnvironment_clockFree [OF Cons.prems])
  have "clockFree (fst (stepEnvironment B (clock' k') sessionId (fst ap) (snd ap) environments))
          sessionId"
    by (rule stepEnvironment_keeps_class [OF Cons.prems])
  from Cons.IH [OF this, of "Suc k" "Suc k'"] e show ?case
    by (simp add: split_beta)
qed

lemma new_task_readsClock:
  "readsClock (fst (new_task c w cfg)) \<longleftrightarrow> c = GapCrossingTaskV2Class"
  by (cases c) (simp_all add: new_task_def split_beta)

lemma createEnvironment_clockFree:
  assumes "TASKS (if taskVersion (mergeConfig req) = Some ''v2''
                  then Config.task (mergeConfig req) @ ''_v2''
                  else Config.task (mergeConfig req)) \<noteq> TaskClass GapCrossingTaskV2Class"
  shows "clockFree (fst (createEnvironment sessionId req Map.empty)) sessionId"
proof (cases "TASKS (if taskVersion (mergeConfig req) = Some ''v2''
                  then Config.task (mergeConfig req) @ ''_v2''
                  else Config.task (mergeConfig req))")
  case (TaskClass c)
  with assms have "c \<noteq> GapCrossingTaskV2Class" by simp
  then have "\<not> readsClock (fst (new_task c w cfg))" for w cfg
    by (simp add: new_task_readsClock)
  with TaskClass show ?thesis
    by (simp add: createEnvironment_def clockFree_def Let_def split_beta)
next
  case ObjectConstructor
  then show ?thesis by (simp add: createEnvironment_def clockFree_def Let_def)
next
  case NotAConstructor
  then show ?thesis by (simp add: createEnvironment_def clockFree_def Let_def)
next
  case Undefined
  then show ?thesis by (simp add: createEnvironment_def clockFree_def Let_def)
qed

lemma trajectory_clockFree:
  assumes "TASKS (if taskVersion (mergeConfig req) = Some ''v2''
                  then Config.task (mergeConfig req) @ ''_v2''
                  else Config.task (mergeConfig req)) \<noteq> TaskClass GapCrossingTaskV2Class"
  shows "trajectory B clock req steps = trajectory B clock' req steps"
  using runSteps_clockFree [OF createEnvironment_clockFree [OF assms],
      where B = B and clock = clock and clock' = clock' and k = 0 and k' = 0 and steps = steps]
  by (simp add: trajectory_def split_beta)

end
